theory Spec2Isabelle
  imports Main "HOL-Library.Word"
begin

unbundle bit_operations_syntax

section \<open>DeployGo: detached execution of deployment scripts\<close>

text \<open>
  A shallow embedding of \<^verbatim>\<open>deployment.go\<close> and \<^verbatim>\<open>main.go\<close>. The Go functions
  are written in state-passing style over a record \<open>world\<close> that holds what the
  operating system holds for the process: the file system, the working directory, the
  clock, the console, and a trace of the system calls that were attempted. Every
  \<^verbatim>\<open>os.Exit\<close> and every error return of the source is a branch of the model.
\<close>

subsection \<open>Paths (package \<^verbatim>\<open>path/filepath\<close>, Unix)\<close>

type_synonym path = string

definition IsAbs :: "path \<Rightarrow> bool" where
  \<comment> \<open>\<^verbatim>\<open>strings.HasPrefix(path, "/")\<close>\<close>
  "IsAbs p = (case p of [] \<Rightarrow> False | c # _ \<Rightarrow> c = CHR ''/'')"

primrec splitOn :: "char \<Rightarrow> string \<Rightarrow> string list" where
  "splitOn c [] = [[]]"
| "splitOn c (x # xs) =
     (if x = c then [] # splitOn c xs
      else (case splitOn c xs of [] \<Rightarrow> [[x]] | y # ys \<Rightarrow> (x # y) # ys))"

primrec joinWith :: "string \<Rightarrow> string list \<Rightarrow> string" where
  "joinWith sep [] = []"
| "joinWith sep (x # xs) = (if xs = [] then x else x @ sep @ joinWith sep xs)"

definition clean_step :: "bool \<Rightarrow> string list \<Rightarrow> string \<Rightarrow> string list" where
  \<comment> \<open>one path element against the elements kept so far: empty elements and \<^verbatim>\<open>.\<close> are
      dropped, \<^verbatim>\<open>..\<close> removes the element before it, or is dropped at the root\<close>
  "clean_step rooted st c =
     (if c = [] \<or> c = ''.'' then st
      else if c = ''..'' then
        (if st \<noteq> [] \<and> last st \<noteq> ''..'' then butlast st
         else if rooted then st else st @ [c])
      else st @ [c])"

definition filepath_Clean :: "path \<Rightarrow> path" where
  "filepath_Clean p =
     (let rooted = IsAbs p;
          st = foldl (clean_step rooted) [] (splitOn (CHR ''/'') p);
          body = joinWith ''/'' st
      in if rooted then CHR ''/'' # body else if st = [] then ''.'' else body)"

definition filepath_Join :: "path \<Rightarrow> path \<Rightarrow> path" where
  \<comment> \<open>\<^verbatim>\<open>filepath.Join(d, f)\<close>: the non-empty elements joined by a slash, then cleaned\<close>
  "filepath_Join d f =
     (if d = [] \<and> f = [] then []
      else filepath_Clean (if d = [] then f else d @ ''/'' @ f))"

definition filepath_Dir :: "path \<Rightarrow> path" where
  \<comment> \<open>the path up to its last slash, cleaned\<close>
  "filepath_Dir p = filepath_Clean (rev (dropWhile (\<lambda>c. c \<noteq> CHR ''/'') (rev p)))"

subsection \<open>Time\<close>

text \<open>
  A reading of the clock: the nanoseconds since the epoch, and the calendar fields of the
  same instant in the local zone. Both come from the environment; the conversion between
  them is not modelled.
\<close>

record time =
  UnixNano :: int
  Year :: nat
  Month :: nat
  Day :: nat
  Hour :: nat
  Minute :: nat
  Second :: nat

definition digit :: "nat \<Rightarrow> char" where
  "digit n = ''0123456789'' ! (n mod 10)"

fun show_nat :: "nat \<Rightarrow> string" where
  "show_nat n = (if n < 10 then [digit n] else show_nat (n div 10) @ [digit n])"

declare show_nat.simps [simp del]

definition show_int :: "int \<Rightarrow> string" where
  \<comment> \<open>\<^verbatim>\<open>fmt.Sprintf("%d", i)\<close>\<close>
  "show_int i = (if i < 0 then CHR ''-'' # show_nat (nat (- i)) else show_nat (nat i))"

definition zpad :: "nat \<Rightarrow> nat \<Rightarrow> string" where
  \<comment> \<open>a number in decimal, zero-padded on the left to at least \<open>k\<close> digits\<close>
  "zpad k n = (let s = show_nat n in replicate (k - length s) (CHR ''0'') @ s)"

definition Format_log :: "time \<Rightarrow> string" where
  \<comment> \<open>layout \<^verbatim>\<open>2006-01-02 15:04:05\<close>\<close>
  "Format_log t = zpad 4 (Year t) @ ''-'' @ zpad 2 (Month t) @ ''-'' @ zpad 2 (Day t) @ '' ''
     @ zpad 2 (Hour t) @ '':'' @ zpad 2 (Minute t) @ '':'' @ zpad 2 (Second t)"

definition Format_rotate :: "time \<Rightarrow> string" where
  \<comment> \<open>layout \<^verbatim>\<open>20060102_150405\<close>\<close>
  "Format_rotate t = zpad 4 (Year t) @ zpad 2 (Month t) @ zpad 2 (Day t) @ ''_''
     @ zpad 2 (Hour t) @ zpad 2 (Minute t) @ zpad 2 (Second t)"

subsection \<open>Errors\<close>

datatype errno = ENOENT | EACCES | EPERM | ENOTDIR | EISDIR | EEXIST | EIO | EMFILE

fun errno_text :: "errno \<Rightarrow> string" where
  "errno_text ENOENT = ''no such file or directory''"
| "errno_text EACCES = ''permission denied''"
| "errno_text EPERM = ''operation not permitted''"
| "errno_text ENOTDIR = ''not a directory''"
| "errno_text EISDIR = ''is a directory''"
| "errno_text EEXIST = ''file exists''"
| "errno_text EIO = ''input/output error''"
| "errno_text EMFILE = ''too many open files''"

datatype error =
    PathError string path errno       \<comment> \<open>\<^verbatim>\<open>*fs.PathError\<close>: operation, path, cause\<close>
  | LinkError string path path errno  \<comment> \<open>\<^verbatim>\<open>*os.LinkError\<close>\<close>
  | ExitError nat                     \<comment> \<open>\<^verbatim>\<open>*exec.ExitError\<close>: the child's exit status\<close>
  | Errorf string                     \<comment> \<open>\<^verbatim>\<open>fmt.Errorf\<close> and other errors that are a text only\<close>

fun Error :: "error \<Rightarrow> string" where
  "Error (PathError opn p e) = opn @ '' '' @ p @ '': '' @ errno_text e"
| "Error (LinkError opn p q e) = opn @ '' '' @ p @ '' '' @ q @ '': '' @ errno_text e"
| "Error (ExitError n) = ''exit status '' @ show_nat n"
| "Error (Errorf s) = s"

fun IsNotExist :: "error option \<Rightarrow> bool" where
  \<comment> \<open>\<^verbatim>\<open>os.IsNotExist(err)\<close>; \<open>None\<close> is the nil error\<close>
  "IsNotExist (Some (PathError _ _ e)) = (e = ENOENT)"
| "IsNotExist (Some (LinkError _ _ _ e)) = (e = ENOENT)"
| "IsNotExist _ = False"

definition err_of :: "error + 'a \<Rightarrow> error option" where
  "err_of r = (case r of Inl e \<Rightarrow> Some e | Inr _ \<Rightarrow> None)"

subsection \<open>The operating system as seen by the process\<close>

type_synonym FileMode = "32 word"

datatype stream = STDOUT | STDERR

text \<open>
  A JSON document. \<open>JString s\<close> is the JSON string that \<^verbatim>\<open>json.Marshal\<close> writes for the
  Go string \<open>s\<close>: a byte of \<open>s\<close> that belongs to no UTF-8 encoding is written as the
  replacement character \<^verbatim>\<open>U+FFFD\<close>, so decoding gives \<open>s\<close> back with these bytes
  replaced (\<open>toValidUTF8\<close> below). \<open>JTime t\<close> is the JSON string that spells the instant
  \<open>t\<close> in RFC 3339, the form \<^verbatim>\<open>time.Time\<close> marshals to.
\<close>

datatype json =
    JNull
  | JNumber int
  | JString string
  | JTime time
  | JObject "(string \<times> json) list"

text \<open>
  The content of a file is the sequence of the chunks written to it. A chunk is the text
  of a JSON document (kept as the document) or a text that is not JSON, such as a log
  entry.
\<close>

datatype chunk = Text string | Json json

datatype node = Dir FileMode | File FileMode "chunk list"

datatype oflag = O_TRUNC | O_APPEND | O_EXCL

datatype syscall =
  SysStat | SysOpen | SysWrite | SysRead | SysChdir | SysChmod | SysRename | SysRemove
  | SysPipe | SysStart

datatype event =
    EvStat path
  | EvOpen path
  | EvWrite path
  | EvRead path
  | EvChdir path
  | EvChmod path FileMode
  | EvRename path path
  | EvRemove path
  | EvStart "string list"
  | EvWait "string list"

text \<open>
  What running a script with bash gives, as far as the parent process can see it: the
  bytes the script writes to its standard output and to its standard error, and its exit
  status. The parent reads the two streams through pipes, with one reader each, while the
  script runs. \<^verbatim>\<open>cmd.Wait\<close> closes the parent's ends of both pipes as soon as it has seen
  the child exit, whatever the readers have read by then: \<open>out_read\<close> and \<open>err_read\<close>
  say how many bytes each reader has got out of its pipe at that moment, and \<open>turns\<close> in
  which order the two readers come to move. A script that never exits is left out.
\<close>

record script_run =
  out_bytes :: string
  err_bytes :: string
  exit_status :: nat
  out_read :: nat
  err_read :: nat
  turns :: "stream list"

text \<open>
  \<open>files\<close> maps a cleaned absolute path to the entry that resolving the path reaches
  (symbolic links are not modelled). A call on a path is answered from this map unless the
  environment refuses it: \<open>fault\<close> is the refusal of a system call on a path for a reason
  the map of the entries does not show, which is every failure to resolve the path (a
  component that is missing, is not a directory or may not be searched, so also
  \<^verbatim>\<open>ENOTDIR\<close> below a regular file and a dot-dot behind a missing component), a full
  disk, a process limit. \<open>clock\<close> gives the successive readings of the clock and
  \<open>ticks\<close> counts the readings taken. \<open>rnd\<close> gives the random names
  \<^verbatim>\<open>os.CreateTemp\<close> draws, \<open>exe\<close> the answer of \<^verbatim>\<open>os.Executable\<close>, and \<open>bash\<close>
  what running a script with bash in a working directory gives. \<open>trace\<close> lists the
  system calls attempted.

  Left out: what the script itself does to the files, the environment variables handed to
  it, the umask, and other processes. The owner of every file is the user of the process,
  who is not root, so the owner's permission bits decide.
\<close>

record world =
  files :: "path \<rightharpoonup> node"
  fault :: "syscall \<Rightarrow> path \<Rightarrow> errno option"
  cwd :: path
  clock :: "nat \<Rightarrow> time"
  ticks :: nat
  tempdir :: path
  rnd :: "nat \<Rightarrow> string"
  exe :: "error + path"
  bash :: "path \<Rightarrow> path \<Rightarrow> script_run"
  trace :: "event list"
  stdout :: "string list"
  stderr :: "string list"

definition emit :: "event \<Rightarrow> world \<Rightarrow> world" where
  "emit e w = w\<lparr>trace := trace w @ [e]\<rparr>"

definition abspath :: "world \<Rightarrow> path \<Rightarrow> path" where
  "abspath w p = filepath_Clean (if IsAbs p then p else cwd w @ ''/'' @ p)"

definition time_Now :: "world \<Rightarrow> time \<times> world" where
  "time_Now w = (clock w (ticks w), w\<lparr>ticks := Suc (ticks w)\<rparr>)"

definition owner_write :: FileMode where "owner_write = 2 * 64"
definition owner_exec :: FileMode where "owner_exec = 1 * 64"

definition owner_read :: FileMode where "owner_read = 4 * 64"

definition refusal :: "world \<Rightarrow> syscall \<Rightarrow> path \<Rightarrow> errno option" where
  \<comment> \<open>a call on the empty path fails with \<^verbatim>\<open>ENOENT\<close>; otherwise the environment decides\<close>
  "refusal w sys p = (if p = [] then Some ENOENT else fault w sys p)"

definition dir_check :: "world \<Rightarrow> path \<Rightarrow> errno option" where
  \<comment> \<open>may an entry be added to or removed from the directory of the absolute path \<open>a\<close>\<close>
  "dir_check w a =
     (case files w (filepath_Dir a) of
        None \<Rightarrow> Some ENOENT
      | Some (File _ _) \<Rightarrow> Some ENOTDIR
      | Some (Dir m) \<Rightarrow> if m AND owner_write = 0 then Some EACCES else None)"

definition os_Stat :: "path \<Rightarrow> world \<Rightarrow> (error + node) \<times> world" where
  "os_Stat p w =
     (let w' = emit (EvStat p) w in
      case refusal w SysStat p of
        Some e \<Rightarrow> (Inl (PathError ''stat'' p e), w')
      | None \<Rightarrow>
          (case files w (abspath w p) of
             None \<Rightarrow> (Inl (PathError ''stat'' p ENOENT), w')
           | Some n \<Rightarrow> (Inr n, w')))"

definition os_OpenFile :: "path \<Rightarrow> oflag \<Rightarrow> FileMode \<Rightarrow> world \<Rightarrow> (error + path) \<times> world" where
  \<comment> \<open>\<^verbatim>\<open>os.OpenFile(p, O_CREATE|O_WRONLY|flag, perm)\<close>; the handle is the absolute path.
      With \<^verbatim>\<open>O_EXCL\<close> any entry already there, a directory too, is answered with
      \<^verbatim>\<open>EEXIST\<close>\<close>
  "os_OpenFile p fl perm w =
     (let w' = emit (EvOpen p) w; a = abspath w p in
      case refusal w SysOpen p of
        Some e \<Rightarrow> (Inl (PathError ''open'' p e), w')
      | None \<Rightarrow>
          (case files w a of
             Some (Dir _) \<Rightarrow>
               (Inl (PathError ''open'' p (if fl = O_EXCL then EEXIST else EISDIR)), w')
           | Some (File m d) \<Rightarrow>
               if fl = O_EXCL then (Inl (PathError ''open'' p EEXIST), w')
               else if m AND owner_write = 0 then (Inl (PathError ''open'' p EACCES), w')
               else if fl = O_TRUNC then (Inr a, w'\<lparr>files := (files w)(a \<mapsto> File m [])\<rparr>)
               else (Inr a, w')
           | None \<Rightarrow>
               (case dir_check w a of
                  Some e \<Rightarrow> (Inl (PathError ''open'' p e), w')
                | None \<Rightarrow> (Inr a, w'\<lparr>files := (files w)(a \<mapsto> File perm [])\<rparr>))))"

definition file_Write :: "path \<Rightarrow> chunk \<Rightarrow> world \<Rightarrow> error option \<times> world" where
  \<comment> \<open>one \<^verbatim>\<open>Write\<close> on an open handle; a file unlinked meanwhile takes the write unseen\<close>
  "file_Write h c w =
     (let w' = emit (EvWrite h) w in
      case fault w SysWrite h of
        Some e \<Rightarrow> (Some (PathError ''write'' h e), w')
      | None \<Rightarrow>
          (case files w h of
             Some (File m d) \<Rightarrow> (None, w'\<lparr>files := (files w)(h \<mapsto> File m (d @ [c]))\<rparr>)
           | _ \<Rightarrow> (None, w')))"

definition os_ReadFile :: "path \<Rightarrow> world \<Rightarrow> (error + chunk list) \<times> world" where
  "os_ReadFile p w =
     (let w' = emit (EvRead p) w in
      case refusal w SysRead p of
        Some e \<Rightarrow> (Inl (PathError ''open'' p e), w')
      | None \<Rightarrow>
          (case files w (abspath w p) of
             None \<Rightarrow> (Inl (PathError ''open'' p ENOENT), w')
           | Some (Dir _) \<Rightarrow> (Inl (PathError ''read'' p EISDIR), w')
           | Some (File m d) \<Rightarrow>
               if m AND owner_read = 0 then (Inl (PathError ''open'' p EACCES), w')
               else (Inr d, w')))"

definition os_Chdir :: "path \<Rightarrow> world \<Rightarrow> error option \<times> world" where
  "os_Chdir p w =
     (let w' = emit (EvChdir p) w in
      case refusal w SysChdir p of
        Some e \<Rightarrow> (Some (PathError ''chdir'' p e), w')
      | None \<Rightarrow>
          (case files w (abspath w p) of
             None \<Rightarrow> (Some (PathError ''chdir'' p ENOENT), w')
           | Some (File _ _) \<Rightarrow> (Some (PathError ''chdir'' p ENOTDIR), w')
           | Some (Dir _) \<Rightarrow> (None, w'\<lparr>cwd := abspath w p\<rparr>)))"

definition set_mode :: "FileMode \<Rightarrow> node \<Rightarrow> node" where
  "set_mode m n = (case n of Dir _ \<Rightarrow> Dir m | File _ d \<Rightarrow> File m d)"

definition mode_of :: "node \<Rightarrow> FileMode" where
  \<comment> \<open>\<^verbatim>\<open>FileInfo.Mode()\<close>, the permission bits of it\<close>
  "mode_of n = (case n of Dir m \<Rightarrow> m | File m _ \<Rightarrow> m)"

definition os_Chmod :: "path \<Rightarrow> FileMode \<Rightarrow> world \<Rightarrow> error option \<times> world" where
  "os_Chmod p m w =
     (let w' = emit (EvChmod p m) w in
      case refusal w SysChmod p of
        Some e \<Rightarrow> (Some (PathError ''chmod'' p e), w')
      | None \<Rightarrow>
          (case files w (abspath w p) of
             None \<Rightarrow> (Some (PathError ''chmod'' p ENOENT), w')
           | Some n \<Rightarrow> (None, w'\<lparr>files := (files w)(abspath w p \<mapsto> set_mode m n)\<rparr>)))"

definition os_Rename :: "path \<Rightarrow> path \<Rightarrow> world \<Rightarrow> error option \<times> world" where
  \<comment> \<open>the entry moves to the new name, replacing what was there; nothing is copied\<close>
  "os_Rename old new w =
     (let w' = emit (EvRename old new) w; a = abspath w old; b = abspath w new in
      case refusal w SysRename old of
        Some e \<Rightarrow> (Some (LinkError ''rename'' old new e), w')
      | None \<Rightarrow>
          (case files w a of
             None \<Rightarrow> (Some (LinkError ''rename'' old new ENOENT), w')
           | Some n \<Rightarrow>
               (case dir_check w a of
                  Some e \<Rightarrow> (Some (LinkError ''rename'' old new e), w')
                | None \<Rightarrow>
                    (case (if new = [] then Some ENOENT else dir_check w b) of
                       Some e \<Rightarrow> (Some (LinkError ''rename'' old new e), w')
                     | None \<Rightarrow>
                         if a = b then (None, w')
                         else (None, w'\<lparr>files := (files w)(a := None, b \<mapsto> n)\<rparr>)))))"

definition os_Remove :: "path \<Rightarrow> world \<Rightarrow> error option \<times> world" where
  "os_Remove p w =
     (let w' = emit (EvRemove p) w; a = abspath w p in
      case refusal w SysRemove p of
        Some e \<Rightarrow> (Some (PathError ''remove'' p e), w')
      | None \<Rightarrow>
          (case files w a of
             None \<Rightarrow> (Some (PathError ''remove'' p ENOENT), w')
           | Some n \<Rightarrow>
               (case dir_check w a of
                  Some e \<Rightarrow> (Some (PathError ''remove'' p e), w')
                | None \<Rightarrow> (None, w'\<lparr>files := (files w)(a := None)\<rparr>))))"

definition cmd_Start :: "string list \<Rightarrow> world \<Rightarrow> error option \<times> world" where
  \<comment> \<open>\<^verbatim>\<open>exec.Command(argv...).Start()\<close>: the child runs on its own from here\<close>
  "cmd_Start argv w =
     (let w' = emit (EvStart argv) w in
      case fault w SysStart (case argv of [] \<Rightarrow> [] | a # _ \<Rightarrow> a) of
        Some e \<Rightarrow> (Some (PathError ''fork/exec'' (case argv of [] \<Rightarrow> [] | a # _ \<Rightarrow> a) e), w')
      | None \<Rightarrow> (None, w'))"

definition cmd_Start_in :: "path \<Rightarrow> string list \<Rightarrow> world \<Rightarrow> error option \<times> world" where
  \<comment> \<open>\<^verbatim>\<open>Start\<close> of a command whose \<^verbatim>\<open>Dir\<close> is set: the directory is looked up first,
      and the child has to enter it\<close>
  "cmd_Start_in dir argv w =
     (let w' = emit (EvStart argv) w;
          prog = (case argv of [] \<Rightarrow> [] | a # _ \<Rightarrow> a)
      in case fault w SysStart prog of
        Some e \<Rightarrow> (Some (PathError ''fork/exec'' prog e), w')
      | None \<Rightarrow>
          if dir = [] then (None, w')
          else
            (case fault w SysStat dir of
               Some e \<Rightarrow> (Some (PathError ''chdir'' dir e), w')
             | None \<Rightarrow>
                 (case files w (abspath w dir) of
                    None \<Rightarrow> (Some (PathError ''chdir'' dir ENOENT), w')
                  | Some (File _ _) \<Rightarrow> (Some (PathError ''fork/exec'' prog ENOTDIR), w')
                  | Some (Dir _) \<Rightarrow> (None, w'))))"

definition Print :: "string \<Rightarrow> world \<Rightarrow> world" where
  \<comment> \<open>\<^verbatim>\<open>fmt.Printf\<close> with the text already formatted\<close>
  "Print s w = w\<lparr>stdout := stdout w @ [s]\<rparr>"

definition Println :: "string \<Rightarrow> world \<Rightarrow> world" where
  "Println s w = Print (s @ [CHR 0x0A]) w"

definition Eprint :: "string \<Rightarrow> world \<Rightarrow> world" where
  \<comment> \<open>\<^verbatim>\<open>fmt.Fprintf(os.Stderr, ...)\<close>\<close>
  "Eprint s w = w\<lparr>stderr := stderr w @ [s]\<rparr>"

definition log_Printf :: "string \<Rightarrow> world \<Rightarrow> world" where
  \<comment> \<open>the standard logger: date and time, the message, a newline, on standard error\<close>
  "log_Printf s w =
     (let (t, w1) = time_Now w;
          stamp = zpad 4 (Year t) @ ''/'' @ zpad 2 (Month t) @ ''/'' @ zpad 2 (Day t) @ '' ''
            @ zpad 2 (Hour t) @ '':'' @ zpad 2 (Minute t) @ '':'' @ zpad 2 (Second t)
      in Eprint (stamp @ '' '' @ s @ [CHR 0x0A]) w1)"

subsection \<open>\<^verbatim>\<open>deployment.go\<close>\<close>

record DeploymentTask =
  ProjectPath :: string
  DeploymentScriptPath :: string
  LogPath :: string
  TaskID :: string
  CreatedAt :: time

definition ValidatePaths :: "path \<Rightarrow> path \<Rightarrow> path \<Rightarrow> world \<Rightarrow> error option \<times> world" where
  "ValidatePaths project script logs w =
     (if \<not> IsAbs project then (Some (Errorf ''project path must be absolute''), w)
      else let (r1, w1) = os_Stat project w in
        if IsNotExist (err_of r1) then (Some (Errorf ''project path does not exist''), w1)
        else if \<not> IsAbs script then
          (Some (Errorf ''deployment script path must be absolute''), w1)
        else let (r2, w2) = os_Stat script w1 in
          if IsNotExist (err_of r2) then
            (Some (Errorf ''deployment script path does not exist''), w2)
          else if \<not> IsAbs logs then (Some (Errorf ''log path must be absolute''), w2)
          else let (r3, w3) = os_Stat logs w2 in
            if IsNotExist (err_of r3) then (Some (Errorf ''log path does not exist''), w3)
            else (None, w3))"

definition writeLogEntry :: "path \<Rightarrow> string \<Rightarrow> world \<Rightarrow> world" where
  \<comment> \<open>the result of \<^verbatim>\<open>WriteString\<close> is dropped, as in the source\<close>
  "writeLogEntry logFile message w =
     (let (t, w1) = time_Now w;
          logEntry = ''['' @ Format_log t @ ''] '' @ message @ [CHR 0x0A];
          (_, w2) = file_Write logFile (Text logEntry) w1
      in w2)"

definition MaxScanTokenSize :: nat where
  \<comment> \<open>the size a \<^verbatim>\<open>bufio.Scanner\<close> lets its buffer grow to\<close>
  "MaxScanTokenSize = 64 * 1024"

definition dropCR :: "string \<Rightarrow> string" where
  "dropCR data = (if data \<noteq> [] \<and> last data = CHR 0x0D then butlast data else data)"

definition raw_lines :: "string \<Rightarrow> string list" where
  \<comment> \<open>the bytes cut at every newline; what follows the last newline is a line of its own
      unless it is empty\<close>
  "raw_lines data =
     (let ls = splitOn (CHR 0x0A) data in if last ls = [] then butlast ls else ls)"

definition Scanner_lines :: "string \<Rightarrow> string list" where
  \<comment> \<open>the lines \<^verbatim>\<open>scanner.Text()\<close> gives in the loop \<^verbatim>\<open>for scanner.Scan()\<close> on a pipe
      that delivers the bytes \<open>data\<close>. The scanner is the default one: a line that does not
      fit the buffer, \<open>MaxScanTokenSize\<close> bytes or more before its newline, makes
      \<^verbatim>\<open>Scan\<close> return false (\<^verbatim>\<open>ErrTooLong\<close>), which ends the loop: neither this line nor
      any line after it is read\<close>
  "Scanner_lines data =
     map dropCR (takeWhile (\<lambda>l. length l < MaxScanTokenSize) (raw_lines data))"

text \<open>
  A reader is the goroutine that runs \<^verbatim>\<open>readAndLogOutput\<close> on one pipe. It moves in
  steps, one for each call that can interleave with the calls of the other reader: the
  reading of the clock for the line in hand, the write of the entry, and the report of a
  failed write. Its state is where it is in the body of the loop, and the lines the
  scanner still has for it. \<^verbatim>\<open>logFile.Sync()\<close> changes nothing that is modelled.
\<close>

datatype phase =
    Scanning              \<comment> \<open>at \<^verbatim>\<open>scanner.Scan()\<close>\<close>
  | Stamped string time   \<comment> \<open>holds a line and the reading of the clock taken for it\<close>
  | Failed error          \<comment> \<open>the write has failed and is not yet reported\<close>

type_synonym reader = "phase \<times> string list"

definition stream_name :: "stream \<Rightarrow> string" where
  "stream_name prefix = (case prefix of STDOUT \<Rightarrow> ''STDOUT'' | STDERR \<Rightarrow> ''STDERR'')"

definition logEntry :: "time \<Rightarrow> stream \<Rightarrow> string \<Rightarrow> chunk" where
  \<comment> \<open>\<^verbatim>\<open>fmt.Sprintf("[%s] [%s] %s\n", timestamp, prefix, line)\<close>\<close>
  "logEntry t prefix line =
     Text (''['' @ Format_log t @ ''] ['' @ stream_name prefix @ ''] '' @ line @ [CHR 0x0A])"

fun reader_step :: "path \<Rightarrow> stream \<Rightarrow> reader \<Rightarrow> world \<Rightarrow> reader \<times> world" where
  "reader_step logFile prefix (Scanning, []) w = ((Scanning, []), w)"
| "reader_step logFile prefix (Scanning, line # rest) w =
     (let (t, w1) = time_Now w in ((Stamped line t, rest), w1))"
| "reader_step logFile prefix (Stamped line t, rest) w =
     (let (e, w1) = file_Write logFile (logEntry t prefix line) w in
      case e of
        Some err \<Rightarrow> ((Failed err, rest), w1)
      | None \<Rightarrow> ((Scanning, rest), w1))"
| "reader_step logFile prefix (Failed err, rest) w =
     ((Scanning, rest), log_Printf (''Failed to write to log file: '' @ Error err) w)"

definition steps_left :: "reader \<Rightarrow> nat" where
  "steps_left r =
     3 * length (snd r) + (case fst r of Scanning \<Rightarrow> 0 | Stamped _ _ \<Rightarrow> 2 | Failed _ \<Rightarrow> 1)"

function reader_finish :: "path \<Rightarrow> stream \<Rightarrow> reader \<Rightarrow> world \<Rightarrow> world" where
  \<comment> \<open>the reader moves on its own until the scanner has no line left\<close>
  "reader_finish logFile prefix r w =
     (if r = (Scanning, []) then w
      else let (r', w') = reader_step logFile prefix r w in reader_finish logFile prefix r' w')"
  by pat_completeness auto
termination
proof (relation "measure (\<lambda>(logFile, prefix, r, w). steps_left r)")
  show "wf (measure (\<lambda>(logFile, prefix, r, w). steps_left r))" by simp
next
  fix logFile :: path and prefix r w x and r' :: reader and w' :: world
  assume n: "r \<noteq> (Scanning, [])" and x: "x = reader_step logFile prefix r w"
    and p: "(r', w') = x"
  obtain ph ls where r: "r = (ph, ls)" by (cases r)
  have "steps_left (fst (reader_step logFile prefix (ph, ls) w)) < steps_left (ph, ls)"
    if "(ph, ls) \<noteq> (Scanning, [])"
    using that
    by (cases ph; cases ls)
       (simp_all add: steps_left_def Let_def case_prod_beta split: option.splits)
  with n r have "steps_left (fst (reader_step logFile prefix r w)) < steps_left r" by simp
  moreover from x p have "r' = fst (reader_step logFile prefix r w)" by (metis fst_conv)
  ultimately show "((logFile, prefix, r', w'), (logFile, prefix, r, w))
      \<in> measure (\<lambda>(logFile, prefix, r, w). steps_left r)" by simp
qed

declare reader_finish.simps [simp del]

definition readAndLogOutput :: "string \<Rightarrow> path \<Rightarrow> stream \<Rightarrow> world \<Rightarrow> world" where
  \<comment> \<open>the whole of one reader, on a pipe that delivers the bytes \<open>pipe\<close>\<close>
  "readAndLogOutput pipe logFile prefix w =
     reader_finish logFile prefix (Scanning, Scanner_lines pipe) w"

fun run_readers :: "path \<Rightarrow> stream list \<Rightarrow> reader \<Rightarrow> reader \<Rightarrow> world \<Rightarrow> world" where
  \<comment> \<open>the two readers side by side until both are done (\<^verbatim>\<open>wg.Wait()\<close>): the reader
      named moves one step; when no turn is left the reader of the standard output
      finishes, then the reader of the standard error\<close>
  "run_readers logFile [] ro re w =
     reader_finish logFile STDERR re (reader_finish logFile STDOUT ro w)"
| "run_readers logFile (STDOUT # ts) ro re w =
     (let (ro', w') = reader_step logFile STDOUT ro w in run_readers logFile ts ro' re w')"
| "run_readers logFile (STDERR # ts) ro re w =
     (let (re', w') = reader_step logFile STDERR re w in run_readers logFile ts ro re' w')"

definition perm_0111 :: FileMode where "perm_0111 = 1 * 64 + 1 * 8 + 1"
definition perm_0755 :: FileMode where "perm_0755 = 7 * 64 + 5 * 8 + 5"
definition perm_0644 :: FileMode where "perm_0644 = 6 * 64 + 4 * 8 + 4"
definition perm_0600 :: FileMode where "perm_0600 = 6 * 64"

definition cmd_Pipe :: "string \<Rightarrow> world \<Rightarrow> error option" where
  \<comment> \<open>\<^verbatim>\<open>cmd.StdoutPipe()\<close>, \<^verbatim>\<open>cmd.StderrPipe()\<close>\<close>
  "cmd_Pipe which w =
     (case fault w SysPipe which of
        Some e \<Rightarrow> Some (Errorf (''pipe: '' @ errno_text e))
      | None \<Rightarrow> None)"

definition make_executable :: "DeploymentTask \<Rightarrow> path \<Rightarrow> node \<Rightarrow> world \<Rightarrow> world" where
  \<comment> \<open>\<^verbatim>\<open>ExecuteDeployment\<close>, the step that makes the script executable if needed\<close>
  "make_executable task logFile scriptInfo w =
     (if mode_of scriptInfo AND perm_0111 = 0 then
        (let (e, w1) = os_Chmod (DeploymentScriptPath task) perm_0755 w in
         case e of
           Some err \<Rightarrow>
             writeLogEntry logFile (''[WARNING] Failed to make script executable: '' @ Error err) w1
         | None \<Rightarrow> w1)
      else w)"

definition run_script :: "DeploymentTask \<Rightarrow> path \<Rightarrow> world \<Rightarrow> error option \<times> world" where
  \<comment> \<open>\<^verbatim>\<open>ExecuteDeployment\<close> from the construction of the command to its end. The wait is
      called as soon as the two readers are launched; each reader works on the bytes it
      gets out of its pipe before the wait closes it\<close>
  "run_script task logFile w =
     (case cmd_Pipe ''stdout'' w of
        Some err \<Rightarrow>
          (Some (Errorf (''failed to create stdout pipe: '' @ Error err)),
           writeLogEntry logFile (''[ERROR] Failed to create stdout pipe: '' @ Error err) w)
      | None \<Rightarrow>
     (case cmd_Pipe ''stderr'' w of
        Some err \<Rightarrow>
          (Some (Errorf (''failed to create stderr pipe: '' @ Error err)),
           writeLogEntry logFile (''[ERROR] Failed to create stderr pipe: '' @ Error err) w)
      | None \<Rightarrow>
     (let argv = [''bash'', DeploymentScriptPath task];
          (e, w1) = cmd_Start_in (ProjectPath task) argv w
      in case e of
        Some err \<Rightarrow>
          (Some (Errorf (''failed to start deployment script: '' @ Error err)),
           writeLogEntry logFile (''[ERROR] Failed to start deployment script: '' @ Error err) w1)
      | None \<Rightarrow>
     (let run = bash w1 (ProjectPath task) (DeploymentScriptPath task);
          stdout_pipe = take (out_read run) (out_bytes run);
          stderr_pipe = take (err_read run) (err_bytes run);
          w2 = emit (EvWait argv) w1;
          w3 = run_readers logFile (turns run)
                 (Scanning, Scanner_lines stdout_pipe) (Scanning, Scanner_lines stderr_pipe) w2;
          cmdErr = (if exit_status run = 0 then None else Some (ExitError (exit_status run)))
      in case cmdErr of
        Some err \<Rightarrow>
          (Some (Errorf (''deployment script failed: '' @ Error err)),
           writeLogEntry logFile
             (''[ERROR] Deployment script exited with error: '' @ Error err) w3)
      | None \<Rightarrow>
          (let (t, w4) = time_Now w3 in
           (None,
            writeLogEntry logFile
              (''=== Deployment Completed: '' @ Format_log t @ '' ==='') w4))))))"

definition open_log_and_enter ::
    "DeploymentTask \<Rightarrow> world \<Rightarrow> (error + path \<times> node) \<times> world" where
  \<comment> \<open>\<^verbatim>\<open>ExecuteDeployment\<close> from its start to the check of the script: the handle of the
      log file and the \<^verbatim>\<open>FileInfo\<close> of the script, or the error returned\<close>
  "open_log_and_enter task w =
     (let logFilePath = filepath_Join (LogPath task) ''deployment.log'';
          (r, w1) = os_OpenFile logFilePath O_TRUNC perm_0644 w
      in case r of
        Inl err \<Rightarrow> (Inl (Errorf (''failed to open log file: '' @ Error err)), w1)
      | Inr logFile \<Rightarrow>
     (let (t, w2) = time_Now w1;
          w3 = writeLogEntry logFile (''=== Deployment Started: '' @ Format_log t @ '' ==='') w2;
          w4 = writeLogEntry logFile (''Project Path: '' @ ProjectPath task) w3;
          w5 = writeLogEntry logFile (''Script Path: '' @ DeploymentScriptPath task) w4;
          w6 = writeLogEntry logFile (''Task ID: '' @ TaskID task) w5;
          (e, w7) = os_Chdir (ProjectPath task) w6
      in case e of
        Some err \<Rightarrow>
          (Inl (Errorf (''failed to change to project directory: '' @ Error err)),
           writeLogEntry logFile (''[ERROR] Failed to change directory: '' @ Error err) w7)
      | None \<Rightarrow>
     (let (r2, w8) = os_Stat (DeploymentScriptPath task) w7 in
      case r2 of
        Inl err \<Rightarrow>
          (Inl (Errorf (''deployment script not found: '' @ Error err)),
           writeLogEntry logFile (''[ERROR] Script not found: '' @ Error err) w8)
      | Inr scriptInfo \<Rightarrow> (Inr (logFile, scriptInfo), w8))))"

definition ExecuteDeployment :: "DeploymentTask \<Rightarrow> world \<Rightarrow> error option \<times> world" where
  "ExecuteDeployment task w =
     (let (r, w8) = open_log_and_enter task w in
      case r of
        Inl err \<Rightarrow> (Some err, w8)
      | Inr (logFile, scriptInfo) \<Rightarrow>
          run_script task logFile (make_executable task logFile scriptInfo w8))"

definition WriteLog :: "path \<Rightarrow> string \<Rightarrow> world \<Rightarrow> world" where
  "WriteLog logPath message w =
     (let logFilePath = filepath_Join logPath ''deployment.log'';
          (r, w1) = os_OpenFile logFilePath O_APPEND perm_0644 w
      in case r of
        Inl err \<Rightarrow> log_Printf (''Failed to open log file for writing: '' @ Error err) w1
      | Inr logFile \<Rightarrow> writeLogEntry logFile message w1)"

definition RotateLog :: "path \<Rightarrow> world \<Rightarrow> error option \<times> world" where
  "RotateLog logDir w =
     (let activeLog = filepath_Join logDir ''deployment.log'';
          (t, w1) = time_Now w;
          newLog = filepath_Join logDir (''deployment_'' @ Format_rotate t @ ''.log'');
          (r, w2) = os_Stat activeLog w1
      in if IsNotExist (err_of r) then (None, w2)
         else os_Rename activeLog newLog w2)"

subsection \<open>The task file (package \<^verbatim>\<open>encoding/json\<close>)\<close>

definition rfc3339 :: "time \<Rightarrow> string" where
  "rfc3339 t = zpad 4 (Year t) @ ''-'' @ zpad 2 (Month t) @ ''-'' @ zpad 2 (Day t) @ ''T''
     @ zpad 2 (Hour t) @ '':'' @ zpad 2 (Minute t) @ '':'' @ zpad 2 (Second t) @ ''Z''"

definition json_Marshal :: "DeploymentTask \<Rightarrow> error + chunk" where
  \<comment> \<open>the struct has no field tags: each key is the Go name of the field, in the order of
      declaration, and each string field is written as the JSON string for it;
      marshalling a time fails outside the years 0 to 9999\<close>
  "json_Marshal task =
     (if 10000 \<le> Year (CreatedAt task) then
        Inl (Errorf (''json: error calling MarshalJSON for type time.Time: ''
               @ ''Time.MarshalJSON: year outside of range [0,9999]''))
      else
        Inr (Json (JObject
          [(''ProjectPath'', JString (ProjectPath task)),
           (''DeploymentScriptPath'', JString (DeploymentScriptPath task)),
           (''LogPath'', JString (LogPath task)),
           (''TaskID'', JString (TaskID task)),
           (''CreatedAt'', JTime (CreatedAt task))])))"

definition zero_time :: time where
  "zero_time = \<lparr>UnixNano = - 6795364578871345152, Year = 1, Month = 1, Day = 1,
     Hour = 0, Minute = 0, Second = 0\<rparr>"

definition zero_task :: DeploymentTask where
  "zero_task = \<lparr>ProjectPath = [], DeploymentScriptPath = [], LogPath = [], TaskID = [],
     CreatedAt = zero_time\<rparr>"

definition lower :: "char \<Rightarrow> char" where
  \<comment> \<open>the lower-case form of an ASCII letter\<close>
  "lower c =
     (case map_of (zip ''ABCDEFGHIJKLMNOPQRSTUVWXYZ'' ''abcdefghijklmnopqrstuvwxyz'') c of
        Some d \<Rightarrow> d
      | None \<Rightarrow> c)"

definition utf8_size :: "string \<Rightarrow> nat" where
  \<comment> \<open>the number of bytes of the UTF-8 encoding at the head of the bytes, 0 if there is
      none (\<^verbatim>\<open>utf8.DecodeRuneInString\<close>)\<close>
  "utf8_size s =
     (case s of
        [] \<Rightarrow> 0
      | c # cs \<Rightarrow>
          (let x = (of_char c :: nat);
               within = (\<lambda>lo hi b. lo \<le> (of_char b :: nat) \<and> (of_char b :: nat) \<le> hi);
               cont = within 0x80 0xBF
           in if x < 0x80 then 1
              else if x < 0xC2 then 0
              else if x < 0xE0 then
                (case cs of b1 # _ \<Rightarrow> if cont b1 then 2 else 0 | _ \<Rightarrow> 0)
              else if x < 0xF0 then
                (case cs of
                   b1 # b2 # _ \<Rightarrow>
                     if within (if x = 0xE0 then 0xA0 else 0x80)
                          (if x = 0xED then 0x9F else 0xBF) b1 \<and> cont b2
                     then 3 else 0
                 | _ \<Rightarrow> 0)
              else if x < 0xF5 then
                (case cs of
                   b1 # b2 # b3 # _ \<Rightarrow>
                     if within (if x = 0xF0 then 0x90 else 0x80)
                          (if x = 0xF4 then 0x8F else 0xBF) b1 \<and> cont b2 \<and> cont b3
                     then 4 else 0
                 | _ \<Rightarrow> 0)
              else 0))"

fun replace_invalid :: "nat \<Rightarrow> string \<Rightarrow> string" where
  \<comment> \<open>\<open>k\<close> bytes of the encoding in hand are still to be copied\<close>
  "replace_invalid k [] = []"
| "replace_invalid (Suc k) (c # cs) = c # replace_invalid k cs"
| "replace_invalid 0 (c # cs) =
     (case utf8_size (c # cs) of
        0 \<Rightarrow> [CHR 0xEF, CHR 0xBF, CHR 0xBD] @ replace_invalid 0 cs
      | Suc n \<Rightarrow> c # replace_invalid n cs)"

definition toValidUTF8 :: "string \<Rightarrow> string" where
  \<comment> \<open>every byte that belongs to no UTF-8 encoding becomes the three bytes of
      \<^verbatim>\<open>U+FFFD\<close>\<close>
  "toValidUTF8 s = replace_invalid 0 s"

definition decode_string :: "json \<Rightarrow> string \<Rightarrow> error + string" where
  "decode_string v old =
     (case v of
        JNull \<Rightarrow> Inr old
      | JString s \<Rightarrow> Inr (toValidUTF8 s)
      | JTime t \<Rightarrow> Inr (rfc3339 t)
      | _ \<Rightarrow> Inl (Errorf ''json: cannot unmarshal into Go struct field of type string''))"

definition decode_time :: "json \<Rightarrow> time \<Rightarrow> error + time" where
  "decode_time v old =
     (case v of
        JNull \<Rightarrow> Inr old
      | JTime t \<Rightarrow> Inr t
      | JString s \<Rightarrow> Inl (Errorf (''parsing time: cannot parse '' @ s))
      | _ \<Rightarrow> Inl (Errorf ''Time.UnmarshalJSON: input is not a JSON string''))"

definition set_field :: "string \<times> json \<Rightarrow> DeploymentTask \<Rightarrow> error + DeploymentTask" where
  \<comment> \<open>a key names a field whatever its letter case; other keys are skipped\<close>
  "set_field kv t =
     (let k = map lower (fst kv); v = snd kv in
      if k = ''projectpath'' then
        (case decode_string v (ProjectPath t) of
           Inl e \<Rightarrow> Inl e | Inr s \<Rightarrow> Inr (t\<lparr>ProjectPath := s\<rparr>))
      else if k = ''deploymentscriptpath'' then
        (case decode_string v (DeploymentScriptPath t) of
           Inl e \<Rightarrow> Inl e | Inr s \<Rightarrow> Inr (t\<lparr>DeploymentScriptPath := s\<rparr>))
      else if k = ''logpath'' then
        (case decode_string v (LogPath t) of
           Inl e \<Rightarrow> Inl e | Inr s \<Rightarrow> Inr (t\<lparr>LogPath := s\<rparr>))
      else if k = ''taskid'' then
        (case decode_string v (TaskID t) of
           Inl e \<Rightarrow> Inl e | Inr s \<Rightarrow> Inr (t\<lparr>TaskID := s\<rparr>))
      else if k = ''createdat'' then
        (case decode_time v (CreatedAt t) of
           Inl e \<Rightarrow> Inl e | Inr x \<Rightarrow> Inr (t\<lparr>CreatedAt := x\<rparr>))
      else Inr t)"

fun decode_fields :: "(string \<times> json) list \<Rightarrow> DeploymentTask \<Rightarrow> error + DeploymentTask" where
  "decode_fields [] t = Inr t"
| "decode_fields (kv # kvs) t =
     (case set_field kv t of Inl e \<Rightarrow> Inl e | Inr t' \<Rightarrow> decode_fields kvs t')"

definition json_Unmarshal :: "chunk list \<Rightarrow> error + DeploymentTask" where
  "json_Unmarshal data =
     (case data of
        [Json j] \<Rightarrow>
          (case j of
             JNull \<Rightarrow> Inr zero_task
           | JObject kvs \<Rightarrow> decode_fields kvs zero_task
           | _ \<Rightarrow> Inl (Errorf ''json: cannot unmarshal into Go value of type main.DeploymentTask''))
      | _ \<Rightarrow> Inl (Errorf ''invalid character looking for beginning of value''))"

subsection \<open>\<^verbatim>\<open>main.go\<close>\<close>

definition joinPath :: "path \<Rightarrow> string \<Rightarrow> path" where
  "joinPath dir name =
     (if dir \<noteq> [] \<and> last dir = CHR ''/'' then dir @ name else dir @ ''/'' @ name)"

function CreateTemp_loop :: "string \<Rightarrow> string \<Rightarrow> nat \<Rightarrow> world \<Rightarrow> (error + path \<times> path) \<times> world" where
  "CreateTemp_loop prefix suffix attempt w =
     (let name = prefix @ rnd w attempt @ suffix;
          (r, w1) = os_OpenFile name O_EXCL perm_0600 w
      in case r of
           Inr f \<Rightarrow> (Inr (name, f), w1)
         | Inl err \<Rightarrow>
             (case err of
                PathError _ _ EEXIST \<Rightarrow>
                  if Suc attempt < 10000 then CreateTemp_loop prefix suffix (Suc attempt) w1
                  else (Inl (PathError ''createtemp'' (prefix @ ''*'' @ suffix) EEXIST), w1)
              | _ \<Rightarrow> (Inl err, w1)))"
  by pat_completeness auto
termination
  by (relation "measure (\<lambda>(prefix, suffix, attempt, w). 10000 - attempt)") auto

declare CreateTemp_loop.simps [simp del]

definition os_CreateTemp :: "string \<Rightarrow> string \<Rightarrow> world \<Rightarrow> (error + path \<times> path) \<times> world" where
  \<comment> \<open>\<^verbatim>\<open>os.CreateTemp("", prefix*suffix)\<close>: the name of the new file and its handle\<close>
  "os_CreateTemp prefix suffix w = CreateTemp_loop (joinPath (tempdir w) prefix) suffix 0 w"

definition handleDeploy :: "string \<Rightarrow> string \<Rightarrow> string \<Rightarrow> world \<Rightarrow> nat \<times> world" where
  \<comment> \<open>the exit status of the process and the world it leaves\<close>
  "handleDeploy project script logs w =
     (if project = [] \<or> script = [] \<or> logs = [] then
        (1, Println ''All flags are required: --project, --deployScript, --logPath'' w)
      else let (e, w1) = ValidatePaths project script logs w in
      case e of
        Some err \<Rightarrow> (1, Print (''Error: '' @ Error err @ [CHR 0x0A]) w1)
      | None \<Rightarrow>
     (let (t1, w2) = time_Now w1;
          (t2, w3) = time_Now w2;
          task = \<lparr>ProjectPath = project, DeploymentScriptPath = script, LogPath = logs,
                  TaskID = show_int (UnixNano t1), CreatedAt = t2\<rparr>;
          (r, w4) = os_CreateTemp ''deploy_task_'' ''.json'' w3
      in case r of
        Inl err \<Rightarrow>
          (1, Print (''Error: Failed to create temporary task file: '' @ Error err @ [CHR 0x0A]) w4)
      | Inr (name, tmpFile) \<Rightarrow>
     (case json_Marshal task of
        Inl err \<Rightarrow> (1, Print (''Error: Failed to marshal task: '' @ Error err @ [CHR 0x0A]) w4)
      | Inr data \<Rightarrow>
     (let (e2, w5) = file_Write tmpFile data w4 in
      case e2 of
        Some err \<Rightarrow>
          (1, Print (''Error: Failed to write task file: '' @ Error err @ [CHR 0x0A]) w5)
      | None \<Rightarrow>
     (case exe w5 of
        Inl err \<Rightarrow>
          (1, Print (''Error: Failed to get executable path: '' @ Error err @ [CHR 0x0A]) w5)
      | Inr executable \<Rightarrow>
     (let (e3, w6) = cmd_Start [executable, ''internal-run'', ''--taskFile'', name] w5 in
      case e3 of
        Some err \<Rightarrow>
          (1, Print (''Error: Failed to start background process: '' @ Error err @ [CHR 0x0A]) w6)
      | None \<Rightarrow>
          (0, Print (''Deployment started in background for task '' @ TaskID task @ [CHR 0x0A])
                w6)))))))"

definition handleInternalRun :: "string \<Rightarrow> world \<Rightarrow> nat \<times> world" where
  "handleInternalRun taskFile w =
     (if taskFile = [] then (1, Println ''Error: taskFile is required for internal-run'' w)
      else let (r, w1) = os_ReadFile taskFile w in
      case r of
        Inl err \<Rightarrow> (1, Eprint (''Failed to read task file: '' @ Error err @ [CHR 0x0A]) w1)
      | Inr data \<Rightarrow>
     (case json_Unmarshal data of
        Inl err \<Rightarrow> (1, Eprint (''Failed to unmarshal task: '' @ Error err @ [CHR 0x0A]) w1)
      | Inr task \<Rightarrow>
     (let (e, w2) = ExecuteDeployment task w1;
          w3 = (case e of
                  Some err \<Rightarrow>
                    WriteLog (LogPath task) (''[ERROR] Deployment failed: '' @ Error err) w2
                | None \<Rightarrow>
                    WriteLog (LogPath task) ''[SUCCESS] Deployment completed successfully'' w2);
          (_, w4) = RotateLog (LogPath task) w3;
          (_, w5) = os_Remove taskFile w4
      in (0, w5))))"

subsection \<open>The writability probe of the HTTP front end\<close>

text \<open>
  \<^verbatim>\<open>validatePaths\<close> of the HTTP front end checks the log directory as
  \<^verbatim>\<open>ValidatePaths\<close> does and then probes it: it writes a marker file and removes it.
\<close>

definition os_WriteFile :: "path \<Rightarrow> chunk \<Rightarrow> FileMode \<Rightarrow> world \<Rightarrow> error option \<times> world" where
  "os_WriteFile p data m w =
     (let (r, w1) = os_OpenFile p O_TRUNC m w in
      case r of Inl err \<Rightarrow> (Some err, w1) | Inr f \<Rightarrow> file_Write f data w1)"

definition probe_writable :: "path \<Rightarrow> world \<Rightarrow> error option \<times> world" where
  "probe_writable logDir w =
     (let testFile = filepath_Join logDir ''.deployer_test'';
          (e, w1) = os_WriteFile testFile (Text ''test'') perm_0644 w
      in case e of
           Some err \<Rightarrow> (Some (Errorf (''logPath directory is not writable: '' @ logDir)), w1)
         | None \<Rightarrow> (None, snd (os_Remove testFile w1)))"

subsection \<open>Notions used in the statements\<close>

definition same_env :: "world \<Rightarrow> world \<Rightarrow> bool" where
  \<comment> \<open>nothing but the files and the trace differs\<close>
  "same_env w w' =
     (fault w' = fault w \<and> cwd w' = cwd w \<and> clock w' = clock w \<and> ticks w' = ticks w
      \<and> tempdir w' = tempdir w \<and> rnd w' = rnd w \<and> exe w' = exe w \<and> bash w' = bash w
      \<and> stdout w' = stdout w \<and> stderr w' = stderr w)"

fun is_remove :: "event \<Rightarrow> bool" where
  "is_remove (EvRemove _) = True"
| "is_remove _ = False"

fun is_chmod :: "event \<Rightarrow> bool" where
  "is_chmod (EvChmod _ _) = True"
| "is_chmod _ = False"

fun is_stat :: "event \<Rightarrow> bool" where
  "is_stat (EvStat _) = True"
| "is_stat _ = False"

definition since :: "world \<Rightarrow> world \<Rightarrow> event list" where
  \<comment> \<open>the system calls attempted after \<open>w\<close> up to \<open>w'\<close>\<close>
  "since w w' = drop (length (trace w)) (trace w')"

definition quiet :: "(event \<Rightarrow> bool) \<Rightarrow> world \<Rightarrow> world \<Rightarrow> bool" where
  \<comment> \<open>\<open>w'\<close> continues the trace of \<open>w\<close> with no call of the given kind\<close>
  "quiet kind w w' = (take (length (trace w)) (trace w') = trace w \<and> filter kind (since w w') = [])"

definition chmod_or_remove :: "(event \<Rightarrow> bool) \<Rightarrow> bool" where
  \<comment> \<open>a kind of system call that holds of removals and changes of mode at most\<close>
  "chmod_or_remove k = (\<forall>e. k e \<longrightarrow> is_remove e \<or> is_chmod e)"

fun entries :: "(nat \<Rightarrow> time) \<Rightarrow> nat \<Rightarrow> stream \<Rightarrow> string list \<Rightarrow> chunk list" where
  \<comment> \<open>the log entries of one stream for the given lines, one entry for each line in the
      order of the lines, stamped with the successive readings of the clock from the
      \<open>n\<close>-th on\<close>
  "entries clk n prefix [] = []"
| "entries clk n prefix (line # rest) =
     logEntry (clk n) prefix line # entries clk (Suc n) prefix rest"

definition is_digit :: "char \<Rightarrow> bool" where
  "is_digit c = (c \<in> set ''0123456789'')"

definition object_keys :: "chunk \<Rightarrow> string list" where
  \<comment> \<open>the field names of a JSON object, in the order written\<close>
  "object_keys c = (case c of Json (JObject kvs) \<Rightarrow> map fst kvs | _ \<Rightarrow> [])"

definition spawn_conditions :: "string \<Rightarrow> string \<Rightarrow> string \<Rightarrow> world \<Rightarrow> bool" where
  \<comment> \<open>every step of \<^verbatim>\<open>handleDeploy\<close> goes through: the flags, the validation, the
      temporary file, the serialization of the task, the write, the lookup of the
      executable and the start of the background process\<close>
  "spawn_conditions project script logs w =
     (project \<noteq> [] \<and> script \<noteq> [] \<and> logs \<noteq> []
      \<and> fst (ValidatePaths project script logs w) = None
      \<and> Year (clock w (Suc (ticks w))) < 10000
      \<and> (\<exists>name f ex.
            fst (os_CreateTemp ''deploy_task_'' ''.json''
                  ((snd (ValidatePaths project script logs w))\<lparr>ticks := Suc (Suc (ticks w))\<rparr>))
              = Inr (name, f)
            \<and> fault w SysWrite f = None \<and> exe w = Inr ex \<and> fault w SysStart ex = None))"

subsection \<open>Concrete environments\<close>

definition perm :: "nat \<Rightarrow> nat \<Rightarrow> nat \<Rightarrow> FileMode" where
  \<comment> \<open>the permission bits written in octal as three digits\<close>
  "perm u g o' = of_nat (u * 64 + g * 8 + o')"

definition world0 :: world where
  "world0 =
     \<lparr>files = [''/'' \<mapsto> Dir (perm 7 5 5), ''/tmp'' \<mapsto> Dir (perm 7 7 7),
        ''/p'' \<mapsto> Dir (perm 7 5 5),
        ''/p/deploy.sh'' \<mapsto> File (perm 6 4 4) [Text ''echo hello''],
        ''/l'' \<mapsto> Dir (perm 7 5 5)],
      fault = (\<lambda>_ _. None), cwd = ''/'',
      clock = (\<lambda>n. \<lparr>UnixNano = 7 + int n, Year = 2026, Month = 1, Day = 6,
                     Hour = 9, Minute = 30, Second = 5\<rparr>),
      ticks = 0, tempdir = ''/tmp'', rnd = (\<lambda>n. show_nat n), exe = Inr ''/bin/deploygo'',
      bash = (\<lambda>_ _. \<lparr>out_bytes = ''hello'' @ [CHR 0x0A], err_bytes = [], exit_status = 0,
                   out_read = 6, err_read = 0, turns = []\<rparr>),
      trace = [], stdout = [], stderr = []\<rparr>"

definition world_garbled :: world where
  \<comment> \<open>a task file that is not JSON\<close>
  "world_garbled =
     world0\<lparr>files := (files world0)(''/tmp/t.json'' \<mapsto> File (perm 6 0 0) [Text ''{oops''])\<rparr>"

definition world_readonly_logs :: world where
  \<comment> \<open>the log directory has no write permission\<close>
  "world_readonly_logs = world0\<lparr>files := (files world0)(''/l'' \<mapsto> Dir (perm 5 5 5))\<rparr>"

definition world_closed_logs :: world where
  \<comment> \<open>the log directory is empty and has no search permission: a call on an entry of it is
      refused\<close>
  "world_closed_logs =
     world0\<lparr>files := (files world0)(''/l'' \<mapsto> Dir (perm 0 0 0)),
            fault := (\<lambda>s p. if p = ''/l/deployment.log'' then Some EACCES else None)\<rparr>"

definition world_stat_refused :: world where
  \<comment> \<open>the log directory is there, but \<^verbatim>\<open>stat\<close> on it is refused\<close>
  "world_stat_refused =
     world0\<lparr>fault := (\<lambda>s p. if s = SysStat \<and> p = ''/l'' then Some EACCES else None)\<rparr>"

definition task0 :: DeploymentTask where
  \<comment> \<open>the task a deployment of \<^verbatim>\<open>/p\<close> creates in \<open>world0\<close>\<close>
  "task0 = \<lparr>ProjectPath = ''/p'', DeploymentScriptPath = ''/p/deploy.sh'', LogPath = ''/l'',
     TaskID = ''7'', CreatedAt = clock world0 1\<rparr>"

definition world_with_log :: world where
  \<comment> \<open>a deployment has left its log\<close>
  "world_with_log =
     world0\<lparr>files := (files world0)(''/l/deployment.log'' \<mapsto> File (perm 6 4 4) [Text ''done''])\<rparr>"

definition world_chmod_refused :: world where
  \<comment> \<open>changing the mode of the script is not permitted\<close>
  "world_chmod_refused =
     world0\<lparr>fault := (\<lambda>s p. if s = SysChmod \<and> p = ''/p/deploy.sh'' then Some EPERM else None)\<rparr>"

definition world_relative_tmp :: world where
  \<comment> \<open>the environment variable \<^verbatim>\<open>TMPDIR\<close> is the relative path \<^verbatim>\<open>tmp\<close>, which
      \<^verbatim>\<open>os.TempDir\<close> returns as it is; the process is started in \<^verbatim>\<open>/\<close>\<close>
  "world_relative_tmp = world0\<lparr>tempdir := ''tmp''\<rparr>"

definition long_output :: string where
  \<comment> \<open>three lines, the second as long as the buffer of the scanner\<close>
  "long_output = ''before'' @ [CHR 0x0A] @ replicate MaxScanTokenSize (CHR ''x'') @ [CHR 0x0A]
     @ ''after'' @ [CHR 0x0A]"

definition world_long_line :: world where
  \<comment> \<open>the script writes \<open>long_output\<close> to its standard output and exits with status 0;
      no pipe is closed before its reader is done\<close>
  "world_long_line =
     world0\<lparr>bash := (\<lambda>_ _. \<lparr>out_bytes = long_output, err_bytes = [], exit_status = 0,
                 out_read = length long_output, err_read = 0, turns = []\<rparr>)\<rparr>"

definition world_early_exit :: world where
  \<comment> \<open>the script writes two lines and exits at once; when the wait closes the pipe the
      reader has read the first line only\<close>
  "world_early_exit =
     world0\<lparr>bash := (\<lambda>_ _. \<lparr>out_bytes = ''one'' @ [CHR 0x0A] @ ''two'' @ [CHR 0x0A],
                 err_bytes = [], exit_status = 0, out_read = 4, err_read = 0, turns = []\<rparr>)\<rparr>"

section \<open>Verification\<close>

subsection \<open>What each system call leaves alone\<close>

lemmas path_simps =
  IsAbs_def filepath_Clean_def clean_step_def abspath_def filepath_Join_def filepath_Dir_def
  refusal_def

lemmas perm_simps =
  perm_def perm_0111_def perm_0755_def perm_0644_def perm_0600_def owner_write_def
  owner_read_def

lemma emit_frame [simp]:
  "files (emit e w) = files w"
  "fault (emit e w) = fault w"
  "cwd (emit e w) = cwd w"
  "clock (emit e w) = clock w"
  "ticks (emit e w) = ticks w"
  "tempdir (emit e w) = tempdir w"
  "rnd (emit e w) = rnd w"
  "exe (emit e w) = exe w"
  "bash (emit e w) = bash w"
  "stdout (emit e w) = stdout w"
  "stderr (emit e w) = stderr w"
  by (simp_all add: emit_def)

lemma time_Now_frame [simp]:
  "files (snd (time_Now w)) = files w"
  "fault (snd (time_Now w)) = fault w"
  "cwd (snd (time_Now w)) = cwd w"
  "clock (snd (time_Now w)) = clock w"
  "tempdir (snd (time_Now w)) = tempdir w"
  "rnd (snd (time_Now w)) = rnd w"
  "exe (snd (time_Now w)) = exe w"
  "bash (snd (time_Now w)) = bash w"
  "trace (snd (time_Now w)) = trace w"
  "stdout (snd (time_Now w)) = stdout w"
  "stderr (snd (time_Now w)) = stderr w"
  by (simp_all add: time_Now_def)

lemma Print_frame [simp]:
  "files (Print s w) = files w"
  "fault (Print s w) = fault w"
  "cwd (Print s w) = cwd w"
  "clock (Print s w) = clock w"
  "ticks (Print s w) = ticks w"
  "tempdir (Print s w) = tempdir w"
  "rnd (Print s w) = rnd w"
  "exe (Print s w) = exe w"
  "bash (Print s w) = bash w"
  "trace (Print s w) = trace w"
  "stderr (Print s w) = stderr w"
  by (simp_all add: Print_def)

lemma Println_frame [simp]:
  "files (Println s w) = files w"
  "fault (Println s w) = fault w"
  "cwd (Println s w) = cwd w"
  "clock (Println s w) = clock w"
  "ticks (Println s w) = ticks w"
  "tempdir (Println s w) = tempdir w"
  "rnd (Println s w) = rnd w"
  "exe (Println s w) = exe w"
  "bash (Println s w) = bash w"
  "trace (Println s w) = trace w"
  "stderr (Println s w) = stderr w"
  by (simp_all add: Println_def)

lemma Eprint_frame [simp]:
  "files (Eprint s w) = files w"
  "fault (Eprint s w) = fault w"
  "cwd (Eprint s w) = cwd w"
  "clock (Eprint s w) = clock w"
  "ticks (Eprint s w) = ticks w"
  "tempdir (Eprint s w) = tempdir w"
  "rnd (Eprint s w) = rnd w"
  "exe (Eprint s w) = exe w"
  "bash (Eprint s w) = bash w"
  "trace (Eprint s w) = trace w"
  "stdout (Eprint s w) = stdout w"
  by (simp_all add: Eprint_def)

lemma log_Printf_frame [simp]:
  "files (log_Printf s w) = files w"
  "fault (log_Printf s w) = fault w"
  "cwd (log_Printf s w) = cwd w"
  "clock (log_Printf s w) = clock w"
  "tempdir (log_Printf s w) = tempdir w"
  "rnd (log_Printf s w) = rnd w"
  "exe (log_Printf s w) = exe w"
  "bash (log_Printf s w) = bash w"
  "trace (log_Printf s w) = trace w"
  "stdout (log_Printf s w) = stdout w"
  by (simp_all add: log_Printf_def Let_def case_prod_beta)

lemma os_Stat_frame [simp]:
  "files (snd (os_Stat p w)) = files w"
  "fault (snd (os_Stat p w)) = fault w"
  "cwd (snd (os_Stat p w)) = cwd w"
  "clock (snd (os_Stat p w)) = clock w"
  "ticks (snd (os_Stat p w)) = ticks w"
  "tempdir (snd (os_Stat p w)) = tempdir w"
  "rnd (snd (os_Stat p w)) = rnd w"
  "exe (snd (os_Stat p w)) = exe w"
  "bash (snd (os_Stat p w)) = bash w"
  "stdout (snd (os_Stat p w)) = stdout w"
  "stderr (snd (os_Stat p w)) = stderr w"
  by (simp_all add: os_Stat_def Let_def split: option.splits)

lemma os_OpenFile_frame [simp]:
  "fault (snd (os_OpenFile p fl m w)) = fault w"
  "cwd (snd (os_OpenFile p fl m w)) = cwd w"
  "clock (snd (os_OpenFile p fl m w)) = clock w"
  "ticks (snd (os_OpenFile p fl m w)) = ticks w"
  "tempdir (snd (os_OpenFile p fl m w)) = tempdir w"
  "rnd (snd (os_OpenFile p fl m w)) = rnd w"
  "exe (snd (os_OpenFile p fl m w)) = exe w"
  "bash (snd (os_OpenFile p fl m w)) = bash w"
  "stdout (snd (os_OpenFile p fl m w)) = stdout w"
  "stderr (snd (os_OpenFile p fl m w)) = stderr w"
  by (simp_all add: os_OpenFile_def Let_def split: option.splits node.splits)

lemma file_Write_frame [simp]:
  "fault (snd (file_Write h c w)) = fault w"
  "cwd (snd (file_Write h c w)) = cwd w"
  "clock (snd (file_Write h c w)) = clock w"
  "ticks (snd (file_Write h c w)) = ticks w"
  "tempdir (snd (file_Write h c w)) = tempdir w"
  "rnd (snd (file_Write h c w)) = rnd w"
  "exe (snd (file_Write h c w)) = exe w"
  "bash (snd (file_Write h c w)) = bash w"
  "stdout (snd (file_Write h c w)) = stdout w"
  "stderr (snd (file_Write h c w)) = stderr w"
  by (simp_all add: file_Write_def Let_def split: option.splits node.splits)

lemma os_ReadFile_frame [simp]:
  "files (snd (os_ReadFile p w)) = files w"
  "fault (snd (os_ReadFile p w)) = fault w"
  "cwd (snd (os_ReadFile p w)) = cwd w"
  "clock (snd (os_ReadFile p w)) = clock w"
  "ticks (snd (os_ReadFile p w)) = ticks w"
  "tempdir (snd (os_ReadFile p w)) = tempdir w"
  "rnd (snd (os_ReadFile p w)) = rnd w"
  "exe (snd (os_ReadFile p w)) = exe w"
  "bash (snd (os_ReadFile p w)) = bash w"
  "stdout (snd (os_ReadFile p w)) = stdout w"
  "stderr (snd (os_ReadFile p w)) = stderr w"
  by (simp_all add: os_ReadFile_def Let_def split: option.splits node.splits)

lemma os_Chdir_frame [simp]:
  "files (snd (os_Chdir p w)) = files w"
  "fault (snd (os_Chdir p w)) = fault w"
  "clock (snd (os_Chdir p w)) = clock w"
  "ticks (snd (os_Chdir p w)) = ticks w"
  "tempdir (snd (os_Chdir p w)) = tempdir w"
  "rnd (snd (os_Chdir p w)) = rnd w"
  "exe (snd (os_Chdir p w)) = exe w"
  "bash (snd (os_Chdir p w)) = bash w"
  "stdout (snd (os_Chdir p w)) = stdout w"
  "stderr (snd (os_Chdir p w)) = stderr w"
  by (simp_all add: os_Chdir_def Let_def split: option.splits node.splits)

lemma os_Chmod_frame [simp]:
  "fault (snd (os_Chmod p m w)) = fault w"
  "cwd (snd (os_Chmod p m w)) = cwd w"
  "clock (snd (os_Chmod p m w)) = clock w"
  "ticks (snd (os_Chmod p m w)) = ticks w"
  "tempdir (snd (os_Chmod p m w)) = tempdir w"
  "rnd (snd (os_Chmod p m w)) = rnd w"
  "exe (snd (os_Chmod p m w)) = exe w"
  "bash (snd (os_Chmod p m w)) = bash w"
  "stdout (snd (os_Chmod p m w)) = stdout w"
  "stderr (snd (os_Chmod p m w)) = stderr w"
  by (simp_all add: os_Chmod_def Let_def split: option.splits)

lemma os_Rename_frame [simp]:
  "fault (snd (os_Rename p q w)) = fault w"
  "cwd (snd (os_Rename p q w)) = cwd w"
  "clock (snd (os_Rename p q w)) = clock w"
  "ticks (snd (os_Rename p q w)) = ticks w"
  "tempdir (snd (os_Rename p q w)) = tempdir w"
  "rnd (snd (os_Rename p q w)) = rnd w"
  "exe (snd (os_Rename p q w)) = exe w"
  "bash (snd (os_Rename p q w)) = bash w"
  "stdout (snd (os_Rename p q w)) = stdout w"
  "stderr (snd (os_Rename p q w)) = stderr w"
  by (simp_all add: os_Rename_def Let_def split: option.splits)

lemma os_Remove_frame [simp]:
  "fault (snd (os_Remove p w)) = fault w"
  "cwd (snd (os_Remove p w)) = cwd w"
  "clock (snd (os_Remove p w)) = clock w"
  "ticks (snd (os_Remove p w)) = ticks w"
  "tempdir (snd (os_Remove p w)) = tempdir w"
  "rnd (snd (os_Remove p w)) = rnd w"
  "exe (snd (os_Remove p w)) = exe w"
  "bash (snd (os_Remove p w)) = bash w"
  "stdout (snd (os_Remove p w)) = stdout w"
  "stderr (snd (os_Remove p w)) = stderr w"
  by (simp_all add: os_Remove_def Let_def split: option.splits)

lemma cmd_Start_frame [simp]:
  "files (snd (cmd_Start argv w)) = files w"
  "fault (snd (cmd_Start argv w)) = fault w"
  "cwd (snd (cmd_Start argv w)) = cwd w"
  "clock (snd (cmd_Start argv w)) = clock w"
  "ticks (snd (cmd_Start argv w)) = ticks w"
  "tempdir (snd (cmd_Start argv w)) = tempdir w"
  "rnd (snd (cmd_Start argv w)) = rnd w"
  "exe (snd (cmd_Start argv w)) = exe w"
  "bash (snd (cmd_Start argv w)) = bash w"
  "stdout (snd (cmd_Start argv w)) = stdout w"
  "stderr (snd (cmd_Start argv w)) = stderr w"
  by (simp_all add: cmd_Start_def Let_def split: option.splits)

lemma cmd_Start_in_frame [simp]:
  "files (snd (cmd_Start_in dir argv w)) = files w"
  "fault (snd (cmd_Start_in dir argv w)) = fault w"
  "cwd (snd (cmd_Start_in dir argv w)) = cwd w"
  "clock (snd (cmd_Start_in dir argv w)) = clock w"
  "ticks (snd (cmd_Start_in dir argv w)) = ticks w"
  "tempdir (snd (cmd_Start_in dir argv w)) = tempdir w"
  "rnd (snd (cmd_Start_in dir argv w)) = rnd w"
  "exe (snd (cmd_Start_in dir argv w)) = exe w"
  "bash (snd (cmd_Start_in dir argv w)) = bash w"
  "stdout (snd (cmd_Start_in dir argv w)) = stdout w"
  "stderr (snd (cmd_Start_in dir argv w)) = stderr w"
  "trace (snd (cmd_Start_in dir argv w)) = trace w @ [EvStart argv]"
  by (simp_all add: cmd_Start_in_def emit_def Let_def split: option.splits node.splits)

lemma ValidatePaths_frame [simp]:
  "files (snd (ValidatePaths p s l w)) = files w"
  "fault (snd (ValidatePaths p s l w)) = fault w"
  "cwd (snd (ValidatePaths p s l w)) = cwd w"
  "clock (snd (ValidatePaths p s l w)) = clock w"
  "ticks (snd (ValidatePaths p s l w)) = ticks w"
  "tempdir (snd (ValidatePaths p s l w)) = tempdir w"
  "rnd (snd (ValidatePaths p s l w)) = rnd w"
  "exe (snd (ValidatePaths p s l w)) = exe w"
  "bash (snd (ValidatePaths p s l w)) = bash w"
  "stdout (snd (ValidatePaths p s l w)) = stdout w"
  "stderr (snd (ValidatePaths p s l w)) = stderr w"
  by (simp_all add: ValidatePaths_def Let_def case_prod_beta)

lemma os_Stat_trace [simp]: "trace (snd (os_Stat p w)) = trace w @ [EvStat p]"
  by (simp add: os_Stat_def emit_def Let_def split: option.splits)

lemma os_Stat_again [simp]: "fst (os_Stat p (snd (os_Stat q w))) = fst (os_Stat p w)"
  by (simp add: os_Stat_def emit_def abspath_def refusal_def Let_def split: option.splits)

lemma stat_not_exist:
  "IsNotExist (err_of (fst (os_Stat p w))) \<longleftrightarrow> fst (os_Stat p w) = Inl (PathError ''stat'' p ENOENT)"
  by (auto simp add: os_Stat_def err_of_def Let_def split: option.splits)

subsection \<open>Path validation\<close>

lemma ValidatePaths_result:
  "fst (ValidatePaths project script logs w) =
     (if \<not> IsAbs project then Some (Errorf ''project path must be absolute'')
      else if IsNotExist (err_of (fst (os_Stat project w)))
        then Some (Errorf ''project path does not exist'')
      else if \<not> IsAbs script then Some (Errorf ''deployment script path must be absolute'')
      else if IsNotExist (err_of (fst (os_Stat script w)))
        then Some (Errorf ''deployment script path does not exist'')
      else if \<not> IsAbs logs then Some (Errorf ''log path must be absolute'')
      else if IsNotExist (err_of (fst (os_Stat logs w)))
        then Some (Errorf ''log path does not exist'')
      else None)"
  by (simp add: ValidatePaths_def Let_def case_prod_beta)

lemma ValidatePaths_trace:
  "\<exists>evs. trace (snd (ValidatePaths p s l w)) = trace w @ evs \<and> filter is_stat evs = evs"
  by (simp add: ValidatePaths_def Let_def case_prod_beta)

text \<open>
  C10. With three absolute paths, validation reports a path as missing exactly when
  \<^verbatim>\<open>stat\<close> on it fails with the not-exist error. Any other answer of \<^verbatim>\<open>stat\<close>, a success
  or a failure for another reason such as a refused permission, passes the check, and
  validation succeeds when none of the three answers is the not-exist error.
\<close>

theorem ValidatePaths_missing_only_on_not_exist:
  assumes "IsAbs project" and "IsAbs script" and "IsAbs logs"
  shows "fst (ValidatePaths project script logs w) =
     (if fst (os_Stat project w) = Inl (PathError ''stat'' project ENOENT)
        then Some (Errorf ''project path does not exist'')
      else if fst (os_Stat script w) = Inl (PathError ''stat'' script ENOENT)
        then Some (Errorf ''deployment script path does not exist'')
      else if fst (os_Stat logs w) = Inl (PathError ''stat'' logs ENOENT)
        then Some (Errorf ''log path does not exist'')
      else None)"
  using assms by (simp add: ValidatePaths_result stat_not_exist)

theorem ValidatePaths_missing_only_on_not_exist_witness:
  "fst (os_Stat ''/l'' world_stat_refused) = Inl (PathError ''stat'' ''/l'' EACCES)
   \<and> fst (ValidatePaths ''/p'' ''/p/deploy.sh'' ''/l'' world_stat_refused) = None"
proof -
  have a: "IsAbs ''/p''" "IsAbs ''/p/deploy.sh''" "IsAbs ''/l''"
    by (simp_all add: IsAbs_def)
  have s: "fst (os_Stat ''/p'' world_stat_refused) = Inr (Dir (perm 7 5 5))"
    "fst (os_Stat ''/p/deploy.sh'' world_stat_refused)
       = Inr (File (perm 6 4 4) [Text ''echo hello''])"
    "fst (os_Stat ''/l'' world_stat_refused) = Inl (PathError ''stat'' ''/l'' EACCES)"
    by (simp_all add: os_Stat_def world_stat_refused_def world0_def emit_def path_simps)
  show ?thesis
    using ValidatePaths_missing_only_on_not_exist [OF a, of world_stat_refused] s by simp
qed

subsection \<open>The background run on a task file it cannot use\<close>

text \<open>
  C9. When the task file cannot be read, or is read and does not parse into a task, the
  background run exits with status 1, leaves every file as it was and attempts no removal:
  the task file stays.
\<close>

theorem handleInternalRun_bad_task_file:
  assumes "(\<exists>err. fst (os_ReadFile taskFile w) = Inl err)
         \<or> (\<exists>data err. fst (os_ReadFile taskFile w) = Inr data \<and> json_Unmarshal data = Inl err)"
  shows "fst (handleInternalRun taskFile w) = 1
       \<and> files (snd (handleInternalRun taskFile w)) = files w
       \<and> filter is_remove (since w (snd (handleInternalRun taskFile w))) = []"
  using assms
  by (auto simp add: handleInternalRun_def os_ReadFile_def emit_def Println_def Print_def
      Eprint_def since_def Let_def split: option.splits node.splits if_splits)

theorem handleInternalRun_bad_task_file_witness:
  "fst (handleInternalRun ''/tmp/t.json'' world_garbled) = 1
   \<and> files (snd (handleInternalRun ''/tmp/t.json'' world_garbled)) ''/tmp/t.json''
       = Some (File (perm 6 0 0) [Text ''{oops''])"
proof -
  have r: "fst (os_ReadFile ''/tmp/t.json'' world_garbled) = Inr [Text ''{oops'']"
    by (simp add: os_ReadFile_def world_garbled_def world0_def emit_def path_simps perm_simps)
  have u: "json_Unmarshal [Text ''{oops'']
      = Inl (Errorf ''invalid character looking for beginning of value'')"
    by (simp add: json_Unmarshal_def)
  have h: "(\<exists>err. fst (os_ReadFile ''/tmp/t.json'' world_garbled) = Inl err)
         \<or> (\<exists>data err. fst (os_ReadFile ''/tmp/t.json'' world_garbled) = Inr data
              \<and> json_Unmarshal data = Inl err)"
    using r u by blast
  show ?thesis
    using handleInternalRun_bad_task_file [OF h] by (simp add: world_garbled_def)
qed

subsection \<open>The temporary file\<close>

lemma os_OpenFile_excl:
  "os_OpenFile p O_EXCL m w = (r, w') \<Longrightarrow>
     trace w' = trace w @ [EvOpen p] \<and>
     (case r of Inl e \<Rightarrow> files w' = files w
      | Inr f \<Rightarrow> f = abspath w p \<and> files w f = None \<and> files w' = (files w)(f \<mapsto> File m []))"
  by (auto simp add: os_OpenFile_def emit_def Let_def split: option.splits node.splits)

lemma os_OpenFile_same_env:
  assumes "os_OpenFile p fl m w = (r, w')"
  shows "same_env w w'"
proof -
  from assms have "w' = snd (os_OpenFile p fl m w)" by simp
  then show ?thesis by (simp add: same_env_def)
qed

lemma CreateTemp_loop_result:
  "CreateTemp_loop pre suf n w = (r, w') \<Longrightarrow>
     same_env w w' \<and>
     (\<exists>evs. trace w' = trace w @ evs \<and> set evs \<subseteq> range EvOpen) \<and>
     (case r of Inl e \<Rightarrow> files w' = files w
      | Inr (name, f) \<Rightarrow> f = abspath w name \<and> files w f = None
          \<and> files w' = (files w)(f \<mapsto> File perm_0600 []) \<and> (\<exists>x. name = pre @ x @ suf))"
proof (induction pre suf n w arbitrary: r w' rule: CreateTemp_loop.induct)
  case (1 pre suf n w)
  obtain r1 w1 where o: "os_OpenFile (pre @ rnd w n @ suf) O_EXCL perm_0600 w = (r1, w1)"
    by (cases "os_OpenFile (pre @ rnd w n @ suf) O_EXCL perm_0600 w")
  note ex = os_OpenFile_excl [OF o]
  note se = os_OpenFile_same_env [OF o]
  have unf: "CreateTemp_loop pre suf n w =
     (case r1 of
           Inr f \<Rightarrow> (Inr (pre @ rnd w n @ suf, f), w1)
         | Inl err \<Rightarrow>
             (case err of
                PathError _ _ EEXIST \<Rightarrow>
                  if Suc n < 10000 then CreateTemp_loop pre suf (Suc n) w1
                  else (Inl (PathError ''createtemp'' (pre @ ''*'' @ suf) EEXIST), w1)
              | _ \<Rightarrow> (Inl err, w1)))"
    by (subst CreateTemp_loop.simps) (simp add: Let_def o)
  show ?case
  proof (cases r1)
    case (Inr f)
    with "1.prems" ex se unf show ?thesis by auto
  next
    case (Inl err)
    show ?thesis
    proof (cases "\<exists>a b. err = PathError a b EEXIST \<and> Suc n < 10000")
      case True
      then obtain a b where e: "err = PathError a b EEXIST" and lt: "Suc n < 10000" by blast
      from "1.prems" unf Inl e lt have rec: "CreateTemp_loop pre suf (Suc n) w1 = (r, w')"
        by simp
      have w1: "files w1 = files w" using ex Inl by simp
      have ih: "same_env w1 w' \<and>
         (\<exists>evs. trace w' = trace w1 @ evs \<and> set evs \<subseteq> range EvOpen) \<and>
         (case r of Inl e \<Rightarrow> files w' = files w1
          | Inr (name, f) \<Rightarrow> f = abspath w1 name \<and> files w1 f = None
              \<and> files w' = (files w1)(f \<mapsto> File perm_0600 []) \<and> (\<exists>x. name = pre @ x @ suf))"
        using "1.IH" [OF refl refl o [symmetric] Inl e refl lt rec] .
      have ab: "\<And>q. abspath w1 q = abspath w q" using se by (simp add: abspath_def same_env_def)
      have tr: "\<exists>evs. trace w' = trace w @ evs \<and> set evs \<subseteq> range EvOpen"
      proof -
        from ih obtain evs where "trace w' = trace w1 @ evs" "set evs \<subseteq> range EvOpen" by blast
        with ex have "trace w' = trace w @ (EvOpen (pre @ rnd w n @ suf) # evs)"
          "set (EvOpen (pre @ rnd w n @ suf) # evs) \<subseteq> range EvOpen" by auto
        then show ?thesis by blast
      qed
      have se': "same_env w w'" using se ih by (simp add: same_env_def)
      show ?thesis using ih tr se' unfolding w1 ab by simp
    next
      case False
      with "1.prems" unf Inl ex se show ?thesis
        by (auto split: error.splits errno.splits if_splits)
    qed
  qed
qed

lemma os_CreateTemp_result:
  "os_CreateTemp pre suf w = (r, w') \<Longrightarrow>
     same_env w w' \<and>
     (\<exists>evs. trace w' = trace w @ evs \<and> set evs \<subseteq> range EvOpen) \<and>
     (case r of Inl e \<Rightarrow> files w' = files w
      | Inr (name, f) \<Rightarrow> f = abspath w name \<and> files w f = None
          \<and> files w' = (files w)(f \<mapsto> File perm_0600 []) \<and> name \<noteq> [])"
proof -
  assume "os_CreateTemp pre suf w = (r, w')"
  then have "CreateTemp_loop (joinPath (tempdir w) pre) suf 0 w = (r, w')"
    by (simp add: os_CreateTemp_def)
  from CreateTemp_loop_result [OF this] show ?thesis
    by (auto simp add: joinPath_def split: sum.splits if_splits)
qed

lemma os_CreateTemp_frame [simp]:
  "fault (snd (os_CreateTemp pre suf w)) = fault w"
  "cwd (snd (os_CreateTemp pre suf w)) = cwd w"
  "clock (snd (os_CreateTemp pre suf w)) = clock w"
  "ticks (snd (os_CreateTemp pre suf w)) = ticks w"
  "exe (snd (os_CreateTemp pre suf w)) = exe w"
  "stdout (snd (os_CreateTemp pre suf w)) = stdout w"
  "stderr (snd (os_CreateTemp pre suf w)) = stderr w"
  using os_CreateTemp_result [of pre suf w "fst (os_CreateTemp pre suf w)" "snd (os_CreateTemp pre suf w)"]
  by (simp_all add: same_env_def)

lemma time_Now_twice [simp]:
  "snd (time_Now (snd (time_Now w))) = w\<lparr>ticks := Suc (Suc (ticks w))\<rparr>"
  "fst (time_Now w) = clock w (ticks w)"
  "fst (time_Now (snd (time_Now w))) = clock w (Suc (ticks w))"
  by (simp_all add: time_Now_def)

lemma file_Write_fst [simp]:
  "fst (file_Write h c w) = map_option (PathError ''write'' h) (fault w SysWrite h)"
  by (simp add: file_Write_def Let_def split: option.splits node.splits)

lemma cmd_Start_fst [simp]:
  "fst (cmd_Start (a # as) w) = map_option (PathError ''fork/exec'' a) (fault w SysStart a)"
  by (simp add: cmd_Start_def Let_def split: option.splits)

lemma time_Now_ticks [simp]: "ticks (snd (time_Now w)) = Suc (ticks w)"
  by (simp add: time_Now_def)

lemma file_Write_trace [simp]: "trace (snd (file_Write h c w)) = trace w @ [EvWrite h]"
  by (simp add: file_Write_def emit_def Let_def split: option.splits node.splits)

lemma cmd_Start_trace [simp]: "trace (snd (cmd_Start argv w)) = trace w @ [EvStart argv]"
  by (simp add: cmd_Start_def emit_def Let_def split: option.splits)

lemma json_Marshal_ok: "(\<exists>d. json_Marshal t = Inr d) \<longleftrightarrow> Year (CreatedAt t) < 10000"
  by (auto simp add: json_Marshal_def)

lemma file_Write_files:
  "fault w SysWrite h = None \<Longrightarrow> files w h = Some (File m d) \<Longrightarrow>
     files (snd (file_Write h c w)) = (files w)(h \<mapsto> File m (d @ [c]))"
  by (simp add: file_Write_def emit_def Let_def)

lemma cmd_Start_files [simp]: "files (snd (cmd_Start argv w)) = files w"
  by (simp add: cmd_Start_def emit_def Let_def split: option.splits)

subsection \<open>Decimal numbers\<close>

lemma show_nat_digit: "n < 10 \<Longrightarrow> show_nat n = [digit n]"
  by (subst show_nat.simps) simp

lemma show_small [simp]:
  "show_nat 0 = ''0''" "show_nat 1 = ''1''" "show_nat 5 = ''5''" "show_nat 6 = ''6''"
  "show_nat 7 = ''7''" "show_nat 9 = ''9''"
  by (simp_all add: show_nat_digit digit_def)

subsection \<open>The foreground invocation\<close>

lemma ValidatePaths_error_text:
  "fst (ValidatePaths project script logs w) = Some err \<Longrightarrow> Error err \<noteq> []"
  by (auto simp add: ValidatePaths_result split: if_splits)

lemma handleDeploy_status_range:
  "fst (handleDeploy project script logs w) = 0 \<or> fst (handleDeploy project script logs w) = 1"
  by (simp add: handleDeploy_def Let_def case_prod_beta
      split: option.splits sum.splits prod.splits)

lemma handleDeploy_success_iff:
  "fst (handleDeploy project script logs w) = 0 \<longleftrightarrow> spawn_conditions project script logs w"
  unfolding spawn_conditions_def
  by (auto simp add: handleDeploy_def Let_def case_prod_beta json_Marshal_def
      split: option.splits sum.splits prod.splits)

lemma handleDeploy_failure_message:
  "fst (handleDeploy project script logs w) = 1 \<Longrightarrow>
     \<exists>msg. stdout (snd (handleDeploy project script logs w)) = stdout w @ [msg @ [CHR 0x0A]]
       \<and> (msg = ''All flags are required: --project, --deployScript, --logPath''
            \<or> (\<exists>detail. detail \<noteq> [] \<and> msg = ''Error: '' @ detail))"
  by (auto simp add: handleDeploy_def Let_def case_prod_beta Println_def Print_def
        ValidatePaths_error_text
      split: option.splits sum.splits prod.splits if_splits)

lemma handleDeploy_success_output:
  "fst (handleDeploy project script logs w) = 0 \<Longrightarrow>
     stdout (snd (handleDeploy project script logs w)) = stdout w @
        [''Deployment started in background for task '' @ show_int (UnixNano (clock w (ticks w))) @ [CHR 0x0A]]
     \<and> (\<exists>name f ex evs. exe w = Inr ex
          \<and> fst (os_CreateTemp ''deploy_task_'' ''.json'' ((snd (ValidatePaths project script logs w))\<lparr>ticks := Suc (Suc (ticks w))\<rparr>)) = Inr (name, f)
          \<and> trace (snd (handleDeploy project script logs w)) = trace w @ evs @ [EvStart [ex, ''internal-run'', ''--taskFile'', name]]
          \<and> (\<forall>a. EvStart a \<notin> set evs \<and> EvWait a \<notin> set evs))"
proof -
  assume a: "fst (handleDeploy project script logs w) = 0"
  let ?v = "ValidatePaths project script logs w"
  let ?w3 = "(snd ?v)\<lparr>ticks := Suc (Suc (ticks w))\<rparr>"
  let ?c = "os_CreateTemp ''deploy_task_'' ''.json'' ?w3"
  obtain e1 where e1: "trace (snd ?v) = trace w @ e1" "filter is_stat e1 = e1"
    using ValidatePaths_trace by blast
  obtain e2 where e2: "trace (snd ?c) = trace ?w3 @ e2" "set e2 \<subseteq> range EvOpen"
    using os_CreateTemp_result [of "''deploy_task_''" "''.json''" ?w3 "fst ?c" "snd ?c"] by auto
  have n1: "\<And>a. EvStart a \<notin> set e1 \<and> EvWait a \<notin> set e1"
  proof -
    fix a
    have "\<forall>x \<in> set e1. is_stat x" using e1(2) by (metis filter_id_conv)
    then show "EvStart a \<notin> set e1 \<and> EvWait a \<notin> set e1" by auto
  qed
  have n2: "\<And>a. EvStart a \<notin> set e2 \<and> EvWait a \<notin> set e2" using e2(2) by auto
  show ?thesis using a e1 e2 n1 n2
    by (auto simp add: handleDeploy_def Let_def case_prod_beta Println_def Print_def
      split: option.splits sum.splits prod.splits if_splits)
qed

lemmas eval_simps = handleDeploy_def ValidatePaths_def os_Stat_def os_CreateTemp_def joinPath_def
  os_OpenFile_def file_Write_def cmd_Start_def time_Now_def json_Marshal_def dir_check_def
  emit_def Print_def Println_def err_of_def show_int_def Let_def

lemma handleDeploy_world0: "fst (handleDeploy ''/p'' ''/p/deploy.sh'' ''/l'' world0) = 0"
  apply (simp add: eval_simps path_simps perm_simps world0_def)
  apply (subst CreateTemp_loop.simps)
  apply (simp add: eval_simps path_simps perm_simps)
  done

lemma handleDeploy_task_file:
  assumes "fst (handleDeploy project script logs w) = 0"
  shows "\<exists>name f d. fst (os_CreateTemp ''deploy_task_'' ''.json''
              ((snd (ValidatePaths project script logs w))\<lparr>ticks := Suc (Suc (ticks w))\<rparr>)) = Inr (name, f)
     \<and> f = abspath w name \<and> files w f = None \<and> name \<noteq> []
     \<and> json_Marshal \<lparr>ProjectPath = project, DeploymentScriptPath = script, LogPath = logs,
           TaskID = show_int (UnixNano (clock w (ticks w))), CreatedAt = clock w (Suc (ticks w))\<rparr> = Inr d
     \<and> files (snd (handleDeploy project script logs w)) = (files w)(f \<mapsto> File perm_0600 [d])"
proof -
  let ?v = "ValidatePaths project script logs w"
  let ?w3 = "(snd ?v)\<lparr>ticks := Suc (Suc (ticks w))\<rparr>"
  let ?c = "os_CreateTemp ''deploy_task_'' ''.json'' ?w3"
  let ?task = "\<lparr>ProjectPath = project, DeploymentScriptPath = script, LogPath = logs,
           TaskID = show_int (UnixNano (clock w (ticks w))), CreatedAt = clock w (Suc (ticks w))\<rparr>"
  from assms have sc: "spawn_conditions project script logs w" by (simp add: handleDeploy_success_iff)
  then obtain name f ex where
    fl: "project \<noteq> []" "script \<noteq> []" "logs \<noteq> []" and v: "fst ?v = None"
    and y: "Year (clock w (Suc (ticks w))) < 10000"
    and c: "fst ?c = Inr (name, f)" and wr: "fault w SysWrite f = None"
    and ex: "exe w = Inr ex" and st: "fault w SysStart ex = None"
    unfolding spawn_conditions_def by blast
  from y obtain d where d: "json_Marshal ?task = Inr d" by (auto simp add: json_Marshal_def)
  have ab: "\<And>q. abspath ?w3 q = abspath w q" by (simp add: abspath_def)
  have "case fst ?c of Inl e \<Rightarrow> files (snd ?c) = files ?w3
      | Inr (name, f) \<Rightarrow> f = abspath ?w3 name \<and> files ?w3 f = None
          \<and> files (snd ?c) = (files ?w3)(f \<mapsto> File perm_0600 []) \<and> name \<noteq> []"
    using os_CreateTemp_result [of "''deploy_task_''" "''.json''" ?w3 "fst ?c" "snd ?c"]
    by simp
  then have cf0: "f = abspath ?w3 name \<and> files ?w3 f = None
          \<and> files (snd ?c) = (files ?w3)(f \<mapsto> File perm_0600 []) \<and> name \<noteq> []"
    unfolding c by auto
  have cf: "f = abspath w name" "files w f = None"
    "files (snd ?c) = (files w)(f \<mapsto> File perm_0600 [])" "name \<noteq> []"
    using cf0 unfolding ab by auto
  have wf: "files (snd (file_Write f d (snd ?c))) = (files w)(f \<mapsto> File perm_0600 [d])"
    using file_Write_files [of "snd ?c" f perm_0600 "[]" d] wr cf by simp
  have "files (snd (handleDeploy project script logs w)) = (files w)(f \<mapsto> File perm_0600 [d])"
    using fl v c d wr ex st wf
    by (simp add: handleDeploy_def Let_def case_prod_beta)
  with c cf d show ?thesis by blast
qed


text \<open>
  C4. The foreground invocation exits with status 0 or 1. It exits with 0 exactly when no
  step fails: the flags are given, validation passes, the temporary file is created, the
  task is serialized and written, the executable is found and the background process
  starts. An exit with 1 prints one line, the message for the missing flags or a line
  that starts with \<^verbatim>\<open>Error:\<close> and says what failed. An exit with 0 prints the
  confirmation with the task identifier, and the start of the background process is the
  last system call: the foreground never waits for it.
\<close>

theorem handleDeploy_exit_status:
  "let r = handleDeploy project script logs w;
       v = ValidatePaths project script logs w;
       tmp = os_CreateTemp ''deploy_task_'' ''.json'' ((snd v)\<lparr>ticks := Suc (Suc (ticks w))\<rparr>);
       taskId = show_int (UnixNano (clock w (ticks w)))
   in (fst r = 0 \<or> fst r = 1)
    \<and> (fst r = 0 \<longleftrightarrow>
          project \<noteq> [] \<and> script \<noteq> [] \<and> logs \<noteq> [] \<and> fst v = None
          \<and> Year (clock w (Suc (ticks w))) < 10000
          \<and> (\<exists>name f ex. fst tmp = Inr (name, f) \<and> fault w SysWrite f = None
                \<and> exe w = Inr ex \<and> fault w SysStart ex = None))
    \<and> (fst r = 1 \<longrightarrow>
          (\<exists>msg. stdout (snd r) = stdout w @ [msg @ [CHR 0x0A]]
             \<and> (msg = ''All flags are required: --project, --deployScript, --logPath''
                  \<or> (\<exists>detail. detail \<noteq> [] \<and> msg = ''Error: '' @ detail))))
    \<and> (fst r = 0 \<longrightarrow>
          stdout (snd r) = stdout w
             @ [''Deployment started in background for task '' @ taskId @ [CHR 0x0A]]
          \<and> (\<exists>name f ex evs. exe w = Inr ex \<and> fst tmp = Inr (name, f)
                \<and> trace (snd r) = trace w @ evs @ [EvStart [ex, ''internal-run'', ''--taskFile'', name]]
                \<and> (\<forall>a. EvStart a \<notin> set evs \<and> EvWait a \<notin> set evs)))"
  unfolding Let_def
  using handleDeploy_status_range [of project script logs w] handleDeploy_success_iff [of project script logs w]
    handleDeploy_failure_message [of project script logs w] handleDeploy_success_output [of project script logs w]
  unfolding spawn_conditions_def by blast

theorem handleDeploy_exit_status_witness:
  "fst (handleDeploy ''/p'' ''/p/deploy.sh'' ''/l'' world0) = 0
   \<and> stdout (snd (handleDeploy ''/p'' ''/p/deploy.sh'' ''/l'' world0))
       = [''Deployment started in background for task 7'' @ [CHR 0x0A]]"
proof -
  have t: "show_int (UnixNano (clock world0 (ticks world0))) = ''7''" "stdout world0 = []"
    by (simp_all add: world0_def show_int_def)
  show ?thesis
    using handleDeploy_exit_status [of "''/p''" "''/p/deploy.sh''" "''/l''" world0] handleDeploy_world0 t
    by (simp add: Let_def)
qed

text \<open>
  C7. Validation returns the error of the first check that fails, in the order project,
  script, log directory, each first for being absolute and then for being there, and the
  message is the name of that path followed by the reason. Validation changes no file and
  nothing else of the process: it only calls \<^verbatim>\<open>stat\<close>. When it fails, the foreground
  invocation exits with status 1 having written no file and started no process.
\<close>

theorem ValidatePaths_first_failing_check:
  "let v = ValidatePaths project script logs w;
       absent = (\<lambda>p. fst (os_Stat p w) = Inl (PathError ''stat'' p ENOENT));
       checks =
         [(\<not> IsAbs project, ''project path'', ''must be absolute''),
          (absent project, ''project path'', ''does not exist''),
          (\<not> IsAbs script, ''deployment script path'', ''must be absolute''),
          (absent script, ''deployment script path'', ''does not exist''),
          (\<not> IsAbs logs, ''log path'', ''must be absolute''),
          (absent logs, ''log path'', ''does not exist'')];
       r = handleDeploy project script logs w
   in fst v = (case find fst checks of
                 None \<Rightarrow> None
               | Some (_, which, why) \<Rightarrow> Some (Errorf (which @ '' '' @ why)))
    \<and> files (snd v) = files w \<and> same_env w (snd v)
    \<and> (\<exists>evs. trace (snd v) = trace w @ evs \<and> filter is_stat evs = evs)
    \<and> (fst v \<noteq> None \<longrightarrow>
          fst r = 1 \<and> files (snd r) = files w
          \<and> (\<exists>evs. trace (snd r) = trace w @ evs \<and> filter is_stat evs = evs))"
proof -
  have a: "fst (ValidatePaths project script logs w) \<noteq> None \<Longrightarrow>
     fst (handleDeploy project script logs w) = 1
     \<and> files (snd (handleDeploy project script logs w)) = files w
     \<and> (\<exists>evs. trace (snd (handleDeploy project script logs w)) = trace w @ evs
           \<and> filter is_stat evs = evs)"
    using ValidatePaths_trace [of project script logs w]
    by (auto simp add: handleDeploy_def Let_def case_prod_beta Println_def Print_def
          split: option.splits)
  show ?thesis
    unfolding Let_def
    using a ValidatePaths_trace [of project script logs w]
    by (simp add: ValidatePaths_result stat_not_exist same_env_def)
qed

theorem ValidatePaths_first_failing_check_witness:
  "fst (ValidatePaths ''/p'' ''deploy.sh'' ''/l'' world0)
     = Some (Errorf ''deployment script path must be absolute'')
   \<and> fst (handleDeploy ''/p'' ''deploy.sh'' ''/l'' world0) = 1
   \<and> files (snd (handleDeploy ''/p'' ''deploy.sh'' ''/l'' world0)) = files world0"
proof -
  have s: "fst (os_Stat ''/p'' world0) = Inr (Dir (perm 7 5 5))"
    by (simp add: os_Stat_def world0_def emit_def path_simps)
  have a: "IsAbs ''/p''" "\<not> IsAbs ''deploy.sh''" by (simp_all add: IsAbs_def)
  show ?thesis
    using ValidatePaths_first_failing_check [of "''/p''" "''deploy.sh''" "''/l''" world0] s a
    by (simp add: Let_def)
qed


subsection \<open>Traces without a given kind of call\<close>

lemma chmod_or_remove_kinds [simp]: "chmod_or_remove is_remove" "chmod_or_remove is_chmod"
  by (simp_all add: chmod_or_remove_def)

lemma chmod_or_remove_not [simp]:
  assumes "chmod_or_remove k"
  shows "\<not> k (EvStat p)" "\<not> k (EvOpen p)" "\<not> k (EvWrite p)" "\<not> k (EvRead p)"
    "\<not> k (EvChdir p)" "\<not> k (EvRename p q)" "\<not> k (EvStart a)" "\<not> k (EvWait a)"
  using assms by (auto simp add: chmod_or_remove_def)

lemma quiet_iff: "quiet k w w' \<longleftrightarrow> (\<exists>evs. trace w' = trace w @ evs \<and> filter k evs = [])"
proof
  assume "quiet k w w'"
  then have "trace w' = trace w @ since w w'" "filter k (since w w') = []"
    unfolding quiet_def since_def by (metis append_take_drop_id, simp)
  then show "\<exists>evs. trace w' = trace w @ evs \<and> filter k evs = []" by blast
next
  assume "\<exists>evs. trace w' = trace w @ evs \<and> filter k evs = []"
  then show "quiet k w w'" by (auto simp add: quiet_def since_def)
qed

lemma quiet_refl [simp]: "quiet k w w"
  by (simp add: quiet_def since_def)

lemma quiet_ext:
  "quiet k w u \<Longrightarrow> trace u' = trace u @ evs \<Longrightarrow> filter k evs = [] \<Longrightarrow> quiet k w u'"
  unfolding quiet_iff by auto

lemma quiet_same: "quiet k w u \<Longrightarrow> trace u' = trace u \<Longrightarrow> quiet k w u'"
  using quiet_ext [of k w u u' "[]"] by simp

lemma quiet_trans: "quiet k w u \<Longrightarrow> quiet k u v \<Longrightarrow> quiet k w v"
  unfolding quiet_iff by auto

lemma os_OpenFile_trace [simp]: "trace (snd (os_OpenFile p fl m w)) = trace w @ [EvOpen p]"
  by (simp add: os_OpenFile_def emit_def Let_def split: option.splits node.splits)

lemma os_ReadFile_trace [simp]: "trace (snd (os_ReadFile p w)) = trace w @ [EvRead p]"
  by (simp add: os_ReadFile_def emit_def Let_def split: option.splits node.splits)

lemma os_Chdir_trace [simp]: "trace (snd (os_Chdir p w)) = trace w @ [EvChdir p]"
  by (simp add: os_Chdir_def emit_def Let_def split: option.splits node.splits)

lemma os_Chmod_trace [simp]: "trace (snd (os_Chmod p m w)) = trace w @ [EvChmod p m]"
  by (simp add: os_Chmod_def emit_def Let_def split: option.splits)

lemma os_Rename_trace [simp]: "trace (snd (os_Rename p q w)) = trace w @ [EvRename p q]"
  by (simp add: os_Rename_def emit_def Let_def split: option.splits)

lemma os_Remove_trace [simp]: "trace (snd (os_Remove p w)) = trace w @ [EvRemove p]"
  by (simp add: os_Remove_def emit_def Let_def split: option.splits)

lemma emit_trace [simp]: "trace (emit e w) = trace w @ [e]"
  by (simp add: emit_def)

lemma time_Now_trace [simp]: "trace (snd (time_Now w)) = trace w"
  by (simp add: time_Now_def)

lemma writeLogEntry_trace [simp]: "trace (writeLogEntry h m w) = trace w @ [EvWrite h]"
  by (simp add: writeLogEntry_def Let_def case_prod_beta)

lemma reader_step_trace:
  "trace (snd (reader_step h p r w)) = trace w
   \<or> trace (snd (reader_step h p r w)) = trace w @ [EvWrite h]"
  by (cases "(h, p, r, w)" rule: reader_step.cases)
     (simp_all add: Let_def case_prod_beta split: option.splits)

lemma reader_finish_invariant:
  "P w \<Longrightarrow> (\<And>r u. P u \<Longrightarrow> P (snd (reader_step h p r u))) \<Longrightarrow> P (reader_finish h p r w)"
proof (induction h p r w rule: reader_finish.induct)
  case (1 h p r w)
  note step = "1.prems"(2)
  show ?case
  proof (cases "r = (Scanning, [])")
    case True
    with "1.prems"(1) show ?thesis by (subst reader_finish.simps) simp
  next
    case False
    obtain r' w' where s: "reader_step h p r w = (r', w')" by (cases "reader_step h p r w")
    have "P (snd (reader_step h p r w))" using "1.prems"(1) by (rule step)
    then have "P w'" unfolding s by simp
    then have "P (reader_finish h p r' w')"
      using step by (rule "1.IH" [OF False s [symmetric] refl])
    then show ?thesis by (subst reader_finish.simps) (simp add: False s)
  qed
qed

lemma run_readers_invariant:
  "P w \<Longrightarrow> (\<And>p r u. P u \<Longrightarrow> P (snd (reader_step h p r u)))
     \<Longrightarrow> P (run_readers h ts ro re w)"
proof (induction h ts ro re w rule: run_readers.induct)
  case (1 h ro re w)
  note step = "1.prems"(2)
  have "P (reader_finish h STDOUT ro w)"
    using "1.prems"(1) step by (rule reader_finish_invariant)
  then have "P (reader_finish h STDERR re (reader_finish h STDOUT ro w))"
    using step by (rule reader_finish_invariant)
  then show ?case by simp
next
  case (2 h ts ro re w)
  note step = "2.prems"(2)
  obtain r' w' where s: "reader_step h STDOUT ro w = (r', w')"
    by (cases "reader_step h STDOUT ro w")
  have "P (snd (reader_step h STDOUT ro w))" using "2.prems"(1) by (rule step)
  then have "P w'" unfolding s by simp
  then have "P (run_readers h ts r' re w')"
    using step by (rule "2.IH" [OF s [symmetric] refl])
  then show ?case by (simp add: s)
next
  case (3 h ts ro re w)
  note step = "3.prems"(2)
  obtain r' w' where s: "reader_step h STDERR re w = (r', w')"
    by (cases "reader_step h STDERR re w")
  have "P (snd (reader_step h STDERR re w))" using "3.prems"(1) by (rule step)
  then have "P w'" unfolding s by simp
  then have "P (run_readers h ts ro r' w')"
    using step by (rule "3.IH" [OF s [symmetric] refl])
  then show ?case by (simp add: s)
qed

lemma reader_step_quiet:
  assumes "quiet k w u" and "chmod_or_remove k"
  shows "quiet k w (snd (reader_step h p r u))"
proof -
  from reader_step_trace [of h p r u] show ?thesis
  proof
    assume "trace (snd (reader_step h p r u)) = trace u"
    with assms(1) show ?thesis by (rule quiet_same)
  next
    assume "trace (snd (reader_step h p r u)) = trace u @ [EvWrite h]"
    with assms(1) show ?thesis by (rule quiet_ext) (simp add: assms(2))
  qed
qed

lemma run_readers_quiet [simp]:
  assumes "quiet k w u" and "chmod_or_remove k"
  shows "quiet k w (run_readers h ts ro re u)"
  using assms(1) by (rule run_readers_invariant) (rule reader_step_quiet [OF _ assms(2)])

lemma readAndLogOutput_quiet:
  assumes "quiet k w u" and "chmod_or_remove k"
  shows "quiet k w (readAndLogOutput pipe h p u)"
  unfolding readAndLogOutput_def
  using assms(1) by (rule reader_finish_invariant) (rule reader_step_quiet [OF _ assms(2)])

lemma quiet_step [simp]:
  "quiet k w u \<Longrightarrow> chmod_or_remove k \<Longrightarrow> quiet k w (snd (os_Stat p u))"
  "quiet k w u \<Longrightarrow> chmod_or_remove k \<Longrightarrow> quiet k w (snd (os_OpenFile p fl m u))"
  "quiet k w u \<Longrightarrow> chmod_or_remove k \<Longrightarrow> quiet k w (snd (file_Write h c u))"
  "quiet k w u \<Longrightarrow> chmod_or_remove k \<Longrightarrow> quiet k w (snd (os_Chdir p u))"
  "quiet k w u \<Longrightarrow> chmod_or_remove k \<Longrightarrow> quiet k w (snd (os_Rename p q u))"
  "quiet k w u \<Longrightarrow> chmod_or_remove k \<Longrightarrow> quiet k w (snd (cmd_Start a u))"
  "quiet k w u \<Longrightarrow> chmod_or_remove k \<Longrightarrow> quiet k w (snd (cmd_Start_in dir a u))"
  "quiet k w u \<Longrightarrow> chmod_or_remove k \<Longrightarrow> quiet k w (writeLogEntry h s u)"
  "quiet k w u \<Longrightarrow> chmod_or_remove k \<Longrightarrow> quiet k w (emit (EvWait a) u)"
  "quiet k w u \<Longrightarrow> quiet k w (snd (time_Now u))"
  "quiet k w u \<Longrightarrow> quiet k w (log_Printf s u)"
  "quiet k w u \<Longrightarrow> \<not> k (EvChmod p m) \<Longrightarrow> quiet k w (snd (os_Chmod p m u))"
  by (erule quiet_ext, simp, simp)+

lemma run_script_quiet [simp]:
  "quiet k w u \<Longrightarrow> chmod_or_remove k \<Longrightarrow> quiet k w (snd (run_script task h u))"
  by (simp add: run_script_def Let_def case_prod_beta split: option.splits)

lemma make_executable_quiet [simp]:
  "quiet is_remove w u \<Longrightarrow> quiet is_remove w (make_executable task h info u)"
  by (simp add: make_executable_def Let_def case_prod_beta split: option.splits)

lemma open_log_and_enter_quiet [simp]:
  "quiet k w u \<Longrightarrow> chmod_or_remove k \<Longrightarrow> quiet k w (snd (open_log_and_enter task u))"
  by (simp add: open_log_and_enter_def Let_def case_prod_beta split: option.splits sum.splits)

lemma ExecuteDeployment_quiet [simp]:
  "quiet is_remove w u \<Longrightarrow> quiet is_remove w (snd (ExecuteDeployment task u))"
  by (simp add: ExecuteDeployment_def Let_def case_prod_beta split: sum.splits)

lemma WriteLog_quiet [simp]:
  "quiet k w u \<Longrightarrow> chmod_or_remove k \<Longrightarrow> quiet k w (WriteLog lp s u)"
  by (simp add: WriteLog_def Let_def case_prod_beta split: sum.splits)

lemma RotateLog_quiet [simp]:
  "quiet k w u \<Longrightarrow> chmod_or_remove k \<Longrightarrow> quiet k w (snd (RotateLog lp u))"
  by (simp add: RotateLog_def Let_def case_prod_beta)

lemma fault_log [simp]: "fault (writeLogEntry h m w) = fault w"
  by (simp add: writeLogEntry_def Let_def case_prod_beta)

lemma reader_step_frame [simp]:
  "fault (snd (reader_step h p r w)) = fault w"
  "cwd (snd (reader_step h p r w)) = cwd w"
  "clock (snd (reader_step h p r w)) = clock w"
  "bash (snd (reader_step h p r w)) = bash w"
  by (cases "(h, p, r, w)" rule: reader_step.cases;
      simp add: log_Printf_def Eprint_def Let_def case_prod_beta split: option.splits)+

lemma reader_step_other: "q \<noteq> h \<Longrightarrow> files (snd (reader_step h p r w)) q = files w q"
  by (cases "(h, p, r, w)" rule: reader_step.cases)
     (simp_all add: log_Printf_def Eprint_def file_Write_def emit_def time_Now_def Let_def
        case_prod_beta split: option.splits node.splits)

lemma run_readers_frame [simp]:
  "fault (run_readers h ts ro re w) = fault w"
  "cwd (run_readers h ts ro re w) = cwd w"
  "clock (run_readers h ts ro re w) = clock w"
  "bash (run_readers h ts ro re w) = bash w"
proof -
  show "fault (run_readers h ts ro re w) = fault w"
    by (rule run_readers_invariant [where P = "\<lambda>u. fault u = fault w"]) simp_all
  show "cwd (run_readers h ts ro re w) = cwd w"
    by (rule run_readers_invariant [where P = "\<lambda>u. cwd u = cwd w"]) simp_all
  show "clock (run_readers h ts ro re w) = clock w"
    by (rule run_readers_invariant [where P = "\<lambda>u. clock u = clock w"]) simp_all
  show "bash (run_readers h ts ro re w) = bash w"
    by (rule run_readers_invariant [where P = "\<lambda>u. bash u = bash w"]) simp_all
qed

lemma run_readers_other: "q \<noteq> h \<Longrightarrow> files (run_readers h ts ro re w) q = files w q"
  by (rule run_readers_invariant [where P = "\<lambda>u. files u q = files w q"])
     (simp_all add: reader_step_other)

lemma fault_composite [simp]:
  "fault (make_executable task h info w) = fault w"
  "fault (snd (run_script task h w)) = fault w"
  "fault (snd (open_log_and_enter task w)) = fault w"
  "fault (WriteLog lp s w) = fault w"
  "fault (snd (RotateLog lp w)) = fault w"
  by (simp_all add: make_executable_def run_script_def open_log_and_enter_def WriteLog_def
      RotateLog_def Let_def case_prod_beta split: option.splits sum.splits)

lemma fault_ExecuteDeployment [simp]: "fault (snd (ExecuteDeployment task w)) = fault w"
  by (simp add: ExecuteDeployment_def Let_def case_prod_beta split: sum.splits)

lemma os_Remove_effect:
  "files (snd (os_Remove p w)) (abspath (snd (os_Remove p w)) p) = None
   \<or> refusal w SysRemove p \<noteq> None
   \<or> dir_check (snd (os_Remove p w)) (abspath (snd (os_Remove p w)) p) \<noteq> None"
  by (auto simp add: os_Remove_def emit_def abspath_def dir_check_def Let_def
      split: option.splits)

lemma os_ReadFile_nonempty: "fst (os_ReadFile p w) = Inr data \<Longrightarrow> p \<noteq> []"
  by (auto simp add: os_ReadFile_def refusal_def Let_def)

lemma handleInternalRun_good:
  assumes "fst (os_ReadFile taskFile w) = Inr data" and "json_Unmarshal data = Inr task"
  shows "fst (handleInternalRun taskFile w) = 0
    \<and> (\<exists>evs. trace (snd (handleInternalRun taskFile w)) = trace w @ evs @ [EvRemove taskFile]
           \<and> filter is_remove evs = [])
    \<and> (files (snd (handleInternalRun taskFile w))
            (abspath (snd (handleInternalRun taskFile w)) taskFile) = None
        \<or> fault w SysRemove taskFile \<noteq> None
        \<or> dir_check (snd (handleInternalRun taskFile w))
            (abspath (snd (handleInternalRun taskFile w)) taskFile) \<noteq> None)"
proof -
  have ne: "taskFile \<noteq> []" using assms(1) by (rule os_ReadFile_nonempty)
  let ?w1 = "snd (os_ReadFile taskFile w)"
  let ?e = "ExecuteDeployment task ?w1"
  let ?w3 = "case fst ?e of
                  Some err \<Rightarrow>
                    WriteLog (LogPath task) (''[ERROR] Deployment failed: '' @ Error err) (snd ?e)
                | None \<Rightarrow>
                    WriteLog (LogPath task) ''[SUCCESS] Deployment completed successfully'' (snd ?e)"
  let ?w4 = "snd (RotateLog (LogPath task) ?w3)"
  have unf: "handleInternalRun taskFile w = (0, snd (os_Remove taskFile ?w4))"
    using ne assms by (simp add: handleInternalRun_def Let_def case_prod_beta)
  have q1: "quiet is_remove w ?w1"
    by (rule quiet_ext [where evs = "[EvRead taskFile]" and u = w]) simp_all
  have q3: "quiet is_remove w ?w3"
    using q1 by (simp split: option.splits)
  have q4: "quiet is_remove w ?w4" using q3 by simp
  then obtain evs where evs: "trace ?w4 = trace w @ evs" "filter is_remove evs = []"
    unfolding quiet_iff by blast
  have f4: "fault ?w4 = fault w" by (simp split: option.splits)
  have tr: "trace (snd (handleInternalRun taskFile w)) = trace w @ evs @ [EvRemove taskFile]"
    using evs by (simp add: unf)
  have gone: "files (snd (handleInternalRun taskFile w))
            (abspath (snd (handleInternalRun taskFile w)) taskFile) = None
        \<or> fault w SysRemove taskFile \<noteq> None
        \<or> dir_check (snd (handleInternalRun taskFile w))
            (abspath (snd (handleInternalRun taskFile w)) taskFile) \<noteq> None"
    using os_Remove_effect [of taskFile ?w4] ne f4 by (simp add: unf refusal_def)
  show ?thesis using unf tr evs(2) gone by auto
qed

subsection \<open>The task file from the foreground to the background\<close>

lemma lower_letters [simp]:
  "lower (CHR ''P'') = CHR ''p''" "lower (CHR ''D'') = CHR ''d''" "lower (CHR ''S'') = CHR ''s''"
  "lower (CHR ''L'') = CHR ''l''" "lower (CHR ''T'') = CHR ''t''" "lower (CHR ''I'') = CHR ''i''"
  "lower (CHR ''C'') = CHR ''c''" "lower (CHR ''A'') = CHR ''a''"
  "lower (CHR ''a'') = CHR ''a''" "lower (CHR ''c'') = CHR ''c''" "lower (CHR ''d'') = CHR ''d''"
  "lower (CHR ''e'') = CHR ''e''" "lower (CHR ''g'') = CHR ''g''" "lower (CHR ''h'') = CHR ''h''"
  "lower (CHR ''i'') = CHR ''i''" "lower (CHR ''j'') = CHR ''j''" "lower (CHR ''k'') = CHR ''k''"
  "lower (CHR ''l'') = CHR ''l''" "lower (CHR ''m'') = CHR ''m''" "lower (CHR ''n'') = CHR ''n''"
  "lower (CHR ''o'') = CHR ''o''" "lower (CHR ''p'') = CHR ''p''" "lower (CHR ''r'') = CHR ''r''"
  "lower (CHR ''s'') = CHR ''s''" "lower (CHR ''t'') = CHR ''t''" "lower (CHR ''y'') = CHR ''y''"
  by (simp_all add: lower_def)

lemma ascii_byte: "\<not> digit7 c \<Longrightarrow> (of_char c :: nat) < 0x80"
  by (cases c) simp

lemma replace_invalid_ascii: "\<forall>c \<in> set s. \<not> digit7 c \<Longrightarrow> replace_invalid 0 s = s"
  by (induction s) (simp_all add: utf8_size_def ascii_byte Let_def)

lemma toValidUTF8_ascii: "\<forall>c \<in> set s. \<not> digit7 c \<Longrightarrow> toValidUTF8 s = s"
  by (simp add: toValidUTF8_def replace_invalid_ascii)

lemma set_field_eval:
  "set_field (''ProjectPath'', JString s) t = Inr (t\<lparr>ProjectPath := toValidUTF8 s\<rparr>)"
  "set_field (''DeploymentScriptPath'', JString s) t
     = Inr (t\<lparr>DeploymentScriptPath := toValidUTF8 s\<rparr>)"
  "set_field (''LogPath'', JString s) t = Inr (t\<lparr>LogPath := toValidUTF8 s\<rparr>)"
  "set_field (''TaskID'', JString s) t = Inr (t\<lparr>TaskID := toValidUTF8 s\<rparr>)"
  "set_field (''CreatedAt'', JTime x) t = Inr (t\<lparr>CreatedAt := x\<rparr>)"
  by (simp_all add: set_field_def decode_string_def decode_time_def)

lemma json_roundtrip:
  assumes "json_Marshal t = Inr d"
  shows "json_Unmarshal [d]
     = Inr \<lparr>ProjectPath = toValidUTF8 (ProjectPath t),
            DeploymentScriptPath = toValidUTF8 (DeploymentScriptPath t),
            LogPath = toValidUTF8 (LogPath t), TaskID = toValidUTF8 (TaskID t),
            CreatedAt = CreatedAt t\<rparr>"
proof -
  from assms have d: "d = Json (JObject
          [(''ProjectPath'', JString (ProjectPath t)),
           (''DeploymentScriptPath'', JString (DeploymentScriptPath t)),
           (''LogPath'', JString (LogPath t)),
           (''TaskID'', JString (TaskID t)),
           (''CreatedAt'', JTime (CreatedAt t))])"
    by (simp add: json_Marshal_def split: if_splits)
  show ?thesis unfolding d
    by (simp add: json_Unmarshal_def set_field_eval zero_task_def)
qed

lemma os_ReadFile_file:
  "p \<noteq> [] \<Longrightarrow> fault w SysRead p = None \<Longrightarrow> files w (abspath w p) = Some (File perm_0600 d)
     \<Longrightarrow> fst (os_ReadFile p w) = Inr d"
  by (simp add: os_ReadFile_def refusal_def Let_def perm_simps)

lemma handleDeploy_frame [simp]:
  "cwd (snd (handleDeploy project script logs w)) = cwd w"
  "fault (snd (handleDeploy project script logs w)) = fault w"
  by (simp_all add: handleDeploy_def Let_def case_prod_beta
        split: option.splits sum.splits prod.splits)

text \<open>
  What holds of the task file in general: a foreground invocation that exits with status 0
  has created exactly one file, the temporary task file, and has handed its name to the
  background process. Unless reading is refused, the background run can read that file and
  parse it. Whenever the background run can read and parse the file, in whatever state the
  world is by then and whatever the deployment returns, it exits with status 0 and calls
  remove exactly once, with the name it was given, as its last system call. The name is
  resolved when the call is made, in the working directory of that moment.
\<close>

lemma task_file_handed_over:
  assumes "fst (handleDeploy project script logs w) = 0"
  shows "\<exists>name f ex.
      f = abspath w name \<and> f \<notin> dom (files w)
    \<and> dom (files (snd (handleDeploy project script logs w))) = insert f (dom (files w))
    \<and> exe w = Inr ex
    \<and> last (trace (snd (handleDeploy project script logs w)))
         = EvStart [ex, ''internal-run'', ''--taskFile'', name]
    \<and> (fault w SysRead name = None \<longrightarrow>
          (\<exists>data task. fst (os_ReadFile name (snd (handleDeploy project script logs w))) = Inr data
             \<and> json_Unmarshal data = Inr task))
    \<and> (\<forall>u data task.
          fst (os_ReadFile name u) = Inr data \<longrightarrow> json_Unmarshal data = Inr task \<longrightarrow>
            fst (handleInternalRun name u) = 0
          \<and> (\<exists>evs. trace (snd (handleInternalRun name u)) = trace u @ evs @ [EvRemove name]
                 \<and> filter is_remove evs = [])
          \<and> (files (snd (handleInternalRun name u))
                 (abspath (snd (handleInternalRun name u)) name) = None
              \<or> fault u SysRemove name \<noteq> None
              \<or> dir_check (snd (handleInternalRun name u))
                   (abspath (snd (handleInternalRun name u)) name) \<noteq> None))"
proof -
  let ?r = "handleDeploy project script logs w"
  let ?task = "\<lparr>ProjectPath = project, DeploymentScriptPath = script, LogPath = logs,
           TaskID = show_int (UnixNano (clock w (ticks w))), CreatedAt = clock w (Suc (ticks w))\<rparr>"
  let ?c = "os_CreateTemp ''deploy_task_'' ''.json''
              ((snd (ValidatePaths project script logs w))\<lparr>ticks := Suc (Suc (ticks w))\<rparr>)"
  from handleDeploy_task_file [OF assms] obtain name f d where
    c: "fst ?c = Inr (name, f)"
    and f: "f = abspath w name" "files w f = None" "name \<noteq> []"
    and d: "json_Marshal ?task = Inr d"
    and fs: "files (snd ?r) = (files w)(f \<mapsto> File perm_0600 [d])"
    by blast
  from handleDeploy_success_output [OF assms] obtain name' f' ex evs where
    ex: "exe w = Inr ex" and c': "fst ?c = Inr (name', f')"
    and tr: "trace (snd ?r) = trace w @ evs @ [EvStart [ex, ''internal-run'', ''--taskFile'', name']]"
    by blast
  from c c' have nn: "name' = name" by simp
  have ab: "abspath (snd ?r) name = f" using f(1) by (simp add: abspath_def)
  have fr: "files (snd ?r) (abspath (snd ?r) name) = Some (File perm_0600 [d])"
    unfolding ab fs by simp
  have rd: "fault w SysRead name = None \<longrightarrow>
     (\<exists>data task. fst (os_ReadFile name (snd ?r)) = Inr data \<and> json_Unmarshal data = Inr task)"
  proof
    assume "fault w SysRead name = None"
    then have "fault (snd ?r) SysRead name = None" by simp
    from os_ReadFile_file [OF f(3) this fr] json_roundtrip [OF d]
    show "\<exists>data task. fst (os_ReadFile name (snd ?r)) = Inr data \<and> json_Unmarshal data = Inr task"
      by blast
  qed
  have dm: "dom (files (snd ?r)) = insert f (dom (files w))" "f \<notin> dom (files w)"
    using f(2) unfolding fs by auto
  have la: "last (trace (snd ?r)) = EvStart [ex, ''internal-run'', ''--taskFile'', name]"
    unfolding tr nn by simp
  have bg: "\<forall>u data task.
          fst (os_ReadFile name u) = Inr data \<longrightarrow> json_Unmarshal data = Inr task \<longrightarrow>
            fst (handleInternalRun name u) = 0
          \<and> (\<exists>evs. trace (snd (handleInternalRun name u)) = trace u @ evs @ [EvRemove name]
                 \<and> filter is_remove evs = [])
          \<and> (files (snd (handleInternalRun name u))
                 (abspath (snd (handleInternalRun name u)) name) = None
              \<or> fault u SysRemove name \<noteq> None
              \<or> dir_check (snd (handleInternalRun name u))
                   (abspath (snd (handleInternalRun name u)) name) \<noteq> None)"
    by (intro allI impI) (rule handleInternalRun_good)
  show ?thesis
    apply (rule exI [where x = name], rule exI [where x = f], rule exI [where x = ex])
    apply (intro conjI)
    apply (rule f(1))
    apply (rule dm(2))
    apply (rule dm(1))
    apply (rule ex)
    apply (rule la)
    apply (rule rd)
    apply (rule bg)
    done
qed

text \<open>
  C6, as stated, fails: the struct has no field tags, so the keys of the task file are the
  Go names of the fields. The claim's names \<^verbatim>\<open>projectPath\<close>, \<^verbatim>\<open>scriptPath\<close>,
  \<^verbatim>\<open>logPath\<close>, \<^verbatim>\<open>taskId\<close>, \<^verbatim>\<open>createdAt\<close> are not the keys written.
\<close>

theorem task_file_field_names_counterexample:
  "json_Marshal task0 = Inr (Json (JObject
      [(''ProjectPath'', JString ''/p''),
       (''DeploymentScriptPath'', JString ''/p/deploy.sh''),
       (''LogPath'', JString ''/l''),
       (''TaskID'', JString ''7''),
       (''CreatedAt'', JTime (clock world0 1))]))
   \<and> object_keys (Json (JObject
      [(''ProjectPath'', JString ''/p''),
       (''DeploymentScriptPath'', JString ''/p/deploy.sh''),
       (''LogPath'', JString ''/l''),
       (''TaskID'', JString ''7''),
       (''CreatedAt'', JTime (clock world0 1))]))
     \<noteq> [''projectPath'', ''scriptPath'', ''logPath'', ''taskId'', ''createdAt'']"
  by (simp add: json_Marshal_def task0_def object_keys_def world0_def)

text \<open>
  C6, amended. The task file a successful foreground invocation writes is one JSON object
  with exactly the fields \<^verbatim>\<open>ProjectPath\<close>, \<^verbatim>\<open>DeploymentScriptPath\<close>, \<^verbatim>\<open>LogPath\<close>,
  \<^verbatim>\<open>TaskID\<close> and \<^verbatim>\<open>CreatedAt\<close>, in this order, holding the three paths given, the
  task identifier and the time of creation.
\<close>

theorem task_file_field_names:
  assumes "fst (handleDeploy project script logs w) = 0"
  shows "\<exists>f d. files (snd (handleDeploy project script logs w)) f = Some (File perm_0600 [d])
     \<and> files w f = None
     \<and> d = Json (JObject
          [(''ProjectPath'', JString project),
           (''DeploymentScriptPath'', JString script),
           (''LogPath'', JString logs),
           (''TaskID'', JString (show_int (UnixNano (clock w (ticks w))))),
           (''CreatedAt'', JTime (clock w (Suc (ticks w))))])
     \<and> object_keys d
         = [''ProjectPath'', ''DeploymentScriptPath'', ''LogPath'', ''TaskID'', ''CreatedAt'']"
proof -
  from handleDeploy_task_file [OF assms] obtain name f d where
    f: "files w f = None"
    and d: "json_Marshal \<lparr>ProjectPath = project, DeploymentScriptPath = script, LogPath = logs,
           TaskID = show_int (UnixNano (clock w (ticks w))), CreatedAt = clock w (Suc (ticks w))\<rparr> = Inr d"
    and fs: "files (snd (handleDeploy project script logs w)) = (files w)(f \<mapsto> File perm_0600 [d])"
    by blast
  from d have d': "d = Json (JObject
          [(''ProjectPath'', JString project),
           (''DeploymentScriptPath'', JString script),
           (''LogPath'', JString logs),
           (''TaskID'', JString (show_int (UnixNano (clock w (ticks w))))),
           (''CreatedAt'', JTime (clock w (Suc (ticks w))))])"
    by (simp add: json_Marshal_def split: if_splits)
  have k: "object_keys d
         = [''ProjectPath'', ''DeploymentScriptPath'', ''LogPath'', ''TaskID'', ''CreatedAt'']"
    unfolding d' by (simp add: object_keys_def)
  have "files (snd (handleDeploy project script logs w)) f = Some (File perm_0600 [d])"
    unfolding fs by simp
  with f d' k show ?thesis by blast
qed

theorem task_file_field_names_witness:
  "\<exists>f. files (snd (handleDeploy ''/p'' ''/p/deploy.sh'' ''/l'' world0)) f
      = Some (File perm_0600 [Json (JObject
          [(''ProjectPath'', JString ''/p''),
           (''DeploymentScriptPath'', JString ''/p/deploy.sh''),
           (''LogPath'', JString ''/l''),
           (''TaskID'', JString ''7''),
           (''CreatedAt'', JTime (clock world0 1))])])"
proof -
  have t: "show_int (UnixNano (clock world0 (ticks world0))) = ''7''"
    "clock world0 (Suc (ticks world0)) = clock world0 1"
    by (simp_all add: world0_def show_int_def)
  from task_file_field_names [OF handleDeploy_world0] show ?thesis unfolding t by blast
qed

subsection \<open>A log directory without write permission\<close>

text \<open>
  C1 fails on the code. In \<open>world_readonly_logs\<close> the log directory \<^verbatim>\<open>/l\<close> has mode
  0555, and the probe of the HTTP front end reports it as not writable. \<^verbatim>\<open>ValidatePaths\<close>
  has no such probe: validation passes, the task file is written and the background
  process is started.
\<close>

theorem validation_accepts_unwritable_log_directory:
  "fst (probe_writable ''/l'' world_readonly_logs)
     = Some (Errorf ''logPath directory is not writable: /l'')
   \<and> fst (ValidatePaths ''/p'' ''/p/deploy.sh'' ''/l'' world_readonly_logs) = None
   \<and> fst (handleDeploy ''/p'' ''/p/deploy.sh'' ''/l'' world_readonly_logs) = 0
   \<and> files (snd (handleDeploy ''/p'' ''/p/deploy.sh'' ''/l'' world_readonly_logs))
        ''/tmp/deploy_task_0.json'' = Some (File perm_0600 [Json (JObject
          [(''ProjectPath'', JString ''/p''),
           (''DeploymentScriptPath'', JString ''/p/deploy.sh''),
           (''LogPath'', JString ''/l''),
           (''TaskID'', JString ''7''),
           (''CreatedAt'', JTime (clock world0 1))])])
   \<and> last (trace (snd (handleDeploy ''/p'' ''/p/deploy.sh'' ''/l'' world_readonly_logs)))
       = EvStart [''/bin/deploygo'', ''internal-run'', ''--taskFile'', ''/tmp/deploy_task_0.json'']"
proof -
  have p: "fst (probe_writable ''/l'' world_readonly_logs)
     = Some (Errorf ''logPath directory is not writable: /l'')"
    by (simp add: probe_writable_def os_WriteFile_def os_OpenFile_def dir_check_def emit_def
        world_readonly_logs_def world0_def path_simps perm_simps Let_def)
  have v: "fst (ValidatePaths ''/p'' ''/p/deploy.sh'' ''/l'' world_readonly_logs) = None"
    by (simp add: eval_simps path_simps world_readonly_logs_def world0_def)
  have r: "fst (handleDeploy ''/p'' ''/p/deploy.sh'' ''/l'' world_readonly_logs) = 0
   \<and> files (snd (handleDeploy ''/p'' ''/p/deploy.sh'' ''/l'' world_readonly_logs))
        ''/tmp/deploy_task_0.json'' = Some (File perm_0600 [Json (JObject
          [(''ProjectPath'', JString ''/p''),
           (''DeploymentScriptPath'', JString ''/p/deploy.sh''),
           (''LogPath'', JString ''/l''),
           (''TaskID'', JString ''7''),
           (''CreatedAt'', JTime (clock world0 1))])])
   \<and> last (trace (snd (handleDeploy ''/p'' ''/p/deploy.sh'' ''/l'' world_readonly_logs)))
       = EvStart [''/bin/deploygo'', ''internal-run'', ''--taskFile'', ''/tmp/deploy_task_0.json'']"
    apply (simp add: eval_simps path_simps perm_simps world_readonly_logs_def world0_def)
    apply (subst CreateTemp_loop.simps)
    apply (simp add: eval_simps path_simps perm_simps)
    apply (subst CreateTemp_loop.simps)
    apply (simp add: eval_simps path_simps perm_simps)
    apply (subst CreateTemp_loop.simps)
    apply (simp add: eval_simps path_simps perm_simps)
    done
  show ?thesis using p v r by blast
qed

subsection \<open>Log rotation\<close>

lemma digit_is_digit: "is_digit (digit n)"
  unfolding is_digit_def digit_def by (rule nth_mem) simp

lemma show_nat_digits: "c \<in> set (show_nat n) \<Longrightarrow> is_digit c"
proof (induction n rule: show_nat.induct)
  case (1 n)
  show ?case
  proof (cases "n < 10")
    case True
    have "show_nat n = [digit n]" using True by (subst show_nat.simps) simp
    with "1.prems" show ?thesis by (simp add: digit_is_digit)
  next
    case False
    have "show_nat n = show_nat (n div 10) @ [digit n]" using False by (subst show_nat.simps) simp
    with "1.prems" "1.IH" [OF False] show ?thesis by (auto simp add: digit_is_digit)
  qed
qed

lemma show_nat_length: "n < 10 ^ k \<Longrightarrow> 0 < k \<Longrightarrow> length (show_nat n) \<le> k"
proof (induction n arbitrary: k rule: show_nat.induct)
  case (1 n)
  show ?case
  proof (cases "n < 10")
    case True
    have "show_nat n = [digit n]" using True by (subst show_nat.simps) simp
    with "1.prems" show ?thesis by simp
  next
    case False
    have s: "show_nat n = show_nat (n div 10) @ [digit n]"
      using False by (subst show_nat.simps) simp
    obtain j where j: "k = Suc j" using "1.prems"(2) by (cases k) auto
    have "j \<noteq> 0"
    proof
      assume "j = 0"
      with j "1.prems"(1) False show False by simp
    qed
    then have j0: "0 < j" by simp
    from "1.prems"(1) j have "n < 10 * 10 ^ j" by simp
    then have "n div 10 < 10 ^ j" by (simp add: less_mult_imp_div_less mult.commute)
    from "1.IH" [OF False this j0] have "length (show_nat (n div 10)) \<le> j" .
    with s j show ?thesis by simp
  qed
qed

lemma zpad_length: "n < 10 ^ k \<Longrightarrow> 0 < k \<Longrightarrow> length (zpad k n) = k"
  using show_nat_length [of n k] by (simp add: zpad_def Let_def)

lemma zpad_digits: "c \<in> set (zpad k n) \<Longrightarrow> is_digit c"
proof -
  assume "c \<in> set (zpad k n)"
  then have "c = CHR ''0'' \<or> c \<in> set (show_nat n)"
    by (auto simp add: zpad_def Let_def)
  moreover have "is_digit (CHR ''0'')" by (simp add: is_digit_def)
  ultimately show "is_digit c" using show_nat_digits by blast
qed

lemma Format_rotate_form:
  assumes "Year t < 10000" "Month t < 100" "Day t < 100"
    "Hour t < 100" "Minute t < 100" "Second t < 100"
  shows "\<exists>d c. length d = 8 \<and> length c = 6 \<and> (\<forall>x \<in> set (d @ c). is_digit x)
     \<and> Format_rotate t = d @ ''_'' @ c"
proof -
  let ?d = "zpad 4 (Year t) @ zpad 2 (Month t) @ zpad 2 (Day t)"
  let ?c = "zpad 2 (Hour t) @ zpad 2 (Minute t) @ zpad 2 (Second t)"
  have y: "Year t < 10 ^ 4" "Month t < 10 ^ 2" "Day t < 10 ^ 2"
    "Hour t < 10 ^ 2" "Minute t < 10 ^ 2" "Second t < 10 ^ 2"
    using assms by simp_all
  have l: "length ?d = 8" "length ?c = 6"
    using y by (simp_all add: zpad_length del: power_numeral)
  have g: "\<forall>x \<in> set (?d @ ?c). is_digit x" using zpad_digits by auto
  have e: "Format_rotate t = ?d @ ''_'' @ ?c" by (simp add: Format_rotate_def)
  show ?thesis
    apply (rule exI [where x = ?d], rule exI [where x = ?c])
    using l g e apply blast
    done
qed

lemma os_Rename_ok:
  assumes "fst (os_Rename old new w) = None"
  shows "files w (abspath w old) \<noteq> None"
    and "files (snd (os_Rename old new w)) (abspath w new) = files w (abspath w old)"
    and "abspath w new \<noteq> abspath w old \<Longrightarrow> files (snd (os_Rename old new w)) (abspath w old) = None"
    and "q \<noteq> abspath w old \<Longrightarrow> q \<noteq> abspath w new \<Longrightarrow> files (snd (os_Rename old new w)) q = files w q"
  using assms
  by (simp_all add: os_Rename_def emit_def Let_def split: option.splits if_splits)

lemma os_Rename_failed:
  "fst (os_Rename old new w) = Some e \<Longrightarrow> files (snd (os_Rename old new w)) = files w"
  by (simp add: os_Rename_def emit_def Let_def split: option.splits if_splits)

lemma os_Stat_time_Now [simp]: "fst (os_Stat p (snd (time_Now w))) = fst (os_Stat p w)"
  by (simp add: os_Stat_def time_Now_def emit_def abspath_def refusal_def Let_def
      split: option.splits)

lemma abspath_cong: "cwd w' = cwd w \<Longrightarrow> abspath w' p = abspath w p"
  by (simp add: abspath_def)

lemma since_append [simp]: "trace w' = trace w @ evs \<Longrightarrow> since w w' = evs"
  by (simp add: since_def)

lemma fmt0: "Format_rotate (clock world0 0) = ''20260106_093005''"
  by code_simp

text \<open>
  C5, amended. Rotation is decided by what \<^verbatim>\<open>stat\<close> answers for the active log. When
  \<^verbatim>\<open>stat\<close> reports that \<^verbatim>\<open>deployment.log\<close> does not exist, rotation returns success,
  changes no file and makes no other call. In every other case it makes one call, a rename
  of the active log to \<^verbatim>\<open>deployment_<timestamp>.log\<close> joined to the same directory, and
  returns what the rename returns: when the rename succeeds the entry sits under the new
  name, the old name is free and no other path has changed, so nothing was copied; when it
  fails no file has changed. For a clock reading with a four-digit year the timestamp is
  eight digits, an underscore and six digits.
\<close>

theorem RotateLog_renames_or_skips:
  "let active = filepath_Join logDir ''deployment.log'';
       t = clock w (ticks w);
       name = ''deployment_'' @ Format_rotate t @ ''.log'';
       new = filepath_Join logDir name;
       missing = (fst (os_Stat active w) = Inl (PathError ''stat'' active ENOENT));
       r = RotateLog logDir w
   in (missing \<longrightarrow> fst r = None \<and> files (snd r) = files w \<and> since w (snd r) = [EvStat active])
    \<and> (\<not> missing \<longrightarrow>
          since w (snd r) = [EvStat active, EvRename active new]
        \<and> (fst r = None \<longrightarrow>
              files w (abspath w active) \<noteq> None
            \<and> files (snd r) (abspath w new) = files w (abspath w active)
            \<and> (abspath w new \<noteq> abspath w active \<longrightarrow> files (snd r) (abspath w active) = None)
            \<and> (\<forall>q. q \<noteq> abspath w active \<longrightarrow> q \<noteq> abspath w new \<longrightarrow>
                   files (snd r) q = files w q))
        \<and> (fst r \<noteq> None \<longrightarrow> files (snd r) = files w))
    \<and> (Year t < 10000 \<and> Month t < 100 \<and> Day t < 100 \<and> Hour t < 100 \<and> Minute t < 100
          \<and> Second t < 100 \<longrightarrow>
          (\<exists>d c. length d = 8 \<and> length c = 6 \<and> (\<forall>x \<in> set (d @ c). is_digit x)
             \<and> name = ''deployment_'' @ d @ ''_'' @ c @ ''.log''))"
proof -
  let ?active = "filepath_Join logDir ''deployment.log''"
  let ?t = "clock w (ticks w)"
  let ?name = "''deployment_'' @ Format_rotate ?t @ ''.log''"
  let ?new = "filepath_Join logDir ?name"
  let ?w2 = "snd (os_Stat ?active (snd (time_Now w)))"
  let ?r = "RotateLog logDir w"
  have ab: "\<And>p. abspath ?w2 p = abspath w p" by (rule abspath_cong) simp
  have fw: "files ?w2 = files w" by simp
  have tw: "trace ?w2 = trace w @ [EvStat ?active]" by simp
  have m: "fst (os_Stat ?active w) = Inl (PathError ''stat'' ?active ENOENT) \<Longrightarrow>
      ?r = (None, ?w2)"
    by (simp add: RotateLog_def Let_def case_prod_beta stat_not_exist)
  have n: "fst (os_Stat ?active w) \<noteq> Inl (PathError ''stat'' ?active ENOENT) \<Longrightarrow>
      ?r = os_Rename ?active ?new ?w2"
    by (simp add: RotateLog_def Let_def case_prod_beta stat_not_exist)
  have c1: "fst (os_Stat ?active w) = Inl (PathError ''stat'' ?active ENOENT) \<longrightarrow>
     fst ?r = None \<and> files (snd ?r) = files w \<and> since w (snd ?r) = [EvStat ?active]"
    using m fw tw by simp
  have c2: "fst (os_Stat ?active w) \<noteq> Inl (PathError ''stat'' ?active ENOENT) \<longrightarrow>
          since w (snd ?r) = [EvStat ?active, EvRename ?active ?new]
        \<and> (fst ?r = None \<longrightarrow>
              files w (abspath w ?active) \<noteq> None
            \<and> files (snd ?r) (abspath w ?new) = files w (abspath w ?active)
            \<and> (abspath w ?new \<noteq> abspath w ?active \<longrightarrow> files (snd ?r) (abspath w ?active) = None)
            \<and> (\<forall>q. q \<noteq> abspath w ?active \<longrightarrow> q \<noteq> abspath w ?new \<longrightarrow>
                   files (snd ?r) q = files w q))
        \<and> (fst ?r \<noteq> None \<longrightarrow> files (snd ?r) = files w)"
  proof
    assume a: "fst (os_Stat ?active w) \<noteq> Inl (PathError ''stat'' ?active ENOENT)"
    note r = n [OF a]
    have t: "since w (snd ?r) = [EvStat ?active, EvRename ?active ?new]"
      unfolding r by (rule since_append) (simp add: tw)
    have ok: "fst ?r = None \<longrightarrow>
              files w (abspath w ?active) \<noteq> None
            \<and> files (snd ?r) (abspath w ?new) = files w (abspath w ?active)
            \<and> (abspath w ?new \<noteq> abspath w ?active \<longrightarrow> files (snd ?r) (abspath w ?active) = None)
            \<and> (\<forall>q. q \<noteq> abspath w ?active \<longrightarrow> q \<noteq> abspath w ?new \<longrightarrow>
                   files (snd ?r) q = files w q)"
      unfolding r using os_Rename_ok [of ?active ?new ?w2] unfolding ab fw by blast
    have ko: "fst ?r \<noteq> None \<longrightarrow> files (snd ?r) = files w"
      unfolding r using os_Rename_failed [of ?active ?new ?w2] unfolding fw by blast
    from t ok ko show "since w (snd ?r) = [EvStat ?active, EvRename ?active ?new]
        \<and> (fst ?r = None \<longrightarrow>
              files w (abspath w ?active) \<noteq> None
            \<and> files (snd ?r) (abspath w ?new) = files w (abspath w ?active)
            \<and> (abspath w ?new \<noteq> abspath w ?active \<longrightarrow> files (snd ?r) (abspath w ?active) = None)
            \<and> (\<forall>q. q \<noteq> abspath w ?active \<longrightarrow> q \<noteq> abspath w ?new \<longrightarrow>
                   files (snd ?r) q = files w q))
        \<and> (fst ?r \<noteq> None \<longrightarrow> files (snd ?r) = files w)"
      by (intro conjI)
  qed
  have c3: "Year ?t < 10000 \<and> Month ?t < 100 \<and> Day ?t < 100 \<and> Hour ?t < 100 \<and> Minute ?t < 100
          \<and> Second ?t < 100 \<longrightarrow>
          (\<exists>d c. length d = 8 \<and> length c = 6 \<and> (\<forall>x \<in> set (d @ c). is_digit x)
             \<and> ?name = ''deployment_'' @ d @ ''_'' @ c @ ''.log'')"
  proof
    assume "Year ?t < 10000 \<and> Month ?t < 100 \<and> Day ?t < 100 \<and> Hour ?t < 100 \<and> Minute ?t < 100
          \<and> Second ?t < 100"
    then obtain d c where "length d = 8" "length c = 6" "\<forall>x \<in> set (d @ c). is_digit x"
      "Format_rotate ?t = d @ ''_'' @ c"
      using Format_rotate_form [of ?t] by blast
    then show "\<exists>d c. length d = 8 \<and> length c = 6 \<and> (\<forall>x \<in> set (d @ c). is_digit x)
             \<and> ?name = ''deployment_'' @ d @ ''_'' @ c @ ''.log''"
      by auto
  qed
  show ?thesis unfolding Let_def using c1 c2 c3 by (intro conjI)
qed

lemma newname: "filepath_Join ''/l'' (''deployment_'' @ Format_rotate (clock world0 0) @ ''.log'')
    = ''/l/deployment_20260106_093005.log''"
  unfolding fmt0 by (simp add: path_simps)

text \<open>
  C5, as stated, fails where the log directory cannot be searched: no active log exists,
  \<^verbatim>\<open>stat\<close> fails with a permission error, which is not the not-exist error, the rename
  is attempted and rotation returns its error.
\<close>

theorem RotateLog_renames_or_skips_counterexample:
  "files world_closed_logs (filepath_Join ''/l'' ''deployment.log'') = None
   \<and> fst (RotateLog ''/l'' world_closed_logs)
       = Some (LinkError ''rename'' ''/l/deployment.log'' ''/l/deployment_20260106_093005.log''
                 EACCES)"
proof -
  have j: "filepath_Join ''/l'' ''deployment.log'' = ''/l/deployment.log''"
    by (simp add: path_simps)
  have c: "fst (time_Now world_closed_logs) = clock world0 0"
    by (simp add: time_Now_def world_closed_logs_def world0_def)
  have f: "files world_closed_logs ''/l/deployment.log'' = None"
    by (simp add: world_closed_logs_def world0_def)
  have s: "fst (os_Stat ''/l/deployment.log'' world_closed_logs)
      = Inl (PathError ''stat'' ''/l/deployment.log'' EACCES)"
    by (simp add: os_Stat_def refusal_def world_closed_logs_def world0_def Let_def)
  have q: "refusal (snd (os_Stat ''/l/deployment.log'' (snd (time_Now world_closed_logs))))
      SysRename ''/l/deployment.log'' = Some EACCES"
    by (simp add: refusal_def world_closed_logs_def)
  have r: "fst (RotateLog ''/l'' world_closed_logs)
       = Some (LinkError ''rename'' ''/l/deployment.log'' ''/l/deployment_20260106_093005.log''
                 EACCES)"
    unfolding RotateLog_def j Let_def case_prod_beta c newname
    by (simp add: s err_of_def os_Rename_def q Let_def)
  show ?thesis unfolding j using f r by (intro conjI)
qed

theorem RotateLog_renames_or_skips_witness:
  "fst (RotateLog ''/l'' world_with_log) = None
   \<and> files (snd (RotateLog ''/l'' world_with_log)) ''/l/deployment_20260106_093005.log''
       = Some (File (perm 6 4 4) [Text ''done''])
   \<and> files (snd (RotateLog ''/l'' world_with_log)) ''/l/deployment.log'' = None"
proof -
  have j: "filepath_Join ''/l'' ''deployment.log'' = ''/l/deployment.log''"
    by (simp add: path_simps)
  have c: "fst (time_Now world_with_log) = clock world0 0"
    "clock world_with_log (ticks world_with_log) = clock world0 0"
    by (simp_all add: time_Now_def world_with_log_def world0_def)
  have a: "\<And>u. abspath u ''/l/deployment.log'' = ''/l/deployment.log''"
    "\<And>u. abspath u ''/l/deployment_20260106_093005.log''
       = ''/l/deployment_20260106_093005.log''"
    by (simp_all add: path_simps)
  have s: "fst (os_Stat ''/l/deployment.log'' world_with_log)
      = Inr (File (perm 6 4 4) [Text ''done''])"
    by (simp add: os_Stat_def refusal_def a world_with_log_def world0_def Let_def)
  have r: "fst (RotateLog ''/l'' world_with_log) = None"
    unfolding RotateLog_def j Let_def case_prod_beta c newname
    by (simp add: s err_of_def os_Rename_def a refusal_def dir_check_def filepath_Dir_def
        filepath_Clean_def clean_step_def IsAbs_def world_with_log_def world0_def perm_simps
        Let_def)
  have f: "files world_with_log ''/l/deployment.log'' = Some (File (perm 6 4 4) [Text ''done''])"
    by (simp add: world_with_log_def)
  show ?thesis
    using RotateLog_renames_or_skips [of "''/l''" world_with_log] r s f
    unfolding Let_def j c newname a
    by simp
qed

subsection \<open>Making the script executable\<close>

lemma ExecuteDeployment_entered:
  "fst (open_log_and_enter task w) = Inr (logFile, info) \<Longrightarrow>
     ExecuteDeployment task w
       = run_script task logFile
           (make_executable task logFile info (snd (open_log_and_enter task w)))"
  by (simp add: ExecuteDeployment_def Let_def case_prod_beta)

lemma os_Chmod_ok:
  "fst (os_Chmod p m w) = None \<Longrightarrow>
     \<exists>n. files w (abspath w p) = Some n
       \<and> files (snd (os_Chmod p m w)) = (files w)(abspath w p \<mapsto> set_mode m n)"
  by (simp add: os_Chmod_def emit_def Let_def split: option.splits)

lemma os_Chmod_failed:
  "fst (os_Chmod p m w) = Some e \<Longrightarrow> files (snd (os_Chmod p m w)) = files w"
  by (simp add: os_Chmod_def emit_def Let_def split: option.splits)

lemma writeLogEntry_appends:
  "fault w SysWrite h = None \<Longrightarrow> files w h = Some (File m d) \<Longrightarrow>
     files (writeLogEntry h msg w) h
       = Some (File m (d @ [Text (''['' @ Format_log (clock w (ticks w)) @ ''] '' @ msg @ [CHR 0x0A])]))"
  by (simp add: writeLogEntry_def time_Now_def file_Write_def emit_def Let_def)

lemma run_script_starts:
  assumes "fault u SysPipe ''stdout'' = None" and "fault u SysPipe ''stderr'' = None"
  shows "\<exists>evs. trace (snd (run_script task h u))
        = trace u @ EvStart [''bash'', DeploymentScriptPath task] # evs"
proof -
  let ?argv = "[''bash'', DeploymentScriptPath task]"
  let ?s = "snd (cmd_Start_in (ProjectPath task) ?argv u)"
  have "quiet is_remove ?s (snd (run_script task h u))"
    using assms
    by (simp add: run_script_def cmd_Pipe_def Let_def case_prod_beta split: option.splits)
  then obtain evs where "trace (snd (run_script task h u)) = trace ?s @ evs"
    unfolding quiet_iff by blast
  then have "trace (snd (run_script task h u)) = trace u @ EvStart ?argv # evs" by simp
  then show ?thesis by blast
qed

lemma run_script_trace: "\<exists>evs. trace (snd (run_script task h u)) = trace u @ evs"
  using run_script_quiet [of is_chmod u u task h] by (auto simp add: quiet_iff)

lemma exec_bits: "perm_0755 AND owner_exec = owner_exec"
  by (simp add: perm_0755_def owner_exec_def)

text \<open>
  C8. Take a run of \<^verbatim>\<open>ExecuteDeployment\<close> that has opened the log, entered the project
  directory and found the script. When the mode of the script has none of the bits 0111,
  the first thing the run does is call chmod on the script with mode 0755, which has the
  owner's execute bit; when the call succeeds the script has that mode; when it fails no
  mode changes, a \<^verbatim>\<open>[WARNING]\<close> entry is written to the log, and the run goes on all the
  same: in both cases the script is started with bash unless a pipe cannot be made. When
  the mode has one of the bits 0111, the run is that of the script alone and calls chmod
  nowhere, so the mode stays as it is.
\<close>

theorem ExecuteDeployment_makes_script_executable:
  assumes "fst (open_log_and_enter task w) = Inr (logFile, info)"
  shows "let w8 = snd (open_log_and_enter task w);
             sp = DeploymentScriptPath task;
             c = os_Chmod sp perm_0755 w8;
             warned = (\<lambda>err. writeLogEntry logFile
                         (''[WARNING] Failed to make script executable: '' @ Error err) (snd c));
             r = ExecuteDeployment task w
         in (mode_of info AND perm_0111 = 0 \<longrightarrow>
               (\<exists>evs. since w8 (snd r) = EvChmod sp perm_0755 # evs)
             \<and> perm_0755 AND owner_exec = owner_exec
             \<and> (fst c = None \<longrightarrow>
                   (\<exists>n. files w8 (abspath w8 sp) = Some n
                      \<and> files (snd c) = (files w8)(abspath w8 sp \<mapsto> set_mode perm_0755 n))
                 \<and> r = run_script task logFile (snd c))
             \<and> (\<forall>err. fst c = Some err \<longrightarrow>
                   files (snd c) = files w8
                 \<and> r = run_script task logFile (warned err)
                 \<and> (\<exists>evs. since w8 (snd r) = EvChmod sp perm_0755 # EvWrite logFile # evs)
                 \<and> (\<forall>m d. fault w SysWrite logFile = None \<longrightarrow>
                        files w8 logFile = Some (File m d) \<longrightarrow>
                        files (warned err) logFile
                          = Some (File m (d @ [Text (''['' @ Format_log (clock w8 (ticks w8))
                               @ ''] [WARNING] Failed to make script executable: '' @ Error err
                               @ [CHR 0x0A])]))))
             \<and> (fault w SysPipe ''stdout'' = None \<longrightarrow> fault w SysPipe ''stderr'' = None \<longrightarrow>
                   EvStart [''bash'', sp] \<in> set (since w8 (snd r))))
          \<and> (mode_of info AND perm_0111 \<noteq> 0 \<longrightarrow>
               r = run_script task logFile w8 \<and> filter is_chmod (since w8 (snd r)) = [])"
proof -
  let ?w8 = "snd (open_log_and_enter task w)"
  let ?sp = "DeploymentScriptPath task"
  let ?c = "os_Chmod ?sp perm_0755 ?w8"
  let ?warned = "\<lambda>err. writeLogEntry logFile
                         (''[WARNING] Failed to make script executable: '' @ Error err) (snd ?c)"
  let ?m = "make_executable task logFile info ?w8"
  let ?r = "ExecuteDeployment task w"
  note r = ExecuteDeployment_entered [OF assms]
  have fw8: "fault ?w8 = fault w" by simp
  have A: "mode_of info AND perm_0111 = 0 \<Longrightarrow> fst ?c = None \<Longrightarrow> ?m = snd ?c"
    by (simp add: make_executable_def Let_def case_prod_beta)
  have B: "\<And>err. mode_of info AND perm_0111 = 0 \<Longrightarrow> fst ?c = Some err \<Longrightarrow> ?m = ?warned err"
    by (simp add: make_executable_def Let_def case_prod_beta)
  have C: "mode_of info AND perm_0111 \<noteq> 0 \<Longrightarrow> ?m = ?w8"
    by (simp add: make_executable_def)
  have tm: "mode_of info AND perm_0111 = 0 \<Longrightarrow>
      \<exists>evs. trace ?m = trace ?w8 @ EvChmod ?sp perm_0755 # evs"
    by (simp add: make_executable_def Let_def case_prod_beta split: option.splits)
  have tB: "\<And>err. trace (?warned err) = trace ?w8 @ [EvChmod ?sp perm_0755, EvWrite logFile]"
    by simp
  obtain rest where rest: "trace (snd ?r) = trace ?m @ rest"
    unfolding r using run_script_trace by blast
  have p1: "mode_of info AND perm_0111 = 0 \<Longrightarrow>
      \<exists>evs. since ?w8 (snd ?r) = EvChmod ?sp perm_0755 # evs"
  proof -
    assume z: "mode_of info AND perm_0111 = 0"
    from tm [OF z] obtain evs where "trace ?m = trace ?w8 @ EvChmod ?sp perm_0755 # evs" ..
    with rest have "trace (snd ?r) = trace ?w8 @ (EvChmod ?sp perm_0755 # evs @ rest)" by simp
    then have "since ?w8 (snd ?r) = EvChmod ?sp perm_0755 # evs @ rest" by (rule since_append)
    then show ?thesis by blast
  qed
  have p3: "mode_of info AND perm_0111 = 0 \<Longrightarrow> fst ?c = None \<longrightarrow>
                   (\<exists>n. files ?w8 (abspath ?w8 ?sp) = Some n
                      \<and> files (snd ?c) = (files ?w8)(abspath ?w8 ?sp \<mapsto> set_mode perm_0755 n))
                 \<and> ?r = run_script task logFile (snd ?c)"
    using os_Chmod_ok [of ?sp perm_0755 ?w8] A r by simp
  have p4: "mode_of info AND perm_0111 = 0 \<Longrightarrow> \<forall>err. fst ?c = Some err \<longrightarrow>
                   files (snd ?c) = files ?w8
                 \<and> ?r = run_script task logFile (?warned err)
                 \<and> (\<exists>evs. since ?w8 (snd ?r) = EvChmod ?sp perm_0755 # EvWrite logFile # evs)
                 \<and> (\<forall>m d. fault w SysWrite logFile = None \<longrightarrow>
                        files ?w8 logFile = Some (File m d) \<longrightarrow>
                        files (?warned err) logFile
                          = Some (File m (d @ [Text (''['' @ Format_log (clock ?w8 (ticks ?w8))
                               @ ''] [WARNING] Failed to make script executable: '' @ Error err
                               @ [CHR 0x0A])])))"
  proof (intro allI impI)
    fix err
    assume z: "mode_of info AND perm_0111 = 0" and e: "fst ?c = Some err"
    note m = B [OF z e]
    have f: "files (snd ?c) = files ?w8" using e by (rule os_Chmod_failed)
    have rr: "?r = run_script task logFile (?warned err)" using r m by simp
    from rest have "trace (snd ?r) = trace ?w8 @ (EvChmod ?sp perm_0755 # EvWrite logFile # rest)"
      unfolding m tB by simp
    then have "since ?w8 (snd ?r) = EvChmod ?sp perm_0755 # EvWrite logFile # rest"
      by (rule since_append)
    then have s: "\<exists>evs. since ?w8 (snd ?r) = EvChmod ?sp perm_0755 # EvWrite logFile # evs"
      by blast
    have l: "\<forall>m d. fault w SysWrite logFile = None \<longrightarrow>
                        files ?w8 logFile = Some (File m d) \<longrightarrow>
                        files (?warned err) logFile
                          = Some (File m (d @ [Text (''['' @ Format_log (clock ?w8 (ticks ?w8))
                               @ ''] [WARNING] Failed to make script executable: '' @ Error err
                               @ [CHR 0x0A])]))"
    proof (intro allI impI)
      fix m d
      assume a: "fault w SysWrite logFile = None" "files ?w8 logFile = Some (File m d)"
      have "fault (snd ?c) SysWrite logFile = None" using a(1) by simp
      moreover have "files (snd ?c) logFile = Some (File m d)" using a(2) f by simp
      ultimately show "files (?warned err) logFile
                          = Some (File m (d @ [Text (''['' @ Format_log (clock ?w8 (ticks ?w8))
                               @ ''] [WARNING] Failed to make script executable: '' @ Error err
                               @ [CHR 0x0A])]))"
        using writeLogEntry_appends [of "snd ?c" logFile m d
            "''[WARNING] Failed to make script executable: '' @ Error err"]
        by simp
    qed
    from f rr s l show "files (snd ?c) = files ?w8
                 \<and> ?r = run_script task logFile (?warned err)
                 \<and> (\<exists>evs. since ?w8 (snd ?r) = EvChmod ?sp perm_0755 # EvWrite logFile # evs)
                 \<and> (\<forall>m d. fault w SysWrite logFile = None \<longrightarrow>
                        files ?w8 logFile = Some (File m d) \<longrightarrow>
                        files (?warned err) logFile
                          = Some (File m (d @ [Text (''['' @ Format_log (clock ?w8 (ticks ?w8))
                               @ ''] [WARNING] Failed to make script executable: '' @ Error err
                               @ [CHR 0x0A])])))"
      by (intro conjI)
  qed
  have p5: "fault w SysPipe ''stdout'' = None \<longrightarrow> fault w SysPipe ''stderr'' = None \<longrightarrow>
                   EvStart [''bash'', ?sp] \<in> set (since ?w8 (snd ?r))"
  proof (intro impI)
    assume a: "fault w SysPipe ''stdout'' = None" "fault w SysPipe ''stderr'' = None"
    have fm: "fault ?m = fault w" by simp
    from a have "fault ?m SysPipe ''stdout'' = None" "fault ?m SysPipe ''stderr'' = None"
      unfolding fm by simp_all
    from run_script_starts [OF this, of task logFile] obtain evs where
      e: "trace (snd ?r) = trace ?m @ EvStart [''bash'', ?sp] # evs" unfolding r by blast
    have "quiet is_remove ?w8 ?m" by simp
    then obtain pre where "trace ?m = trace ?w8 @ pre" unfolding quiet_iff by blast
    with e have "trace (snd ?r) = trace ?w8 @ (pre @ EvStart [''bash'', ?sp] # evs)" by simp
    then have "since ?w8 (snd ?r) = pre @ EvStart [''bash'', ?sp] # evs" by (rule since_append)
    then show "EvStart [''bash'', ?sp] \<in> set (since ?w8 (snd ?r))" by simp
  qed
  have p6: "mode_of info AND perm_0111 \<noteq> 0 \<longrightarrow>
               ?r = run_script task logFile ?w8 \<and> filter is_chmod (since ?w8 (snd ?r)) = []"
  proof
    assume z: "mode_of info AND perm_0111 \<noteq> 0"
    have rr: "?r = run_script task logFile ?w8" using r C [OF z] by simp
    have "quiet is_chmod ?w8 (snd (run_script task logFile ?w8))" by simp
    then have "filter is_chmod (since ?w8 (snd ?r)) = []" unfolding rr by (simp add: quiet_def)
    with rr show "?r = run_script task logFile ?w8 \<and> filter is_chmod (since ?w8 (snd ?r)) = []"
      by (intro conjI)
  qed
  have first: "mode_of info AND perm_0111 = 0 \<longrightarrow>
               (\<exists>evs. since ?w8 (snd ?r) = EvChmod ?sp perm_0755 # evs)
             \<and> perm_0755 AND owner_exec = owner_exec
             \<and> (fst ?c = None \<longrightarrow>
                   (\<exists>n. files ?w8 (abspath ?w8 ?sp) = Some n
                      \<and> files (snd ?c) = (files ?w8)(abspath ?w8 ?sp \<mapsto> set_mode perm_0755 n))
                 \<and> ?r = run_script task logFile (snd ?c))
             \<and> (\<forall>err. fst ?c = Some err \<longrightarrow>
                   files (snd ?c) = files ?w8
                 \<and> ?r = run_script task logFile (?warned err)
                 \<and> (\<exists>evs. since ?w8 (snd ?r) = EvChmod ?sp perm_0755 # EvWrite logFile # evs)
                 \<and> (\<forall>m d. fault w SysWrite logFile = None \<longrightarrow>
                        files ?w8 logFile = Some (File m d) \<longrightarrow>
                        files (?warned err) logFile
                          = Some (File m (d @ [Text (''['' @ Format_log (clock ?w8 (ticks ?w8))
                               @ ''] [WARNING] Failed to make script executable: '' @ Error err
                               @ [CHR 0x0A])]))))
             \<and> (fault w SysPipe ''stdout'' = None \<longrightarrow> fault w SysPipe ''stderr'' = None \<longrightarrow>
                   EvStart [''bash'', ?sp] \<in> set (since ?w8 (snd ?r)))"
  proof
    assume z: "mode_of info AND perm_0111 = 0"
    from p1 [OF z] exec_bits p3 [OF z] p4 [OF z] p5
    show "(\<exists>evs. since ?w8 (snd ?r) = EvChmod ?sp perm_0755 # evs)
             \<and> perm_0755 AND owner_exec = owner_exec
             \<and> (fst ?c = None \<longrightarrow>
                   (\<exists>n. files ?w8 (abspath ?w8 ?sp) = Some n
                      \<and> files (snd ?c) = (files ?w8)(abspath ?w8 ?sp \<mapsto> set_mode perm_0755 n))
                 \<and> ?r = run_script task logFile (snd ?c))
             \<and> (\<forall>err. fst ?c = Some err \<longrightarrow>
                   files (snd ?c) = files ?w8
                 \<and> ?r = run_script task logFile (?warned err)
                 \<and> (\<exists>evs. since ?w8 (snd ?r) = EvChmod ?sp perm_0755 # EvWrite logFile # evs)
                 \<and> (\<forall>m d. fault w SysWrite logFile = None \<longrightarrow>
                        files ?w8 logFile = Some (File m d) \<longrightarrow>
                        files (?warned err) logFile
                          = Some (File m (d @ [Text (''['' @ Format_log (clock ?w8 (ticks ?w8))
                               @ ''] [WARNING] Failed to make script executable: '' @ Error err
                               @ [CHR 0x0A])]))))
             \<and> (fault w SysPipe ''stdout'' = None \<longrightarrow> fault w SysPipe ''stderr'' = None \<longrightarrow>
                   EvStart [''bash'', ?sp] \<in> set (since ?w8 (snd ?r)))"
      by (intro conjI)
  qed
  show ?thesis unfolding Let_def using first p6 by (intro conjI)
qed

lemma os_OpenFile_other:
  "fst (os_OpenFile p fl m w) = Inr f \<Longrightarrow> q \<noteq> f \<Longrightarrow>
     files (snd (os_OpenFile p fl m w)) q = files w q"
  by (auto simp add: os_OpenFile_def emit_def Let_def split: option.splits node.splits if_splits)

lemma file_Write_other: "q \<noteq> h \<Longrightarrow> files (snd (file_Write h c w)) q = files w q"
  by (simp add: file_Write_def emit_def Let_def split: option.splits node.splits)

lemma writeLogEntry_other: "q \<noteq> h \<Longrightarrow> files (writeLogEntry h s w) q = files w q"
  by (simp add: writeLogEntry_def Let_def case_prod_beta file_Write_other)

lemma writeLogEntry_cwd [simp]: "cwd (writeLogEntry h s w) = cwd w"
  by (simp add: writeLogEntry_def Let_def case_prod_beta)

lemma os_Chdir_files [simp]: "files (snd (os_Chdir p w)) = files w"
  by (simp add: os_Chdir_def emit_def Let_def split: option.splits node.splits)

lemma os_Chdir_dir:
  "p \<noteq> [] \<Longrightarrow> fault w SysChdir p = None \<Longrightarrow> files w (abspath w p) = Some (Dir m) \<Longrightarrow>
     fst (os_Chdir p w) = None \<and> cwd (snd (os_Chdir p w)) = abspath w p"
  by (simp add: os_Chdir_def emit_def refusal_def Let_def)

lemma os_Stat_found:
  "p \<noteq> [] \<Longrightarrow> fault w SysStat p = None \<Longrightarrow> files w (abspath w p) = Some n \<Longrightarrow>
     fst (os_Stat p w) = Inr n"
  by (simp add: os_Stat_def refusal_def Let_def)

lemma open_log_and_enter_ok:
  assumes o: "fst (os_OpenFile (filepath_Join (LogPath task) ''deployment.log'') O_TRUNC perm_0644 w)
                = Inr lf"
    and p: "ProjectPath task \<noteq> []" "fault w SysChdir (ProjectPath task) = None"
      "files w (abspath w (ProjectPath task)) = Some (Dir m)" "abspath w (ProjectPath task) \<noteq> lf"
    and s: "DeploymentScriptPath task \<noteq> []" "fault w SysStat (DeploymentScriptPath task) = None"
      "IsAbs (DeploymentScriptPath task)"
      "files w (abspath w (DeploymentScriptPath task)) = Some info"
      "abspath w (DeploymentScriptPath task) \<noteq> lf"
  shows "fst (open_log_and_enter task w) = Inr (lf, info)"
proof -
  let ?lp = "filepath_Join (LogPath task) ''deployment.log''"
  let ?w1 = "snd (os_OpenFile ?lp O_TRUNC perm_0644 w)"
  let ?t = "fst (time_Now ?w1)"
  let ?w2 = "snd (time_Now ?w1)"
  let ?w3 = "writeLogEntry lf (''=== Deployment Started: '' @ Format_log ?t @ '' ==='') ?w2"
  let ?w4 = "writeLogEntry lf (''Project Path: '' @ ProjectPath task) ?w3"
  let ?w5 = "writeLogEntry lf (''Script Path: '' @ DeploymentScriptPath task) ?w4"
  let ?w6 = "writeLogEntry lf (''Task ID: '' @ TaskID task) ?w5"
  let ?w7 = "snd (os_Chdir (ProjectPath task) ?w6)"
  have other: "\<And>q. q \<noteq> lf \<Longrightarrow> files ?w6 q = files w q"
    by (simp add: writeLogEntry_other os_OpenFile_other [OF o])
  have c6: "cwd ?w6 = cwd w" by simp
  have a6: "\<And>q. abspath ?w6 q = abspath w q" using c6 by (rule abspath_cong)
  have f6: "fault ?w6 = fault w" by simp
  have d: "files ?w6 (abspath ?w6 (ProjectPath task)) = Some (Dir m)"
    unfolding a6 using other [OF p(4)] p(3) by simp
  have f6': "fault ?w6 SysChdir (ProjectPath task) = None" unfolding f6 by (rule p(2))
  note cd = os_Chdir_dir [OF p(1) f6' d]
  have a7: "abspath ?w7 (DeploymentScriptPath task) = abspath w (DeploymentScriptPath task)"
    using s(3) by (simp add: abspath_def)
  have i: "files ?w7 (abspath ?w7 (DeploymentScriptPath task)) = Some info"
    unfolding a7 using other [OF s(5)] s(4) by simp
  have f7: "fault ?w7 SysStat (DeploymentScriptPath task) = None" using s(2) by simp
  note st = os_Stat_found [OF s(1) f7 i]
  show ?thesis
    using o cd [THEN conjunct1] st
    by (simp add: open_log_and_enter_def Let_def case_prod_beta)
qed

theorem ExecuteDeployment_makes_script_executable_witness:
  "fst (open_log_and_enter task0 world_chmod_refused)
     = Inr (''/l/deployment.log'', File (perm 6 4 4) [Text ''echo hello''])
   \<and> fst (os_Chmod ''/p/deploy.sh'' perm_0755 (snd (open_log_and_enter task0 world_chmod_refused)))
       = Some (PathError ''chmod'' ''/p/deploy.sh'' EPERM)
   \<and> EvStart [''bash'', ''/p/deploy.sh'']
       \<in> set (since (snd (open_log_and_enter task0 world_chmod_refused))
                (snd (ExecuteDeployment task0 world_chmod_refused)))"
proof -
  let ?w = "world_chmod_refused"
  let ?w8 = "snd (open_log_and_enter task0 ?w)"
  have t: "LogPath task0 = ''/l''" "ProjectPath task0 = ''/p''"
    "DeploymentScriptPath task0 = ''/p/deploy.sh''"
    by (simp_all add: task0_def)
  have a: "\<And>u. abspath u ''/p'' = ''/p''" "\<And>u. abspath u ''/p/deploy.sh'' = ''/p/deploy.sh''"
    "\<And>u. abspath u ''/l/deployment.log'' = ''/l/deployment.log''"
    "filepath_Join ''/l'' ''deployment.log'' = ''/l/deployment.log''"
    "IsAbs ''/p/deploy.sh''"
    by (simp_all add: path_simps)
  have o: "fst (os_OpenFile (filepath_Join (LogPath task0) ''deployment.log'') O_TRUNC perm_0644 ?w)
      = Inr ''/l/deployment.log''"
    unfolding t a
    by (simp add: os_OpenFile_def a refusal_def dir_check_def filepath_Dir_def filepath_Clean_def
        clean_step_def IsAbs_def world_chmod_refused_def world0_def perm_simps emit_def Let_def)
  have fl: "fault ?w SysChdir ''/p'' = None" "fault ?w SysStat ''/p/deploy.sh'' = None"
    "fault ?w SysPipe ''stdout'' = None" "fault ?w SysPipe ''stderr'' = None"
    "fault ?w SysChmod ''/p/deploy.sh'' = Some EPERM"
    by (simp_all add: world_chmod_refused_def)
  have fs: "files ?w ''/p'' = Some (Dir (perm 7 5 5))"
    "files ?w ''/p/deploy.sh'' = Some (File (perm 6 4 4) [Text ''echo hello''])"
    by (simp_all add: world_chmod_refused_def world0_def)
  have h: "fst (open_log_and_enter task0 ?w)
     = Inr (''/l/deployment.log'', File (perm 6 4 4) [Text ''echo hello''])"
    by (rule open_log_and_enter_ok [where m = "perm 7 5 5"])
       (simp_all add: o [unfolded t a] t a fl fs)
  have f: "fault ?w8 = fault ?w" by simp
  have c: "fst (os_Chmod ''/p/deploy.sh'' perm_0755 ?w8)
       = Some (PathError ''chmod'' ''/p/deploy.sh'' EPERM)"
    by (simp add: os_Chmod_def refusal_def f fl Let_def)
  have m: "mode_of (File (perm 6 4 4) [Text ''echo hello'']) AND perm_0111 = 0"
    by (simp add: mode_of_def perm_simps)
  note inst = ExecuteDeployment_makes_script_executable [OF h, unfolded Let_def t]
  note first = inst [THEN conjunct1, THEN mp, OF m]
  note starts = first [THEN conjunct2, THEN conjunct2, THEN conjunct2, THEN conjunct2,
      THEN mp, THEN mp, OF fl(3) fl(4)]
  from h c starts show ?thesis by (intro conjI)
qed

subsection \<open>What a run leaves alone\<close>

lemma os_OpenFile_touches:
  "q \<noteq> abspath w p \<Longrightarrow> files (snd (os_OpenFile p fl m w)) q = files w q"
  by (simp add: os_OpenFile_def emit_def Let_def split: option.splits node.splits)

lemma os_OpenFile_handle: "fst (os_OpenFile p fl m w) = Inr f \<Longrightarrow> f = abspath w p"
  by (simp add: os_OpenFile_def emit_def Let_def split: option.splits node.splits if_splits)

lemma os_OpenFile_creates:
  "p \<noteq> [] \<Longrightarrow> fault w SysOpen p = None \<Longrightarrow> files w (abspath w p) = None \<Longrightarrow>
   files w (filepath_Dir (abspath w p)) = Some (Dir m) \<Longrightarrow> m AND owner_write \<noteq> 0 \<Longrightarrow>
     fst (os_OpenFile p fl pm w) = Inr (abspath w p)"
  by (simp add: os_OpenFile_def refusal_def dir_check_def emit_def Let_def)

lemma os_Chmod_other: "q \<noteq> abspath w p \<Longrightarrow> files (snd (os_Chmod p m w)) q = files w q"
  by (simp add: os_Chmod_def emit_def Let_def split: option.splits)

lemma os_Rename_other:
  "q \<noteq> abspath w old \<Longrightarrow> q \<noteq> abspath w new \<Longrightarrow> files (snd (os_Rename old new w)) q = files w q"
  by (simp add: os_Rename_def emit_def Let_def split: option.splits)

lemma os_Remove_missing:
  "files w (abspath w p) = None \<Longrightarrow> files (snd (os_Remove p w)) = files w"
  by (simp add: os_Remove_def emit_def Let_def split: option.splits)

lemma make_executable_other:
  "q \<noteq> h \<Longrightarrow> q \<noteq> abspath w (DeploymentScriptPath task) \<Longrightarrow>
     files (make_executable task h info w) q = files w q"
  by (simp add: make_executable_def Let_def case_prod_beta writeLogEntry_other os_Chmod_other
      split: option.splits)

lemma run_script_other: "q \<noteq> h \<Longrightarrow> files (snd (run_script task h w)) q = files w q"
  by (simp add: run_script_def Let_def case_prod_beta writeLogEntry_other run_readers_other
      split: option.splits)

lemma abspath_frames [simp]:
  "abspath (emit e w) p = abspath w p"
  "abspath (snd (time_Now w)) p = abspath w p"
  "abspath (snd (os_Stat q w)) p = abspath w p"
  "abspath (snd (os_OpenFile q fl m w)) p = abspath w p"
  "abspath (snd (os_ReadFile q w)) p = abspath w p"
  "abspath (snd (os_Chmod q m w)) p = abspath w p"
  "abspath (snd (os_Rename q q' w)) p = abspath w p"
  "abspath (snd (os_Remove q w)) p = abspath w p"
  "abspath (writeLogEntry h s w) p = abspath w p"
  by (rule abspath_cong, simp)+

lemma os_Chdir_cwd: "fst (os_Chdir p w) = None \<Longrightarrow> cwd (snd (os_Chdir p w)) = abspath w p"
  by (simp add: os_Chdir_def emit_def Let_def split: option.splits node.splits)

lemma open_log_and_enter_other:
  assumes q: "q \<noteq> abspath w (filepath_Join (LogPath task) ''deployment.log'')"
  shows "files (snd (open_log_and_enter task w)) q = files w q"
proof -
  let ?o = "os_OpenFile (filepath_Join (LogPath task) ''deployment.log'') O_TRUNC perm_0644 w"
  have h: "\<And>lf. fst ?o = Inr lf \<Longrightarrow> q \<noteq> lf" using q os_OpenFile_handle by blast
  show ?thesis
    using h
    by (simp add: open_log_and_enter_def Let_def case_prod_beta writeLogEntry_other
        os_OpenFile_touches [OF q] split: sum.splits option.splits)
qed

lemma open_log_and_enter_handle:
  assumes "fst (open_log_and_enter task w) = Inr (lf, info)"
  shows "lf = abspath w (filepath_Join (LogPath task) ''deployment.log'')"
proof -
  let ?o = "os_OpenFile (filepath_Join (LogPath task) ''deployment.log'') O_TRUNC perm_0644 w"
  from assms obtain f where f: "fst ?o = Inr f" and "lf = f"
    by (simp add: open_log_and_enter_def Let_def case_prod_beta
        split: sum.splits option.splits)
  with os_OpenFile_handle [OF f] show ?thesis by simp
qed

lemma cwd_composite [simp]:
  "cwd (make_executable task h info w) = cwd w"
  "cwd (snd (run_script task h w)) = cwd w"
  "cwd (WriteLog lp s w) = cwd w"
  "cwd (snd (RotateLog lp w)) = cwd w"
  by (simp_all add: make_executable_def run_script_def WriteLog_def
      RotateLog_def Let_def case_prod_beta split: option.splits sum.splits)

lemma open_log_and_enter_cwd:
  assumes "fst (open_log_and_enter task w) = Inr x"
  shows "cwd (snd (open_log_and_enter task w)) = abspath w (ProjectPath task)"
  using assms
  by (simp add: open_log_and_enter_def Let_def case_prod_beta os_Chdir_cwd
      split: sum.splits option.splits)

lemma abspath_abs: "IsAbs p \<Longrightarrow> abspath w p = filepath_Clean p"
  by (simp add: abspath_def)

lemma ExecuteDeployment_other:
  assumes "IsAbs (DeploymentScriptPath task)"
    and "q \<noteq> abspath w (filepath_Join (LogPath task) ''deployment.log'')"
    and "q \<noteq> filepath_Clean (DeploymentScriptPath task)"
  shows "files (snd (ExecuteDeployment task w)) q = files w q"
proof (cases "fst (open_log_and_enter task w)")
  case (Inl e)
  then show ?thesis
    using open_log_and_enter_other [OF assms(2)]
    by (simp add: ExecuteDeployment_def Let_def case_prod_beta)
next
  case (Inr x)
  obtain lf info where x: "x = (lf, info)" by (cases x)
  note h = Inr [unfolded x]
  have lf: "q \<noteq> lf" using open_log_and_enter_handle [OF h] assms(2) by simp
  let ?w8 = "snd (open_log_and_enter task w)"
  have sp: "q \<noteq> abspath ?w8 (DeploymentScriptPath task)"
    using assms(1,3) by (simp add: abspath_abs)
  show ?thesis
    unfolding ExecuteDeployment_entered [OF h]
    by (simp add: run_script_other [OF lf] make_executable_other [OF lf sp]
        open_log_and_enter_other [OF assms(2)])
qed

lemma WriteLog_other:
  assumes q: "q \<noteq> abspath w (filepath_Join lp ''deployment.log'')"
  shows "files (WriteLog lp s w) q = files w q"
proof -
  let ?o = "os_OpenFile (filepath_Join lp ''deployment.log'') O_APPEND perm_0644 w"
  have h: "\<And>lf. fst ?o = Inr lf \<Longrightarrow> q \<noteq> lf" using q os_OpenFile_handle by blast
  show ?thesis
    using h
    by (simp add: WriteLog_def Let_def case_prod_beta writeLogEntry_other
        os_OpenFile_touches [OF q] split: sum.splits)
qed

lemma RotateLog_other:
  assumes "q \<noteq> abspath w (filepath_Join lp ''deployment.log'')"
    and "q \<noteq> abspath w (filepath_Join lp
             (''deployment_'' @ Format_rotate (clock w (ticks w)) @ ''.log''))"
  shows "files (snd (RotateLog lp w)) q = files w q"
  using assms
  by (simp add: RotateLog_def Let_def case_prod_beta os_Rename_other)

lemma clock_composite [simp]:
  "clock (writeLogEntry h s w) = clock w"
  "clock (make_executable task h info w) = clock w"
  "clock (snd (run_script task h w)) = clock w"
  "clock (snd (open_log_and_enter task w)) = clock w"
  "clock (WriteLog lp s w) = clock w"
  "clock (snd (RotateLog lp w)) = clock w"
  by (simp_all add: writeLogEntry_def make_executable_def run_script_def open_log_and_enter_def
      WriteLog_def RotateLog_def Let_def case_prod_beta split: option.splits sum.splits)

lemma clock_ExecuteDeployment [simp]: "clock (snd (ExecuteDeployment task w)) = clock w"
  by (simp add: ExecuteDeployment_def Let_def case_prod_beta split: sum.splits)

subsection \<open>The output of the script in the log\<close>

lemma fmt_log_world0: "Format_log (clock world0 n) = ''2026-01-06 09:30:05''"
proof -
  have "Format_log (clock world0 n) = Format_log (clock world0 0)"
    by (simp add: Format_log_def world0_def)
  also have "\<dots> = ''2026-01-06 09:30:05''" by code_simp
  finally show ?thesis .
qed

lemma splitOn_replicate:
  "a \<noteq> c \<Longrightarrow> splitOn c (replicate n a @ c # rest) = replicate n a # splitOn c rest"
  by (induction n) simp_all

lemma small_line: "Suc (Suc (Suc (Suc (Suc (Suc 0))))) < MaxScanTokenSize"
  by (simp add: MaxScanTokenSize_def)

lemma Scanner_long: "Scanner_lines long_output = [''before'']"
  by (simp add: Scanner_lines_def raw_lines_def long_output_def splitOn_replicate dropCR_def
      small_line Let_def)

lemma Scanner_early:
  "Scanner_lines (take 4 (''one'' @ [CHR 0x0A] @ ''two'' @ [CHR 0x0A])) = [''one'']"
  by (simp add: Scanner_lines_def raw_lines_def dropCR_def MaxScanTokenSize_def Let_def)

lemma reader_finish_nil [simp]: "reader_finish h p (Scanning, []) w = w"
  by (subst reader_finish.simps) simp

lemma reader_finish_line:
  assumes "fault w SysWrite h = None"
  shows "reader_finish h p (Scanning, line # rest) w
     = reader_finish h p (Scanning, rest)
         (snd (file_Write h (logEntry (clock w (ticks w)) p line) (snd (time_Now w))))"
proof -
  let ?w1 = "snd (time_Now w)"
  let ?t = "clock w (ticks w)"
  let ?w2 = "snd (file_Write h (logEntry ?t p line) ?w1)"
  have 1: "reader_finish h p (Scanning, line # rest) w
      = reader_finish h p (Stamped line ?t, rest) ?w1"
    by (subst reader_finish.simps) (simp add: Let_def case_prod_beta)
  have 2: "reader_finish h p (Stamped line ?t, rest) ?w1 = reader_finish h p (Scanning, rest) ?w2"
    by (subst reader_finish.simps) (simp add: Let_def case_prod_beta assms)
  show ?thesis unfolding 1 2 ..
qed

lemma reader_finish_appends:
  "fault w SysWrite h = None \<Longrightarrow> files w h = Some (File m d) \<Longrightarrow>
     files (reader_finish h p (Scanning, ls) w) h
       = Some (File m (d @ entries (clock w) (ticks w) p ls))
     \<and> ticks (reader_finish h p (Scanning, ls) w) = ticks w + length ls"
proof (induction ls arbitrary: w d)
  case Nil
  then show ?case by simp
next
  case (Cons line rest)
  let ?E = "logEntry (clock w (ticks w)) p line"
  let ?w2 = "snd (file_Write h ?E (snd (time_Now w)))"
  have f: "fault ?w2 SysWrite h = None" using Cons.prems(1) by simp
  have c: "files ?w2 h = Some (File m (d @ [?E]))"
    using file_Write_files [of "snd (time_Now w)" h m d ?E] Cons.prems by simp
  have k: "clock ?w2 = clock w" "ticks ?w2 = Suc (ticks w)" by simp_all
  from Cons.IH [OF f c] show ?case
    unfolding reader_finish_line [OF Cons.prems(1)] k by simp
qed

lemma reader_finish_frame [simp]:
  "fault (reader_finish h p r w) = fault w"
  "cwd (reader_finish h p r w) = cwd w"
  "clock (reader_finish h p r w) = clock w"
  "bash (reader_finish h p r w) = bash w"
proof -
  show "fault (reader_finish h p r w) = fault w"
    by (rule reader_finish_invariant [where P = "\<lambda>u. fault u = fault w"]) simp_all
  show "cwd (reader_finish h p r w) = cwd w"
    by (rule reader_finish_invariant [where P = "\<lambda>u. cwd u = cwd w"]) simp_all
  show "clock (reader_finish h p r w) = clock w"
    by (rule reader_finish_invariant [where P = "\<lambda>u. clock u = clock w"]) simp_all
  show "bash (reader_finish h p r w) = bash w"
    by (rule reader_finish_invariant [where P = "\<lambda>u. bash u = bash w"]) simp_all
qed

lemma os_OpenFile_created:
  "p \<noteq> [] \<Longrightarrow> fault w SysOpen p = None \<Longrightarrow> files w (abspath w p) = None \<Longrightarrow>
   files w (filepath_Dir (abspath w p)) = Some (Dir m) \<Longrightarrow> m AND owner_write \<noteq> 0 \<Longrightarrow>
     files (snd (os_OpenFile p fl pm w)) (abspath w p) = Some (File pm [])"
  by (simp add: os_OpenFile_def refusal_def dir_check_def emit_def Let_def)

lemma writeLogEntry_ticks [simp]: "ticks (writeLogEntry h s w) = Suc (ticks w)"
  by (simp add: writeLogEntry_def Let_def case_prod_beta)

lemma open_log_and_enter_world:
  assumes "fst (open_log_and_enter task w) = Inr (lf, info)"
  shows "snd (open_log_and_enter task w)
    = snd (os_Stat (DeploymentScriptPath task)
       (snd (os_Chdir (ProjectPath task)
         (writeLogEntry lf (''Task ID: '' @ TaskID task)
           (writeLogEntry lf (''Script Path: '' @ DeploymentScriptPath task)
             (writeLogEntry lf (''Project Path: '' @ ProjectPath task)
               (writeLogEntry lf
                  (''=== Deployment Started: '' @ Format_log (clock w (ticks w)) @ '' ==='')
                  (snd (time_Now (snd (os_OpenFile
                     (filepath_Join (LogPath task) ''deployment.log'') O_TRUNC perm_0644 w)))))))))))"
  using assms
  by (simp add: open_log_and_enter_def Let_def case_prod_beta split: sum.splits option.splits)

lemma open_log_and_enter_log:
  assumes h: "fst (open_log_and_enter task w) = Inr (lf, info)"
    and c: "files (snd (os_OpenFile (filepath_Join (LogPath task) ''deployment.log'')
                     O_TRUNC perm_0644 w)) lf = Some (File m [])"
    and f: "fault w SysWrite lf = None"
  shows "files (snd (open_log_and_enter task w)) lf = Some (File m
      [Text (''['' @ Format_log (clock w (Suc (ticks w))) @ ''] '' @
         (''=== Deployment Started: '' @ Format_log (clock w (ticks w)) @ '' ==='') @ [CHR 0x0A]),
       Text (''['' @ Format_log (clock w (Suc (Suc (ticks w)))) @ ''] '' @
         (''Project Path: '' @ ProjectPath task) @ [CHR 0x0A]),
       Text (''['' @ Format_log (clock w (Suc (Suc (Suc (ticks w))))) @ ''] '' @
         (''Script Path: '' @ DeploymentScriptPath task) @ [CHR 0x0A]),
       Text (''['' @ Format_log (clock w (Suc (Suc (Suc (Suc (ticks w)))))) @ ''] '' @
         (''Task ID: '' @ TaskID task) @ [CHR 0x0A])])"
proof -
  let ?w1 = "snd (os_OpenFile (filepath_Join (LogPath task) ''deployment.log'') O_TRUNC perm_0644 w)"
  let ?w2 = "snd (time_Now ?w1)"
  let ?m1 = "''=== Deployment Started: '' @ Format_log (clock w (ticks w)) @ '' ===''"
  let ?m2 = "''Project Path: '' @ ProjectPath task"
  let ?m3 = "''Script Path: '' @ DeploymentScriptPath task"
  let ?m4 = "''Task ID: '' @ TaskID task"
  let ?w3 = "writeLogEntry lf ?m1 ?w2"
  let ?w4 = "writeLogEntry lf ?m2 ?w3"
  let ?w5 = "writeLogEntry lf ?m3 ?w4"
  let ?w6 = "writeLogEntry lf ?m4 ?w5"
  have c2: "files ?w2 lf = Some (File m [])" using c by simp
  have e3: "files ?w3 lf = Some (File m [Text (''['' @ Format_log (clock w (Suc (ticks w))) @ ''] ''
      @ ?m1 @ [CHR 0x0A])])"
    using writeLogEntry_appends [of ?w2 lf m "[]" ?m1] c2 f by simp
  have e4: "files ?w4 lf = Some (File m [Text (''['' @ Format_log (clock w (Suc (ticks w))) @ ''] ''
      @ ?m1 @ [CHR 0x0A]),
      Text (''['' @ Format_log (clock w (Suc (Suc (ticks w)))) @ ''] '' @ ?m2 @ [CHR 0x0A])])"
    using writeLogEntry_appends [of ?w3 lf m _ ?m2, OF _ e3] f by simp
  have e5: "files ?w5 lf = Some (File m [Text (''['' @ Format_log (clock w (Suc (ticks w))) @ ''] ''
      @ ?m1 @ [CHR 0x0A]),
      Text (''['' @ Format_log (clock w (Suc (Suc (ticks w)))) @ ''] '' @ ?m2 @ [CHR 0x0A]),
      Text (''['' @ Format_log (clock w (Suc (Suc (Suc (ticks w))))) @ ''] '' @ ?m3 @ [CHR 0x0A])])"
    using writeLogEntry_appends [of ?w4 lf m _ ?m3, OF _ e4] f by simp
  have e6: "files ?w6 lf = Some (File m [Text (''['' @ Format_log (clock w (Suc (ticks w))) @ ''] ''
      @ ?m1 @ [CHR 0x0A]),
      Text (''['' @ Format_log (clock w (Suc (Suc (ticks w)))) @ ''] '' @ ?m2 @ [CHR 0x0A]),
      Text (''['' @ Format_log (clock w (Suc (Suc (Suc (ticks w))))) @ ''] '' @ ?m3 @ [CHR 0x0A]),
      Text (''['' @ Format_log (clock w (Suc (Suc (Suc (Suc (ticks w)))))) @ ''] '' @ ?m4
        @ [CHR 0x0A])])"
    using writeLogEntry_appends [of ?w5 lf m _ ?m4, OF _ e5] f by simp
  show ?thesis
    unfolding open_log_and_enter_world [OF h] using e6 by simp
qed

lemma open_log_and_enter_ticks:
  assumes "fst (open_log_and_enter task w) = Inr (lf, info)"
  shows "ticks (snd (open_log_and_enter task w)) = ticks w + 5"
  unfolding open_log_and_enter_world [OF assms] by simp

lemma cmd_Start_in_ok:
  "fault w SysStart a = None \<Longrightarrow> dir \<noteq> [] \<Longrightarrow> fault w SysStat dir = None \<Longrightarrow>
   files w (abspath w dir) = Some (Dir m) \<Longrightarrow> fst (cmd_Start_in dir (a # as) w) = None"
  by (simp add: cmd_Start_in_def Let_def)

lemma run_script_sequential:
  assumes p: "fault w SysPipe ''stdout'' = None" "fault w SysPipe ''stderr'' = None"
    and s: "fst (cmd_Start_in (ProjectPath task) [''bash'', DeploymentScriptPath task] w) = None"
    and r: "bash w (ProjectPath task) (DeploymentScriptPath task) = run"
      "turns run = []" "exit_status run = 0"
    and o: "Scanner_lines (take (out_read run) (out_bytes run)) = outs"
      "Scanner_lines (take (err_read run) (err_bytes run)) = errs"
    and f: "fault w SysWrite h = None" and c: "files w h = Some (File m d)"
  shows "fst (run_script task h w) = None"
    and "files (snd (run_script task h w)) h = Some (File m
      (d @ entries (clock w) (ticks w) STDOUT outs
         @ entries (clock w) (ticks w + length outs) STDERR errs
         @ [Text (''['' @ Format_log (clock w (Suc (ticks w + length outs + length errs))) @ ''] ''
             @ (''=== Deployment Completed: ''
                  @ Format_log (clock w (ticks w + length outs + length errs)) @ '' ==='')
             @ [CHR 0x0A])]))"
proof -
  let ?argv = "[''bash'', DeploymentScriptPath task]"
  let ?w2 = "emit (EvWait ?argv) (snd (cmd_Start_in (ProjectPath task) ?argv w))"
  let ?wo = "reader_finish h STDOUT (Scanning, outs) ?w2"
  let ?w3 = "reader_finish h STDERR (Scanning, errs) ?wo"
  let ?n = "ticks w + length outs + length errs"
  let ?msg = "''=== Deployment Completed: '' @ Format_log (clock w ?n) @ '' ===''"
  have f2: "fault ?w2 SysWrite h = None" using f by simp
  have c2: "files ?w2 h = Some (File m d)" using c by simp
  note a1 = reader_finish_appends [OF f2 c2, of STDOUT outs]
  have fo: "fault ?wo SysWrite h = None" using f by simp
  note a2 = reader_finish_appends [OF fo a1 [THEN conjunct1], of STDERR errs]
  have t3: "ticks ?w3 = ?n" using a1 a2 by simp
  have k3: "clock ?w3 = clock w" by simp
  have c3: "files (snd (time_Now ?w3)) h = Some (File m
      ((d @ entries (clock w) (ticks w) STDOUT outs) @ entries (clock w) (ticks w + length outs) STDERR errs))"
    using a1 a2 by simp
  have f3: "fault (snd (time_Now ?w3)) SysWrite h = None" using f by simp
  have unf: "run_script task h w = (None, writeLogEntry h ?msg (snd (time_Now ?w3)))"
    using p s r o t3
    by (simp add: run_script_def cmd_Pipe_def Let_def case_prod_beta k3)
  show "fst (run_script task h w) = None" unfolding unf by simp
  show "files (snd (run_script task h w)) h = Some (File m
      (d @ entries (clock w) (ticks w) STDOUT outs
         @ entries (clock w) (ticks w + length outs) STDERR errs
         @ [Text (''['' @ Format_log (clock w (Suc ?n)) @ ''] '' @ ?msg @ [CHR 0x0A])]))"
    unfolding unf using writeLogEntry_appends [OF f3 c3, of ?msg] t3 by simp
qed

lemma entries_world0:
  "entries (clock world0) n p ls
     = map (\<lambda>l. Text (''[2026-01-06 09:30:05] ['' @ stream_name p @ ''] '' @ l @ [CHR 0x0A])) ls"
  by (induction ls arbitrary: n) (simp_all add: logEntry_def fmt_log_world0)

lemma os_Chmod_succeeds:
  "p \<noteq> [] \<Longrightarrow> fault w SysChmod p = None \<Longrightarrow> files w (abspath w p) = Some n \<Longrightarrow>
     fst (os_Chmod p m w) = None"
  by (simp add: os_Chmod_def refusal_def Let_def)

lemma bash_composite [simp]:
  "bash (writeLogEntry h s w) = bash w"
  "bash (make_executable task h info w) = bash w"
  "bash (snd (open_log_and_enter task w)) = bash w"
  by (simp_all add: writeLogEntry_def make_executable_def open_log_and_enter_def
      Let_def case_prod_beta split: option.splits sum.splits)

lemma ExecuteDeployment_world0_log:
  assumes r: "turns run = []" "exit_status run = 0"
    and o: "Scanner_lines (take (out_read run) (out_bytes run)) = outs"
      "Scanner_lines (take (err_read run) (err_bytes run)) = errs"
  shows "fst (ExecuteDeployment task0 (world0\<lparr>bash := \<lambda>_ _. run\<rparr>)) = None
    \<and> files (snd (ExecuteDeployment task0 (world0\<lparr>bash := \<lambda>_ _. run\<rparr>))) ''/l/deployment.log''
      = Some (File perm_0644
          ([Text (''[2026-01-06 09:30:05] === Deployment Started: 2026-01-06 09:30:05 ===''
                   @ [CHR 0x0A]),
            Text (''[2026-01-06 09:30:05] Project Path: /p'' @ [CHR 0x0A]),
            Text (''[2026-01-06 09:30:05] Script Path: /p/deploy.sh'' @ [CHR 0x0A]),
            Text (''[2026-01-06 09:30:05] Task ID: 7'' @ [CHR 0x0A])]
           @ map (\<lambda>l. Text (''[2026-01-06 09:30:05] [STDOUT] '' @ l @ [CHR 0x0A])) outs
           @ map (\<lambda>l. Text (''[2026-01-06 09:30:05] [STDERR] '' @ l @ [CHR 0x0A])) errs
           @ [Text (''[2026-01-06 09:30:05] === Deployment Completed: 2026-01-06 09:30:05 ===''
                   @ [CHR 0x0A])]))"
proof -
  let ?W = "world0\<lparr>bash := \<lambda>_ _. run\<rparr>"
  let ?lf = "''/l/deployment.log''"
  let ?info = "File (perm 6 4 4) [Text ''echo hello'']"
  have W: "files ?W = files world0" "fault ?W = (\<lambda>_ _. None)" "cwd ?W = ''/''"
    "clock ?W = clock world0" "bash ?W = (\<lambda>_ _. run)"
    by (simp_all add: world0_def)
  have t: "LogPath task0 = ''/l''" "ProjectPath task0 = ''/p''"
    "DeploymentScriptPath task0 = ''/p/deploy.sh''" "TaskID task0 = ''7''"
    by (simp_all add: task0_def)
  have a: "\<And>u. abspath u ''/p'' = ''/p''" "\<And>u. abspath u ''/p/deploy.sh'' = ''/p/deploy.sh''"
    "\<And>u. abspath u ''/l/deployment.log'' = ''/l/deployment.log''"
    "filepath_Join ''/l'' ''deployment.log'' = ''/l/deployment.log''"
    "IsAbs ''/p/deploy.sh''" "filepath_Dir ''/l/deployment.log'' = ''/l''"
    by (simp_all add: path_simps)
  have fs: "files world0 ''/p'' = Some (Dir (perm 7 5 5))"
    "files world0 ''/p/deploy.sh'' = Some ?info"
    "files world0 ''/l'' = Some (Dir (perm 7 5 5))" "files world0 ''/l/deployment.log'' = None"
    by (simp_all add: world0_def)
  have pw: "perm 7 5 5 AND owner_write \<noteq> 0" by (simp add: perm_simps)
  have f0: "fault world0 = (\<lambda>_ _. None)" by (simp add: world0_def)
  have o1: "fst (os_OpenFile (filepath_Join (LogPath task0) ''deployment.log'') O_TRUNC perm_0644 ?W)
      = Inr ?lf"
    unfolding t a
    using os_OpenFile_creates [of ?lf ?W "perm 7 5 5" O_TRUNC perm_0644]
    by (simp add: a W f0 fs pw)
  have o2: "files (snd (os_OpenFile (filepath_Join (LogPath task0) ''deployment.log'')
      O_TRUNC perm_0644 ?W)) ?lf = Some (File perm_0644 [])"
    unfolding t a
    using os_OpenFile_created [of ?lf ?W "perm 7 5 5" O_TRUNC perm_0644]
    by (simp add: a W f0 fs pw)
  have h: "fst (open_log_and_enter task0 ?W) = Inr (?lf, ?info)"
    by (rule open_log_and_enter_ok [where m = "perm 7 5 5"])
       (simp_all add: o1 [unfolded t a] t a W f0 fs)
  let ?w8 = "snd (open_log_and_enter task0 ?W)"
  have q8: "\<And>q. q \<noteq> ?lf \<Longrightarrow> files ?w8 q = files world0 q"
    using open_log_and_enter_other [of _ ?W task0] by (simp add: t a W)
  have w8: "fault ?w8 = (\<lambda>_ _. None)" "clock ?w8 = clock world0" "bash ?w8 = (\<lambda>_ _. run)"
    by (simp_all add: W)
  have l8: "files ?w8 ?lf = Some (File perm_0644
          [Text (''[2026-01-06 09:30:05] === Deployment Started: 2026-01-06 09:30:05 ===''
                   @ [CHR 0x0A]),
            Text (''[2026-01-06 09:30:05] Project Path: /p'' @ [CHR 0x0A]),
            Text (''[2026-01-06 09:30:05] Script Path: /p/deploy.sh'' @ [CHR 0x0A]),
            Text (''[2026-01-06 09:30:05] Task ID: 7'' @ [CHR 0x0A])])"
    using open_log_and_enter_log [OF h o2] by (simp add: W f0 t fmt_log_world0)
  \<comment> \<open>the script is made executable\<close>
  let ?c = "os_Chmod ''/p/deploy.sh'' perm_0755 ?w8"
  have ch: "fst ?c = None"
    by (rule os_Chmod_succeeds [where n = ?info]) (simp_all add: w8 f0 a q8 fs)
  have m: "mode_of ?info AND perm_0111 = 0" by (simp add: mode_of_def perm_simps)
  have w9: "make_executable task0 ?lf ?info ?w8 = snd ?c"
    using m ch by (simp add: make_executable_def t Let_def case_prod_beta)
  have e: "ExecuteDeployment task0 ?W = run_script task0 ?lf (snd ?c)"
    unfolding ExecuteDeployment_entered [OF h] w9 ..
  have q9: "\<And>q. q \<noteq> ''/p/deploy.sh'' \<Longrightarrow> files (snd ?c) q = files ?w8 q"
    using os_Chmod_other [of _ ?w8 "''/p/deploy.sh''" perm_0755] by (simp add: a)
  have l9: "files (snd ?c) ?lf = files ?w8 ?lf" by (rule q9) simp
  have d9: "files (snd ?c) ''/p'' = Some (Dir (perm 7 5 5))"
    by (simp add: q9 q8 fs)
  have st: "fst (cmd_Start_in (ProjectPath task0) [''bash'', DeploymentScriptPath task0] (snd ?c))
      = None"
    unfolding t
    by (rule cmd_Start_in_ok [where m = "perm 7 5 5"]) (simp_all add: w8 f0 a d9)
  note rs = run_script_sequential [of "snd ?c" task0 run outs errs ?lf perm_0644, OF _ _ st _ r o _ l9 [unfolded l8]]
  have rs1: "fst (run_script task0 ?lf (snd ?c)) = None"
    by (rule rs(1)) (simp_all add: w8 f0)
  have rs2: "files (snd (run_script task0 ?lf (snd ?c))) ?lf = Some (File perm_0644
          ([Text (''[2026-01-06 09:30:05] === Deployment Started: 2026-01-06 09:30:05 ===''
                   @ [CHR 0x0A]),
            Text (''[2026-01-06 09:30:05] Project Path: /p'' @ [CHR 0x0A]),
            Text (''[2026-01-06 09:30:05] Script Path: /p/deploy.sh'' @ [CHR 0x0A]),
            Text (''[2026-01-06 09:30:05] Task ID: 7'' @ [CHR 0x0A])]
           @ map (\<lambda>l. Text (''[2026-01-06 09:30:05] [STDOUT] '' @ l @ [CHR 0x0A])) outs
           @ map (\<lambda>l. Text (''[2026-01-06 09:30:05] [STDERR] '' @ l @ [CHR 0x0A])) errs
           @ [Text (''[2026-01-06 09:30:05] === Deployment Completed: 2026-01-06 09:30:05 ===''
                   @ [CHR 0x0A])]))"
    using rs(2) by (simp add: w8 f0 entries_world0 fmt_log_world0 stream_name_def)
  show ?thesis unfolding e using rs1 rs2 by (intro conjI)
qed

lemma readAndLogOutput_appends:
  "fault w SysWrite h = None \<Longrightarrow> files w h = Some (File m d) \<Longrightarrow>
     files (readAndLogOutput pipe h p w) h
       = Some (File m (d @ entries (clock w) (ticks w) p (Scanner_lines pipe)))"
  unfolding readAndLogOutput_def using reader_finish_appends by blast

lemma run_readers_sequential:
  "run_readers h [] (Scanning, Scanner_lines out) (Scanning, Scanner_lines err) w
     = readAndLogOutput err h STDERR (readAndLogOutput out h STDOUT w)"
  by (simp add: readAndLogOutput_def)

text \<open>
  A reader that runs alone logs exactly the lines its scanner yields, once each, in their
  order and under the name of its stream (\<open>readAndLogOutput_appends\<close>). What is lost is
  lost before that: the scanner yields no line from a line of \<open>MaxScanTokenSize\<close> bytes
  on, and the reader gets no byte that is still in the pipe when the wait closes it.

  C2 fails on the code. In \<open>world_long_line\<close> the script writes three lines to its
  standard output, the second of them \<open>MaxScanTokenSize\<close> bytes long, and exits with
  status 0: the log has the first line only, and the run ends as a success with the
  \<^verbatim>\<open>Deployment Completed\<close> entry. In \<open>world_early_exit\<close> the script writes two lines
  and exits while the reader has read the first; the wait, called before the readers are
  done, closes the pipe, and the second line is not in the log of a run that ends as a
  success.
\<close>

theorem script_output_lines_lost:
  "raw_lines (out_bytes (bash world_long_line ''/p'' ''/p/deploy.sh''))
     = [''before'', replicate MaxScanTokenSize (CHR ''x''), ''after'']
   \<and> Scanner_lines long_output = [''before'']
   \<and> fst (ExecuteDeployment task0 world_long_line) = None
   \<and> files (snd (ExecuteDeployment task0 world_long_line)) ''/l/deployment.log''
      = Some (File perm_0644
          [Text (''[2026-01-06 09:30:05] === Deployment Started: 2026-01-06 09:30:05 ===''
                   @ [CHR 0x0A]),
           Text (''[2026-01-06 09:30:05] Project Path: /p'' @ [CHR 0x0A]),
           Text (''[2026-01-06 09:30:05] Script Path: /p/deploy.sh'' @ [CHR 0x0A]),
           Text (''[2026-01-06 09:30:05] Task ID: 7'' @ [CHR 0x0A]),
           Text (''[2026-01-06 09:30:05] [STDOUT] before'' @ [CHR 0x0A]),
           Text (''[2026-01-06 09:30:05] === Deployment Completed: 2026-01-06 09:30:05 ===''
                   @ [CHR 0x0A])])
   \<and> raw_lines (out_bytes (bash world_early_exit ''/p'' ''/p/deploy.sh'')) = [''one'', ''two'']
   \<and> fst (ExecuteDeployment task0 world_early_exit) = None
   \<and> files (snd (ExecuteDeployment task0 world_early_exit)) ''/l/deployment.log''
      = Some (File perm_0644
          [Text (''[2026-01-06 09:30:05] === Deployment Started: 2026-01-06 09:30:05 ===''
                   @ [CHR 0x0A]),
           Text (''[2026-01-06 09:30:05] Project Path: /p'' @ [CHR 0x0A]),
           Text (''[2026-01-06 09:30:05] Script Path: /p/deploy.sh'' @ [CHR 0x0A]),
           Text (''[2026-01-06 09:30:05] Task ID: 7'' @ [CHR 0x0A]),
           Text (''[2026-01-06 09:30:05] [STDOUT] one'' @ [CHR 0x0A]),
           Text (''[2026-01-06 09:30:05] === Deployment Completed: 2026-01-06 09:30:05 ===''
                   @ [CHR 0x0A])])"
proof -
  have w1: "raw_lines (out_bytes (bash world_long_line ''/p'' ''/p/deploy.sh''))
     = [''before'', replicate MaxScanTokenSize (CHR ''x''), ''after'']"
    by (simp add: world_long_line_def long_output_def raw_lines_def splitOn_replicate Let_def)
  have w2: "raw_lines (out_bytes (bash world_early_exit ''/p'' ''/p/deploy.sh'')) = [''one'', ''two'']"
    by (simp add: world_early_exit_def raw_lines_def Let_def)
  have e: "Scanner_lines (take 0 []) = []"
    by (simp add: Scanner_lines_def raw_lines_def Let_def)
  have l: "Scanner_lines (take (length long_output) long_output) = [''before'']"
    by (simp add: Scanner_long)
  note long = ExecuteDeployment_world0_log
    [of "\<lparr>out_bytes = long_output, err_bytes = [], exit_status = 0,
           out_read = length long_output, err_read = 0, turns = []\<rparr>" "[''before'']" "[]"]
  note early = ExecuteDeployment_world0_log
    [of "\<lparr>out_bytes = ''one'' @ [CHR 0x0A] @ ''two'' @ [CHR 0x0A],
           err_bytes = [], exit_status = 0, out_read = 4, err_read = 0, turns = []\<rparr>"
        "[''one'']" "[]"]
  have 1: "fst (ExecuteDeployment task0 world_long_line) = None
   \<and> files (snd (ExecuteDeployment task0 world_long_line)) ''/l/deployment.log''
      = Some (File perm_0644
          [Text (''[2026-01-06 09:30:05] === Deployment Started: 2026-01-06 09:30:05 ===''
                   @ [CHR 0x0A]),
           Text (''[2026-01-06 09:30:05] Project Path: /p'' @ [CHR 0x0A]),
           Text (''[2026-01-06 09:30:05] Script Path: /p/deploy.sh'' @ [CHR 0x0A]),
           Text (''[2026-01-06 09:30:05] Task ID: 7'' @ [CHR 0x0A]),
           Text (''[2026-01-06 09:30:05] [STDOUT] before'' @ [CHR 0x0A]),
           Text (''[2026-01-06 09:30:05] === Deployment Completed: 2026-01-06 09:30:05 ===''
                   @ [CHR 0x0A])])"
    unfolding world_long_line_def using long l e by simp
  have 2: "fst (ExecuteDeployment task0 world_early_exit) = None
   \<and> files (snd (ExecuteDeployment task0 world_early_exit)) ''/l/deployment.log''
      = Some (File perm_0644
          [Text (''[2026-01-06 09:30:05] === Deployment Started: 2026-01-06 09:30:05 ===''
                   @ [CHR 0x0A]),
           Text (''[2026-01-06 09:30:05] Project Path: /p'' @ [CHR 0x0A]),
           Text (''[2026-01-06 09:30:05] Script Path: /p/deploy.sh'' @ [CHR 0x0A]),
           Text (''[2026-01-06 09:30:05] Task ID: 7'' @ [CHR 0x0A]),
           Text (''[2026-01-06 09:30:05] [STDOUT] one'' @ [CHR 0x0A]),
           Text (''[2026-01-06 09:30:05] === Deployment Completed: 2026-01-06 09:30:05 ===''
                   @ [CHR 0x0A])])"
    unfolding world_early_exit_def using early Scanner_early e by simp
  show ?thesis using w1 Scanner_long 1 w2 2 by (intro conjI) simp_all
qed

subsection \<open>A relative temporary directory\<close>

lemma fg_eval:
  "fst (handleDeploy ''/p'' ''/p/deploy.sh'' ''/l'' world_relative_tmp) = 0
   \<and> files (snd (handleDeploy ''/p'' ''/p/deploy.sh'' ''/l'' world_relative_tmp))
       = (files world0)(''/tmp/deploy_task_0.json'' \<mapsto> File perm_0600 [Json (JObject
          [(''ProjectPath'', JString ''/p''),
           (''DeploymentScriptPath'', JString ''/p/deploy.sh''),
           (''LogPath'', JString ''/l''),
           (''TaskID'', JString ''7''),
           (''CreatedAt'', JTime (clock world0 1))])])
   \<and> last (trace (snd (handleDeploy ''/p'' ''/p/deploy.sh'' ''/l'' world_relative_tmp)))
       = EvStart [''/bin/deploygo'', ''internal-run'', ''--taskFile'', ''tmp/deploy_task_0.json'']
   \<and> clock (snd (handleDeploy ''/p'' ''/p/deploy.sh'' ''/l'' world_relative_tmp)) = clock world0"
  apply (simp add: eval_simps path_simps perm_simps world_relative_tmp_def world0_def)
  apply (subst CreateTemp_loop.simps)
  apply (simp add: eval_simps path_simps perm_simps)
  apply (subst CreateTemp_loop.simps)
  apply (simp add: eval_simps path_simps perm_simps)
  apply (subst CreateTemp_loop.simps)
  apply (simp add: eval_simps path_simps perm_simps)
  apply (subst CreateTemp_loop.simps)
  apply (simp add: eval_simps path_simps perm_simps)
  done

lemma fmt_rotate_world0: "Format_rotate (clock world0 n) = ''20260106_093005''"
proof -
  have "Format_rotate (clock world0 n) = Format_rotate (clock world0 0)"
    by (simp add: Format_rotate_def world0_def)
  then show ?thesis by (simp add: fmt0)
qed

text \<open>
  C3 fails on the code when the temporary directory is a relative path. In
  \<open>world_relative_tmp\<close> the foreground invocation exits with status 0, having created
  the one task file \<^verbatim>\<open>/tmp/deploy_task_0.json\<close>, and hands its relative name
  \<^verbatim>\<open>tmp/deploy_task_0.json\<close> to the background process. The background run reads
  and parses the file, \<^verbatim>\<open>ExecuteDeployment\<close> changes the working directory to the
  project directory \<^verbatim>\<open>/p\<close>, and the one remove call, the last system call of the run,
  is made with the relative name from there: it misses the file. The run exits with
  status 0 and the task file is still where the foreground invocation created it.
\<close>

theorem task_file_left_behind_relative_tempdir:
  "let fg = handleDeploy ''/p'' ''/p/deploy.sh'' ''/l'' world_relative_tmp;
       name = ''tmp/deploy_task_0.json'';
       task_file = File perm_0600 [Json (JObject
          [(''ProjectPath'', JString ''/p''),
           (''DeploymentScriptPath'', JString ''/p/deploy.sh''),
           (''LogPath'', JString ''/l''),
           (''TaskID'', JString ''7''),
           (''CreatedAt'', JTime (clock world0 1))])];
       bg = handleInternalRun name (snd fg)
   in fst fg = 0
    \<and> files (snd fg) = (files world_relative_tmp)(''/tmp/deploy_task_0.json'' \<mapsto> task_file)
    \<and> last (trace (snd fg)) = EvStart [''/bin/deploygo'', ''internal-run'', ''--taskFile'', name]
    \<and> fst bg = 0
    \<and> filter is_remove (since (snd fg) (snd bg)) = [EvRemove name]
    \<and> last (trace (snd bg)) = EvRemove name
    \<and> cwd (snd bg) = ''/p''
    \<and> files (snd bg) ''/tmp/deploy_task_0.json'' = Some task_file"
proof -
  let ?W = "snd (handleDeploy ''/p'' ''/p/deploy.sh'' ''/l'' world_relative_tmp)"
  let ?name = "''tmp/deploy_task_0.json''"
  let ?d = "Json (JObject
          [(''ProjectPath'', JString ''/p''),
           (''DeploymentScriptPath'', JString ''/p/deploy.sh''),
           (''LogPath'', JString ''/l''),
           (''TaskID'', JString ''7''),
           (''CreatedAt'', JTime (clock world0 1))])"
  let ?bg = "handleInternalRun ?name ?W"
  note fg = fg_eval
  have fW: "files ?W = (files world0)(''/tmp/deploy_task_0.json'' \<mapsto> File perm_0600 [?d])"
    using fg by simp
  have cW: "cwd ?W = ''/''" "fault ?W = (\<lambda>_ _. None)" "clock ?W = clock world0"
    using fg by (simp_all add: world_relative_tmp_def world0_def)
  have fr: "files world_relative_tmp = files world0" "cwd world_relative_tmp = ''/''"
    "fault world_relative_tmp = (\<lambda>_ _. None)"
    by (simp_all add: world_relative_tmp_def world0_def)
  \<comment> \<open>names\<close>
  have n0: "\<And>u. cwd u = ''/'' \<Longrightarrow> abspath u ?name = ''/tmp/deploy_task_0.json''"
    and n1: "\<And>u. cwd u = ''/p'' \<Longrightarrow> abspath u ?name = ''/p/tmp/deploy_task_0.json''"
    by (simp_all add: path_simps)
  have a: "\<And>u. abspath u ''/p'' = ''/p''" "\<And>u. abspath u ''/p/deploy.sh'' = ''/p/deploy.sh''"
    "\<And>u. abspath u ''/l/deployment.log'' = ''/l/deployment.log''"
    "\<And>u. abspath u ''/l/deployment_20260106_093005.log'' = ''/l/deployment_20260106_093005.log''"
    "filepath_Join ''/l'' ''deployment.log'' = ''/l/deployment.log''"
    "filepath_Join ''/l'' ''deployment_20260106_093005.log'' = ''/l/deployment_20260106_093005.log''"
    "IsAbs ''/p/deploy.sh''" "filepath_Clean ''/p/deploy.sh'' = ''/p/deploy.sh''"
    "filepath_Dir ''/l/deployment.log'' = ''/l''"
    by (simp_all add: path_simps)
  have t: "LogPath task0 = ''/l''" "ProjectPath task0 = ''/p''"
    "DeploymentScriptPath task0 = ''/p/deploy.sh''"
    by (simp_all add: task0_def)
  \<comment> \<open>the background run reads the file and parses it\<close>
  have rd: "fst (os_ReadFile ?name ?W) = Inr [?d]"
    by (rule os_ReadFile_file) (simp_all add: fr n0 [OF cW(1)] fW)
  have m: "json_Marshal task0 = Inr ?d"
    by (simp add: json_Marshal_def task0_def world0_def)
  have va: "toValidUTF8 ''/p'' = ''/p''" "toValidUTF8 ''/p/deploy.sh'' = ''/p/deploy.sh''"
    "toValidUTF8 ''/l'' = ''/l''" "toValidUTF8 ''7'' = ''7''"
    by (simp_all add: toValidUTF8_ascii)
  have un: "json_Unmarshal [?d] = Inr task0"
    using json_roundtrip [OF m] by (simp add: task0_def va)
  note good = handleInternalRun_good [OF rd un]
  \<comment> \<open>the worlds of the background run\<close>
  let ?w1 = "snd (os_ReadFile ?name ?W)"
  let ?e = "ExecuteDeployment task0 ?w1"
  let ?w3 = "case fst ?e of
                  Some err \<Rightarrow>
                    WriteLog (LogPath task0) (''[ERROR] Deployment failed: '' @ Error err) (snd ?e)
                | None \<Rightarrow>
                    WriteLog (LogPath task0) ''[SUCCESS] Deployment completed successfully'' (snd ?e)"
  let ?w4 = "snd (RotateLog (LogPath task0) ?w3)"
  have unf: "?bg = (0, snd (os_Remove ?name ?w4))"
    using rd un by (simp add: handleInternalRun_def Let_def case_prod_beta)
  have f1: "files ?w1 = files ?W" "cwd ?w1 = ''/''" "fault ?w1 = (\<lambda>_ _. None)"
    "clock ?w1 = clock world0"
    using cW by (simp_all add: fr)
  have o: "fst (os_OpenFile (filepath_Join (LogPath task0) ''deployment.log'') O_TRUNC perm_0644 ?w1)
      = Inr ''/l/deployment.log''"
    unfolding t a
    using os_OpenFile_creates [of "''/l/deployment.log''" ?w1 "perm 7 5 5" O_TRUNC perm_0644]
    by (simp add: a f1 fW fr world0_def perm_simps)
  have h: "fst (open_log_and_enter task0 ?w1)
     = Inr (''/l/deployment.log'', File (perm 6 4 4) [Text ''echo hello''])"
    by (rule open_log_and_enter_ok [where m = "perm 7 5 5"])
       (simp_all add: o [unfolded t a] t a f1 fW fr world0_def)
  have c8: "cwd (snd (open_log_and_enter task0 ?w1)) = ''/p''"
    using open_log_and_enter_cwd [OF h] by (simp add: t a)
  have ce: "cwd (snd ?e) = ''/p''"
    unfolding ExecuteDeployment_entered [OF h] by (simp add: c8)
  have c3: "cwd ?w3 = ''/p''" using ce by (simp split: option.splits)
  have c4: "cwd ?w4 = ''/p''" using c3 by simp
  \<comment> \<open>no file but the script and the logs is touched\<close>
  have k3: "clock ?w3 = clock world0" using f1(4) by (simp split: option.splits)
  have keep: "files ?w4 q = files ?W q"
    if "q \<noteq> ''/l/deployment.log''" "q \<noteq> ''/p/deploy.sh''"
      "q \<noteq> ''/l/deployment_20260106_093005.log''" for q
  proof -
    have "files ?w4 q = files ?w3 q"
      by (rule RotateLog_other) (simp_all add: t a k3 fmt_rotate_world0 that)
    also have "\<dots> = files (snd ?e) q"
      by (simp add: WriteLog_other t a that split: option.splits)
    also have "\<dots> = files ?w1 q"
      by (rule ExecuteDeployment_other) (simp_all add: t a that)
    finally show ?thesis by (simp add: f1)
  qed
  have gone: "files ?w4 (abspath ?w4 ?name) = None"
    unfolding n1 [OF c4] by (simp add: keep fW world0_def)
  have f5: "files (snd ?bg) = files ?w4"
    unfolding unf using os_Remove_missing [OF gone] by simp
  have still: "files (snd ?bg) ''/tmp/deploy_task_0.json'' = Some (File perm_0600 [?d])"
    unfolding f5 by (simp add: keep fW)
  have c5: "cwd (snd ?bg) = ''/p''" unfolding unf using c4 by simp
  from good obtain evs where
    ev: "trace (snd ?bg) = trace ?W @ evs @ [EvRemove ?name]" "filter is_remove evs = []"
    by blast
  have la: "last (trace (snd ?bg)) = EvRemove ?name" unfolding ev(1) by simp
  have "since ?W (snd ?bg) = evs @ [EvRemove ?name]" by (rule since_append) (rule ev(1))
  then have rm: "filter is_remove (since ?W (snd ?bg)) = [EvRemove ?name]"
    using ev(2) by simp
  have st: "fst ?bg = 0" unfolding unf by simp
  show ?thesis
    unfolding Let_def fr(1)
    using fg [THEN conjunct1] fW fg [THEN conjunct2, THEN conjunct2, THEN conjunct1]
      st rm la c5 still
    by (intro conjI)
qed

end
